theory Spec2Isabelle
  imports Complex_Main
begin

section \<open>Errors\<close>

text \<open>
  Every exception the notebook can meet is a value. Nothing in the notebook catches one,
  so every operation below returns \<open>error + 'a\<close> and the first \<open>Inl\<close> is the result.
\<close>

datatype error =
    RuntimeError
  | IndexError
  | TypeError
  | ValueError
  | ZeroDivisionError
  | ConnectionError
  | MlflowException
  | NotANumber

section \<open>Tensors\<close>

text \<open>
  A tensor is its shape and its elements in row-major order. Floating-point numbers are
  modelled as reals: rounding, overflow and NaN are outside the model. Strides and devices
  are not modelled either.
\<close>

record tensor =
  shape :: "nat list"
  data :: "real list"

definition numel :: "tensor \<Rightarrow> nat" where
  "numel t = length (data t)"

definition tensor_ok :: "tensor \<Rightarrow> bool" where
  "tensor_ok t \<longleftrightarrow> length (data t) = prod_list (shape t)"

text \<open>\<^verbatim>\<open>x.view(-1, k)\<close>: the first dimension is inferred from the element count.\<close>

definition view_rows :: "tensor \<Rightarrow> nat \<Rightarrow> error + tensor" where
  "view_rows x k =
     (if k \<noteq> 0 \<and> numel x mod k = 0
      then Inr \<lparr>shape = [numel x div k, k], data = data x\<rparr>
      else Inl RuntimeError)"

text \<open>\<^verbatim>\<open>torch.relu\<close> works element by element.\<close>

definition relu :: "tensor \<Rightarrow> tensor" where
  "relu x = \<lparr>shape = shape x, data = map (max 0) (data x)\<rparr>"

text \<open>\<^verbatim>\<open>x.unsqueeze(0)\<close> and \<^verbatim>\<open>x.squeeze()\<close>.\<close>

definition unsqueeze0 :: "tensor \<Rightarrow> tensor" where
  "unsqueeze0 x = \<lparr>shape = 1 # shape x, data = data x\<rparr>"

definition squeeze :: "tensor \<Rightarrow> tensor" where
  "squeeze x = \<lparr>shape = filter (\<lambda>d. d \<noteq> 1) (shape x), data = data x\<rparr>"

section \<open>The model: SimpleNN\<close>

text \<open>
  \<^verbatim>\<open>nn.Linear(i, o)\<close> holds an \<open>o \<times> i\<close> weight matrix and a bias vector of length \<open>o\<close>.
  The sizes are fields of the layer and the entries are read through functions of the
  indices, so no update of the entries can change a size.
\<close>

type_synonym layer_params = "(nat \<Rightarrow> nat \<Rightarrow> real) \<times> (nat \<Rightarrow> real)"

type_synonym params = "layer_params \<times> layer_params \<times> layer_params"

record Linear =
  in_features :: nat
  out_features :: nat
  weight :: "nat \<Rightarrow> nat \<Rightarrow> real"
  bias :: "nat \<Rightarrow> real"

definition nn_Linear :: "nat \<Rightarrow> nat \<Rightarrow> layer_params \<Rightarrow> Linear" where
  "nn_Linear i o' wb = \<lparr>in_features = i, out_features = o', weight = fst wb, bias = snd wb\<rparr>"

text \<open>One output row: \<open>y\<^sub>i = (\<Sum>j. x\<^sub>j * W\<^sub>i\<^sub>j) + b\<^sub>i\<close>.\<close>

definition affine :: "Linear \<Rightarrow> real list \<Rightarrow> real list" where
  "affine L row =
     map (\<lambda>i. sum_list (map (\<lambda>j. row ! j * weight L i j) [0..<in_features L]) + bias L i)
       [0..<out_features L]"

definition rows :: "nat \<Rightarrow> nat \<Rightarrow> 'a list \<Rightarrow> 'a list list" where
  "rows n k xs = map (\<lambda>i. take k (drop (i * k) xs)) [0..<n]"

text \<open>The layer applied to every row, with no check of the shape.\<close>

definition Linear_apply :: "Linear \<Rightarrow> tensor \<Rightarrow> tensor" where
  "Linear_apply L x =
     \<lparr>shape = butlast (shape x) @ [out_features L],
      data = concat (map (affine L) (rows (prod_list (butlast (shape x))) (in_features L) (data x)))\<rparr>"

text \<open>Calling the layer: the last dimension of the input must be \<open>in_features\<close>.\<close>

definition Linear_forward :: "Linear \<Rightarrow> tensor \<Rightarrow> error + tensor" where
  "Linear_forward L x =
     (if shape x \<noteq> [] \<and> last (shape x) = in_features L
      then Inr (Linear_apply L x)
      else Inl RuntimeError)"

record SimpleNN =
  fc1 :: Linear
  fc2 :: Linear
  fc3 :: Linear
  training :: bool

text \<open>
  \<^verbatim>\<open>SimpleNN()\<close>. The library draws the initial entries at random; they are the
  argument here. A new module is in training mode.
\<close>

definition SimpleNN_init :: "params \<Rightarrow> SimpleNN" where
  "SimpleNN_init p =
     \<lparr>fc1 = nn_Linear (28 * 28) 128 (fst p),
      fc2 = nn_Linear 128 64 (fst (snd p)),
      fc3 = nn_Linear 64 10 (snd (snd p)),
      training = True\<rparr>"

definition parameters :: "SimpleNN \<Rightarrow> params" where
  "parameters m =
     ((weight (fc1 m), bias (fc1 m)), (weight (fc2 m), bias (fc2 m)), (weight (fc3 m), bias (fc3 m)))"

text \<open>Writing new entries into the parameter tensors, as the optimizer does in place.\<close>

definition set_layer :: "Linear \<Rightarrow> layer_params \<Rightarrow> Linear" where
  "set_layer L wb = L\<lparr>weight := fst wb, bias := snd wb\<rparr>"

definition set_parameters :: "SimpleNN \<Rightarrow> params \<Rightarrow> SimpleNN" where
  "set_parameters m p =
     m\<lparr>fc1 := set_layer (fc1 m) (fst p),
       fc2 := set_layer (fc2 m) (fst (snd p)),
       fc3 := set_layer (fc3 m) (snd (snd p))\<rparr>"

definition train_mode :: "SimpleNN \<Rightarrow> SimpleNN" where
  "train_mode m = m\<lparr>training := True\<rparr>"

definition eval_mode :: "SimpleNN \<Rightarrow> SimpleNN" where
  "eval_mode m = m\<lparr>training := False\<rparr>"

text \<open>\<^verbatim>\<open>SimpleNN.forward\<close>, statement by statement.\<close>

definition forward :: "SimpleNN \<Rightarrow> tensor \<Rightarrow> error + tensor" where
  "forward m x =
     (case view_rows x (28 * 28) of
        Inl e \<Rightarrow> Inl e
      | Inr x0 \<Rightarrow>
     (case Linear_forward (fc1 m) x0 of
        Inl e \<Rightarrow> Inl e
      | Inr h1 \<Rightarrow>
     (let x1 = relu h1 in
     (case Linear_forward (fc2 m) x1 of
        Inl e \<Rightarrow> Inl e
      | Inr h2 \<Rightarrow>
     (let x2 = relu h2 in
      Linear_forward (fc3 m) x2)))))"

text \<open>The topology every module built by \<^verbatim>\<open>SimpleNN()\<close> has, whatever its entries and mode.\<close>

definition topology :: "SimpleNN \<Rightarrow> (nat \<times> nat) list" where
  "topology m =
     [(in_features (fc1 m), out_features (fc1 m)),
      (in_features (fc2 m), out_features (fc2 m)),
      (in_features (fc3 m), out_features (fc3 m))]"

section \<open>Data sets and loaders\<close>

text \<open>
  An image of the data set is a grey-scale picture: its size and its pixel values.
  \<^verbatim>\<open>transforms.ToTensor()\<close> makes it a \<open>1 \<times> H \<times> W\<close> tensor with values scaled by \<open>1/255\<close>;
  \<^verbatim>\<open>transforms.Normalize((0.5,), (0.5,))\<close> subtracts the mean and divides by the deviation.
\<close>

record image =
  height :: nat
  width :: nat
  pixel :: "nat \<Rightarrow> nat \<Rightarrow> nat"

definition ToTensor :: "image \<Rightarrow> tensor" where
  "ToTensor img =
     \<lparr>shape = [1, height img, width img],
      data = concat (map (\<lambda>i. map (\<lambda>j. real (pixel img i j) / 255) [0..<width img]) [0..<height img])\<rparr>"

definition Normalize :: "real \<Rightarrow> real \<Rightarrow> tensor \<Rightarrow> tensor" where
  "Normalize mean std t = \<lparr>shape = shape t, data = map (\<lambda>v. (v - mean) / std) (data t)\<rparr>"

definition transform :: "image \<Rightarrow> tensor" where
  "transform img = Normalize 0.5 0.5 (ToTensor img)"

type_synonym dataset = "(image \<times> nat) list"

text \<open>
  \<^verbatim>\<open>dataset[index]\<close>: a negative index counts from the end, an index out of range raises
  \<^verbatim>\<open>IndexError\<close>; the transform is applied to the image that is read.
\<close>

definition sample :: "dataset \<Rightarrow> nat \<Rightarrow> tensor \<times> nat" where
  "sample ds k = (transform (fst (ds ! k)), snd (ds ! k))"

definition getitem :: "dataset \<Rightarrow> int \<Rightarrow> error + (tensor \<times> nat)" where
  "getitem ds index =
     (if 0 \<le> index \<and> index < int (length ds) then Inr (sample ds (nat index))
      else if - int (length ds) \<le> index \<and> index < 0 then Inr (sample ds (nat (int (length ds) + index)))
      else Inl IndexError)"

record DataLoader =
  dataset_of :: dataset
  batch_size :: nat
  shuffle :: bool

text \<open>\<^verbatim>\<open>len(loader)\<close>: the number of batches, the last one possibly short.\<close>

definition len_loader :: "DataLoader \<Rightarrow> nat" where
  "len_loader dl = (length (dataset_of dl) + batch_size dl - 1) div batch_size dl"

text \<open>
  The random permutation of a shuffling loader, drawn from a stream of random numbers:
  each number selects one of the samples that are left.
\<close>

fun randperm :: "nat \<Rightarrow> (nat \<Rightarrow> nat) \<Rightarrow> 'a list \<Rightarrow> 'a list" where
  "randperm 0 r xs = []"
| "randperm (Suc n) r xs =
     (if xs = [] then []
      else (let i = r 0 mod length xs
            in xs ! i # randperm n (\<lambda>k. r (Suc k)) (take i xs @ drop (Suc i) xs)))"

definition sampler :: "DataLoader \<Rightarrow> (nat \<Rightarrow> nat) \<Rightarrow> dataset" where
  "sampler dl r =
     (if shuffle dl then randperm (length (dataset_of dl)) r (dataset_of dl) else dataset_of dl)"

text \<open>The samples of one pass, cut into batches.\<close>

definition batches :: "DataLoader \<Rightarrow> (nat \<Rightarrow> nat) \<Rightarrow> (image \<times> nat) list list" where
  "batches dl r = rows (len_loader dl) (batch_size dl) (sampler dl r)"

text \<open>
  \<^verbatim>\<open>torch.stack\<close> needs tensors of one shape; the default collate function stacks the
  images of a batch and lists its labels.
\<close>

definition stack :: "tensor list \<Rightarrow> error + tensor" where
  "stack ts =
     (case ts of
        [] \<Rightarrow> Inl RuntimeError
      | t # _ \<Rightarrow>
          if list_all (\<lambda>u. shape u = shape t) ts
          then Inr \<lparr>shape = length ts # shape t, data = concat (map data ts)\<rparr>
          else Inl RuntimeError)"

definition collate :: "(image \<times> nat) list \<Rightarrow> error + (tensor \<times> nat list)" where
  "collate b =
     (case stack (map (\<lambda>s. transform (fst s)) b) of
        Inl e \<Rightarrow> Inl e
      | Inr images \<Rightarrow> Inr (images, map snd b))"

section \<open>The loss\<close>

text \<open>
  \<^verbatim>\<open>nn.CrossEntropyLoss()\<close> on logits of shape \<open>N \<times> C\<close> and \<open>N\<close> class indices: the mean over
  the batch of \<open>- ln (exp z\<^sub>y / (\<Sum>c. exp z\<^sub>c))\<close>. A batch size that does not match raises
  \<^verbatim>\<open>ValueError\<close>, a label that is no class raises \<^verbatim>\<open>IndexError\<close>. On an empty batch the
  library returns NaN, which the reals do not have: it is the value \<open>Inl NotANumber\<close> here.
\<close>

definition nll_row :: "real list \<Rightarrow> nat \<Rightarrow> real" where
  "nll_row z y = - ln (exp (z ! y) / sum_list (map exp z))"

definition CrossEntropyLoss :: "tensor \<Rightarrow> nat list \<Rightarrow> error + real" where
  "CrossEntropyLoss output labels =
     (case shape output of
        [n, c] \<Rightarrow>
          if n \<noteq> length labels then Inl ValueError
          else if \<not> list_all (\<lambda>y. y < c) labels then Inl IndexError
          else if n = 0 then Inl NotANumber
          else Inr (sum_list (map (\<lambda>(z, y). nll_row z y) (zip (rows n c (data output)) labels)) / real n)
      | _ \<Rightarrow> Inl RuntimeError)"

text \<open>
  The operations of \<open>nll_row\<close> stay inside their domains: the class is a column of the row,
  the divisor is positive, and the logarithm is taken of a number in \<open>(0, 1]\<close>.
\<close>

definition nll_defined :: "real list \<Rightarrow> nat \<Rightarrow> bool" where
  "nll_defined z y \<longleftrightarrow>
     y < length z \<and> 0 < sum_list (map exp z)
     \<and> 0 < exp (z ! y) / sum_list (map exp z) \<and> exp (z ! y) / sum_list (map exp z) \<le> 1"

section \<open>The environment\<close>

text \<open>
  What the notebook does not decide:
  \<^item> \<open>server_up u k\<close>: whether the tracking server at address \<open>u\<close> answers the \<open>k\<close>-th call;
  \<^item> \<open>mnist train\<close>: what \<^verbatim>\<open>datasets.MNIST(..., train=train, download=True)\<close> returns, a
    data set or the error of the download;
  \<^item> \<open>init_params\<close>: the random initial entries of the layers;
  \<^item> \<open>rng e\<close>: the random numbers that shuffle the training set in epoch \<open>e\<close>;
  \<^item> \<open>zero_grad\<close>, \<open>backward\<close> and \<open>step\<close>: the library's \<^verbatim>\<open>optimizer.zero_grad()\<close>,
    \<^verbatim>\<open>loss.backward()\<close> and \<^verbatim>\<open>optimizer.step()\<close>, which work on a state \<open>'o\<close> of their own
    (gradients, momentum buffers, beginning as \<open>opt_init\<close>); \<open>step\<close> gets the learning rate
    and the momentum of the optimizer and returns the new entries of the parameters.
  The theorems hold for every environment.
\<close>

record 'o env =
  server_up :: "string option \<Rightarrow> nat \<Rightarrow> bool"
  mnist :: "bool \<Rightarrow> error + dataset"
  init_params :: params
  rng :: "nat \<Rightarrow> nat \<Rightarrow> nat"
  opt_init :: 'o
  zero_grad :: "'o \<Rightarrow> 'o"
  backward :: "SimpleNN \<Rightarrow> tensor \<Rightarrow> nat list \<Rightarrow> 'o \<Rightarrow> 'o"
  step :: "real \<Rightarrow> real \<Rightarrow> 'o \<Rightarrow> params \<Rightarrow> 'o \<times> params"

section \<open>The tracking service\<close>

text \<open>
  Modelled from the spec: the tracking service, which the notebook calls and which is no
  code of the repository. It is the service of the spec's sections 3 and 6: a run holds
  scalar parameters by name, scalar metrics by name and step index, and artifacts by
  name; a registered model is a named, versioned pointer to an artifact of a run, and
  registering produces a new version. The identifier of a run is its position in the list
  of runs, and the versions of a name are \<open>1, 2, \<dots>\<close> in the order of registration.
\<close>

datatype run_status = RUNNING | FINISHED | FAILED

record run =
  experiment_of :: string
  status :: run_status
  params_of :: "(string \<times> real) list"
  metrics_of :: "(string \<times> real \<times> nat) list"
  artifacts_of :: "(string \<times> SimpleNN) list"

record server =
  requests :: nat
  experiments :: "string list"
  runs :: "run list"
  registry :: "string \<Rightarrow> (nat \<times> string) list"

text \<open>The client adds what the process has set: the address, the experiment, the active run.\<close>

record mlflow = server +
  tracking_uri :: "string option"
  active_experiment :: "string option"
  active_run :: "nat option"

text \<open>
  The two kinds of reference the notebook writes: \<^verbatim>\<open>runs:/<run_id>/<path>\<close> and
  \<^verbatim>\<open>models:/<name>/<version>\<close>.
\<close>

datatype uri = RunsUri nat string | ModelsUri string nat

definition connect :: "server \<Rightarrow> mlflow" where
  "connect sv =
     \<lparr>requests = requests sv, experiments = experiments sv, runs = runs sv,
      registry = registry sv, tracking_uri = None, active_experiment = None, active_run = None\<rparr>"

text \<open>
  A call that raises leaves the tracking state as it was at the raise: the error comes
  with that state, since leaving a \<^verbatim>\<open>with mlflow.start_run()\<close> block works on it.
\<close>

type_synonym 'a tracked = "(error \<times> mlflow) + 'a"

text \<open>One call to the server: it is answered or the client raises.\<close>

definition request :: "'o env \<Rightarrow> mlflow \<Rightarrow> mlflow tracked" where
  "request env s =
     (if server_up env (tracking_uri s) (requests s)
      then Inr (s\<lparr>requests := Suc (requests s)\<rparr>)
      else Inl (ConnectionError, s))"

definition set_tracking_uri :: "string \<Rightarrow> mlflow \<Rightarrow> mlflow" where
  "set_tracking_uri u s = s\<lparr>tracking_uri := Some u\<rparr>"

definition set_experiment :: "'o env \<Rightarrow> string \<Rightarrow> mlflow \<Rightarrow> mlflow tracked" where
  "set_experiment env name s =
     (case request env s of
        Inl x \<Rightarrow> Inl x
      | Inr s1 \<Rightarrow>
          if name \<in> set (experiments s1) then Inr (s1\<lparr>active_experiment := Some name\<rparr>)
          else (case request env s1 of
                  Inl x \<Rightarrow> Inl x
                | Inr s2 \<Rightarrow> Inr (s2\<lparr>experiments := experiments s2 @ [name], active_experiment := Some name\<rparr>)))"

definition new_run :: "mlflow \<Rightarrow> run" where
  "new_run s =
     \<lparr>experiment_of = (case active_experiment s of None \<Rightarrow> ''Default'' | Some n \<Rightarrow> n),
      status = RUNNING, params_of = [], metrics_of = [], artifacts_of = []\<rparr>"

text \<open>\<^verbatim>\<open>mlflow.start_run()\<close> raises when a run is active already.\<close>

definition start_run :: "'o env \<Rightarrow> mlflow \<Rightarrow> (nat \<times> mlflow) tracked" where
  "start_run env s =
     (case active_run s of
        Some _ \<Rightarrow> Inl (MlflowException, s)
      | None \<Rightarrow>
         (case request env s of
            Inl x \<Rightarrow> Inl x
          | Inr s1 \<Rightarrow>
              Inr (length (runs s1), s1\<lparr>runs := runs s1 @ [new_run s1], active_run := Some (length (runs s1))\<rparr>)))"

definition update_run :: "nat \<Rightarrow> (run \<Rightarrow> run) \<Rightarrow> mlflow \<Rightarrow> mlflow" where
  "update_run rid f s = s\<lparr>runs := (runs s)[rid := f (runs s ! rid)]\<rparr>"

text \<open>Writing to a run the server does not have raises.\<close>

definition write_run :: "nat \<Rightarrow> (run \<Rightarrow> run) \<Rightarrow> mlflow \<Rightarrow> mlflow tracked" where
  "write_run rid f s =
     (if rid < length (runs s) then Inr (update_run rid f s) else Inl (MlflowException, s))"

definition end_run :: "'o env \<Rightarrow> run_status \<Rightarrow> mlflow \<Rightarrow> mlflow tracked" where
  "end_run env st s =
     (case active_run s of
        None \<Rightarrow> Inr s
      | Some rid \<Rightarrow>
         (case request env s of
            Inl x \<Rightarrow> Inl x
          | Inr s1 \<Rightarrow>
             (case write_run rid (\<lambda>r. r\<lparr>status := st\<rparr>) s1 of
                Inl x \<Rightarrow> Inl x
              | Inr s2 \<Rightarrow> Inr (s2\<lparr>active_run := None\<rparr>))))"

text \<open>
  \<^verbatim>\<open>with mlflow.start_run() as run: body\<close>. Leaving the block ends the run, as finished
  when the body returned and as failed when it raised; the body's exception then goes on,
  unless ending the run raises itself.
\<close>

definition with_start_run ::
  "'o env \<Rightarrow> (nat \<Rightarrow> mlflow \<Rightarrow> (mlflow \<times> 'a) tracked) \<Rightarrow> mlflow \<Rightarrow> (mlflow \<times> 'a) tracked" where
  "with_start_run env body s =
     (case start_run env s of
        Inl x \<Rightarrow> Inl x
      | Inr (rid, s1) \<Rightarrow>
         (case body rid s1 of
            Inl (e, s2) \<Rightarrow>
              (case end_run env FAILED s2 of Inl x \<Rightarrow> Inl x | Inr s3 \<Rightarrow> Inl (e, s3))
          | Inr (s2, r) \<Rightarrow>
              (case end_run env FINISHED s2 of Inl x \<Rightarrow> Inl x | Inr s3 \<Rightarrow> Inr (s3, r))))"

text \<open>The logging calls write to the active run and start one when there is none.\<close>

definition get_or_start_run :: "'o env \<Rightarrow> mlflow \<Rightarrow> (nat \<times> mlflow) tracked" where
  "get_or_start_run env s =
     (case active_run s of
        Some rid \<Rightarrow> Inr (rid, s)
      | None \<Rightarrow> start_run env s)"

text \<open>A parameter is written once: logging another value under its name raises.\<close>

definition log_param :: "'o env \<Rightarrow> string \<Rightarrow> real \<Rightarrow> mlflow \<Rightarrow> mlflow tracked" where
  "log_param env key v s =
     (case get_or_start_run env s of
        Inl x \<Rightarrow> Inl x
      | Inr (rid, s1) \<Rightarrow>
         (case request env s1 of
            Inl x \<Rightarrow> Inl x
          | Inr s2 \<Rightarrow>
             if rid < length (runs s2)
             then (case map_of (params_of (runs s2 ! rid)) key of
                     None \<Rightarrow> write_run rid (\<lambda>r. r\<lparr>params_of := params_of r @ [(key, v)]\<rparr>) s2
                   | Some v' \<Rightarrow> if v' = v then Inr s2 else Inl (MlflowException, s2))
             else Inl (MlflowException, s2)))"

definition log_metric :: "'o env \<Rightarrow> string \<Rightarrow> real \<Rightarrow> nat \<Rightarrow> mlflow \<Rightarrow> mlflow tracked" where
  "log_metric env key v stp s =
     (case get_or_start_run env s of
        Inl x \<Rightarrow> Inl x
      | Inr (rid, s1) \<Rightarrow>
         (case request env s1 of
            Inl x \<Rightarrow> Inl x
          | Inr s2 \<Rightarrow> write_run rid (\<lambda>r. r\<lparr>metrics_of := metrics_of r @ [(key, v, stp)]\<rparr>) s2))"

text \<open>
  Modelled from the spec: the artifact store.
  \<^verbatim>\<open>mlflow.pytorch.log_model(model, path)\<close> stores a copy of the model under the path.
\<close>

definition log_model :: "'o env \<Rightarrow> SimpleNN \<Rightarrow> string \<Rightarrow> mlflow \<Rightarrow> mlflow tracked" where
  "log_model env m path s =
     (case get_or_start_run env s of
        Inl x \<Rightarrow> Inl x
      | Inr (rid, s1) \<Rightarrow>
         (case request env s1 of
            Inl x \<Rightarrow> Inl x
          | Inr s2 \<Rightarrow> write_run rid (\<lambda>r. r\<lparr>artifacts_of := (path, m) # artifacts_of r\<rparr>) s2))"

text \<open>
  Modelled from the spec: the registry of the tracking service.
  \<^verbatim>\<open>mlflow.register_model(model_uri, name)\<close> adds a version to the name, the next number
  after the versions the name has, pointing to the artifact of the run. The result is the
  new version number.
\<close>

definition register_model :: "'o env \<Rightarrow> uri \<Rightarrow> string \<Rightarrow> mlflow \<Rightarrow> (mlflow \<times> nat) tracked" where
  "register_model env u name s =
     (case request env s of
        Inl x \<Rightarrow> Inl x
      | Inr s1 \<Rightarrow>
         (case u of
            RunsUri rid path \<Rightarrow>
              if rid < length (runs s1)
              then Inr (s1\<lparr>registry := (registry s1)(name := registry s1 name @ [(rid, path)])\<rparr>,
                        Suc (length (registry s1 name)))
              else Inl (MlflowException, s1)
          | ModelsUri _ _ \<Rightarrow> Inl (MlflowException, s1)))"

text \<open>
  Modelled from the spec: the artifact store and the read side of the registry. An
  artifact is read as it was stored; a reference \<open>models:/name/version\<close> resolves to the
  artifact that the version points to, and a version that the name does not have, or an
  artifact that the run does not have, raises.
\<close>

definition fetch_artifact :: "mlflow \<Rightarrow> nat \<Rightarrow> string \<Rightarrow> error + SimpleNN" where
  "fetch_artifact s rid path =
     (if rid < length (runs s)
      then (case map_of (artifacts_of (runs s ! rid)) path of
              None \<Rightarrow> Inl MlflowException
            | Some m \<Rightarrow> Inr m)
      else Inl MlflowException)"

definition resolve :: "mlflow \<Rightarrow> uri \<Rightarrow> error + SimpleNN" where
  "resolve s u =
     (case u of
        RunsUri rid path \<Rightarrow> fetch_artifact s rid path
      | ModelsUri name v \<Rightarrow>
          if 1 \<le> v \<and> v \<le> length (registry s name)
          then fetch_artifact s (fst (registry s name ! (v - 1))) (snd (registry s name ! (v - 1)))
          else Inl MlflowException)"

definition load_model :: "'o env \<Rightarrow> uri \<Rightarrow> mlflow \<Rightarrow> (mlflow \<times> SimpleNN) tracked" where
  "load_model env u s =
     (case request env s of
        Inl x \<Rightarrow> Inl x
      | Inr s1 \<Rightarrow>
         (case resolve s1 u of
            Inl e \<Rightarrow> Inl (e, s1)
          | Inr m \<Rightarrow> Inr (s1, m)))"

section \<open>Training\<close>

text \<open>\<^verbatim>\<open>optim.SGD(model.parameters(), lr=..., momentum=...)\<close>: the two settings.\<close>

record optimizer =
  lr :: real
  momentum :: real

definition SGD :: "real \<Rightarrow> real \<Rightarrow> optimizer" where
  "SGD l mo = \<lparr>lr = l, momentum = mo\<rparr>"

text \<open>
  The body of the inner training loop on one batch: the new model, the new state of the
  library and the loss of the batch.
\<close>

definition train_batch ::
  "'o env \<Rightarrow> optimizer \<Rightarrow> (image \<times> nat) list \<Rightarrow> SimpleNN \<times> 'o \<Rightarrow> error + (SimpleNN \<times> 'o \<times> real)" where
  "train_batch env opt b st =
     (case st of (model, os) \<Rightarrow>
     (case collate b of
        Inl e \<Rightarrow> Inl e
      | Inr (images, labels) \<Rightarrow>
     (let os1 = zero_grad env os in
     (case forward model images of
        Inl e \<Rightarrow> Inl e
      | Inr output \<Rightarrow>
     (case CrossEntropyLoss output labels of
        Inl e \<Rightarrow> Inl e
      | Inr loss \<Rightarrow>
     (let os2 = backward env model images labels os1;
          r = step env (lr opt) (momentum opt) os2 (parameters model)
      in Inr (set_parameters model (snd r), fst r, loss)))))))"

fun train_loop ::
  "'o env \<Rightarrow> optimizer \<Rightarrow> (image \<times> nat) list list \<Rightarrow> SimpleNN \<times> 'o \<times> real \<Rightarrow> error + (SimpleNN \<times> 'o \<times> real)" where
  "train_loop env opt [] st = Inr st"
| "train_loop env opt (b # bs) (model, os, running_loss) =
     (case train_batch env opt b (model, os) of
        Inl e \<Rightarrow> Inl e
      | Inr (model', os', loss) \<Rightarrow> train_loop env opt bs (model', os', running_loss + loss))"

text \<open>
  The loss values of the batches of a training pass, in the order in which the loop
  computes them: what \<open>train_loop\<close> adds to \<open>running_loss\<close>.
\<close>

fun batch_losses :: "'o env \<Rightarrow> optimizer \<Rightarrow> (image \<times> nat) list list \<Rightarrow> SimpleNN \<times> 'o \<Rightarrow> real list" where
  "batch_losses env opt [] st = []"
| "batch_losses env opt (b # bs) st =
     (case train_batch env opt b st of
        Inl e \<Rightarrow> []
      | Inr (model', os', loss) \<Rightarrow> loss # batch_losses env opt bs (model', os'))"

text \<open>
  The model and the state of the library before every batch of a training pass and after
  the last one: what \<open>train_loop\<close> hands from one batch to the next.
\<close>

fun batch_states :: "'o env \<Rightarrow> optimizer \<Rightarrow> (image \<times> nat) list list \<Rightarrow> SimpleNN \<times> 'o \<Rightarrow> (SimpleNN \<times> 'o) list" where
  "batch_states env opt [] st = [st]"
| "batch_states env opt (b # bs) st =
     st #
     (case train_batch env opt b st of
        Inl e \<Rightarrow> []
      | Inr (model', os', loss) \<Rightarrow> batch_states env opt bs (model', os'))"

text \<open>The body of the evaluation loop, run under \<^verbatim>\<open>torch.no_grad()\<close>: only a loss comes out.\<close>

definition eval_batch :: "SimpleNN \<Rightarrow> (image \<times> nat) list \<Rightarrow> error + real" where
  "eval_batch model b =
     (case collate b of
        Inl e \<Rightarrow> Inl e
      | Inr (images, labels) \<Rightarrow>
     (case forward model images of
        Inl e \<Rightarrow> Inl e
      | Inr output \<Rightarrow> CrossEntropyLoss output labels))"

fun eval_loop :: "SimpleNN \<Rightarrow> (image \<times> nat) list list \<Rightarrow> real \<Rightarrow> error + real" where
  "eval_loop model [] test_loss = Inr test_loss"
| "eval_loop model (b # bs) test_loss =
     (case eval_batch model b of
        Inl e \<Rightarrow> Inl e
      | Inr loss \<Rightarrow> eval_loop model bs (test_loss + loss))"

text \<open>Python's \<^verbatim>\<open>a / n\<close> for a float and a length.\<close>

definition py_div :: "real \<Rightarrow> nat \<Rightarrow> error + real" where
  "py_div a n = (if n = 0 then Inl ZeroDivisionError else Inr (a / real n))"

text \<open>The first half of an epoch: the training pass and its metric.\<close>

definition train_pass ::
  "'o env \<Rightarrow> optimizer \<Rightarrow> DataLoader \<Rightarrow> nat \<Rightarrow> mlflow \<times> SimpleNN \<times> 'o \<Rightarrow> (mlflow \<times> SimpleNN \<times> 'o) tracked" where
  "train_pass env opt train_loader e st =
     (case st of (s, model, os) \<Rightarrow>
     (case train_loop env opt (batches train_loader (rng env e)) (train_mode model, os, 0) of
        Inl x \<Rightarrow> Inl (x, s)
      | Inr (model', os', running_loss) \<Rightarrow>
     (case py_div running_loss (len_loader train_loader) of
        Inl x \<Rightarrow> Inl (x, s)
      | Inr average_train_loss \<Rightarrow>
     (case log_metric env ''average_train_loss'' average_train_loss e s of
        Inl x \<Rightarrow> Inl x
      | Inr s' \<Rightarrow> Inr (s', model', os')))))"

text \<open>The second half: the evaluation pass and its metric.\<close>

definition test_pass ::
  "'o env \<Rightarrow> DataLoader \<Rightarrow> nat \<Rightarrow> mlflow \<times> SimpleNN \<times> 'o \<Rightarrow> (mlflow \<times> SimpleNN \<times> 'o) tracked" where
  "test_pass env test_loader e st =
     (case st of (s, model, os) \<Rightarrow>
     (case eval_loop (eval_mode model) (batches test_loader (rng env e)) 0 of
        Inl x \<Rightarrow> Inl (x, s)
      | Inr test_loss \<Rightarrow>
     (case py_div test_loss (len_loader test_loader) of
        Inl x \<Rightarrow> Inl (x, s)
      | Inr average_test_loss \<Rightarrow>
     (case log_metric env ''average_test_loss'' average_test_loss e s of
        Inl x \<Rightarrow> Inl x
      | Inr s' \<Rightarrow> Inr (s', eval_mode model, os)))))"

definition epoch ::
  "'o env \<Rightarrow> optimizer \<Rightarrow> DataLoader \<Rightarrow> DataLoader \<Rightarrow> nat \<Rightarrow> mlflow \<times> SimpleNN \<times> 'o \<Rightarrow> (mlflow \<times> SimpleNN \<times> 'o) tracked" where
  "epoch env opt train_loader test_loader e st =
     (case train_pass env opt train_loader e st of
        Inl x \<Rightarrow> Inl x
      | Inr st' \<Rightarrow> test_pass env test_loader e st')"

text \<open>\<^verbatim>\<open>for e in range(epochs)\<close>.\<close>

fun epochs_loop ::
  "'o env \<Rightarrow> optimizer \<Rightarrow> DataLoader \<Rightarrow> DataLoader \<Rightarrow> nat list \<Rightarrow> mlflow \<times> SimpleNN \<times> 'o \<Rightarrow> (mlflow \<times> SimpleNN \<times> 'o) tracked" where
  "epochs_loop env opt train_loader test_loader [] st = Inr st"
| "epochs_loop env opt train_loader test_loader (e # es) st =
     (case epoch env opt train_loader test_loader e st of
        Inl x \<Rightarrow> Inl x
      | Inr st' \<Rightarrow> epochs_loop env opt train_loader test_loader es st')"

text \<open>The body of the \<^verbatim>\<open>with\<close> block of the training cell.\<close>

definition training_body ::
  "'o env \<Rightarrow> optimizer \<Rightarrow> DataLoader \<Rightarrow> DataLoader \<Rightarrow> SimpleNN \<times> 'o \<Rightarrow> nat \<Rightarrow> mlflow
     \<Rightarrow> (mlflow \<times> SimpleNN \<times> 'o \<times> nat) tracked" where
  "training_body env opt train_loader test_loader mo run_id s =
     (case log_param env ''learning_rate'' 0.003 s of
        Inl x \<Rightarrow> Inl x
      | Inr s1 \<Rightarrow>
     (case log_param env ''momentum'' 0.003 s1 of
        Inl x \<Rightarrow> Inl x
      | Inr s2 \<Rightarrow>
     (let epochs = 5 in
     (case epochs_loop env opt train_loader test_loader [0..<epochs] (s2, fst mo, snd mo) of
        Inl x \<Rightarrow> Inl x
      | Inr (s3, model, os) \<Rightarrow>
     (case log_model env model ''mnist_model'' s3 of
        Inl x \<Rightarrow> Inl x
      | Inr s4 \<Rightarrow>
     (let model_uri = RunsUri run_id ''mnist_model'' in
     (case register_model env model_uri ''MNISTModel'' s4 of
        Inl x \<Rightarrow> Inl x
      | Inr (s5, model_details) \<Rightarrow> Inr (s5, model, os, model_details))))))))"

section \<open>Inference\<close>

text \<open>
  \<^verbatim>\<open>torch.argmax(logits, dim=1)\<close> on a two-dimensional tensor, as \<open>forward\<close> returns it:
  for every row the first index of its maximum.
\<close>

definition argmax_list :: "real list \<Rightarrow> nat" where
  "argmax_list xs = length (takeWhile (\<lambda>v. v \<noteq> Max (set xs)) xs)"

definition argmax_dim1 :: "tensor \<Rightarrow> error + nat list" where
  "argmax_dim1 t =
     (case shape t of
        [n, c] \<Rightarrow> if c = 0 then Inl IndexError else Inr (map argmax_list (rows n c (data t)))
      | _ \<Rightarrow> Inl IndexError)"

text \<open>\<^verbatim>\<open>predicted.item()\<close> needs a tensor of one element.\<close>

definition item :: "'a list \<Rightarrow> error + 'a" where
  "item xs = (case xs of [x] \<Rightarrow> Inr x | _ \<Rightarrow> Inl RuntimeError)"

record figure =
  shown :: tensor
  cmap :: string
  title :: string

text \<open>\<^verbatim>\<open>plt.imshow\<close> takes a picture of shape \<open>M \<times> N\<close>, \<open>M \<times> N \<times> 3\<close> or \<open>M \<times> N \<times> 4\<close>.\<close>

definition imshow :: "tensor \<Rightarrow> string \<Rightarrow> error + figure" where
  "imshow img cm =
     (if length (shape img) = 2 \<or> (length (shape img) = 3 \<and> (last (shape img) = 3 \<or> last (shape img) = 4))
      then Inr \<lparr>shown = img, cmap = cm, title = []\<rparr>
      else Inl TypeError)"

text \<open>The decimal numeral of a natural number, as an f-string prints it.\<close>

function str_nat :: "nat \<Rightarrow> string" where
  "str_nat n =
     (if n < 10 then [char_of (48 + n)] else str_nat (n div 10) @ [char_of (48 + n mod 10)])"
  by pat_completeness auto
termination
  by (relation "measure id") auto

declare str_nat.simps [simp del]

definition predict_and_visualize :: "SimpleNN \<Rightarrow> dataset \<Rightarrow> int \<Rightarrow> error + (SimpleNN \<times> figure)" where
  "predict_and_visualize model ds index =
     (let model1 = eval_mode model in
     (case getitem ds index of
        Inl e \<Rightarrow> Inl e
      | Inr (img, true_label) \<Rightarrow>
     (let img1 = unsqueeze0 img in
     (case forward model1 img1 of
        Inl e \<Rightarrow> Inl e
      | Inr logits \<Rightarrow>
     (case argmax_dim1 logits of
        Inl e \<Rightarrow> Inl e
      | Inr predicted \<Rightarrow>
     (let img2 = squeeze img1 in
     (case imshow img2 ''Greys_r'' of
        Inl e \<Rightarrow> Inl e
      | Inr fig \<Rightarrow>
     (case item predicted of
        Inl e \<Rightarrow> Inl e
      | Inr p \<Rightarrow>
          Inr (model1,
               fig\<lparr>title := ''Predicted Digit: '' @ str_nat p @ '', True Label: '' @ str_nat true_label\<rparr>)))))))))"

section \<open>The notebook\<close>

text \<open>
  The variables of the notebook after its last cell. What the notebook prints is not
  modelled; the figure that \<^verbatim>\<open>plt.show()\<close> displays is.
\<close>

record 'o notebook =
  tracking :: mlflow
  train_dataset :: dataset
  test_dataset :: dataset
  model_of :: SimpleNN
  optimizer_of :: optimizer
  opt_state :: 'o
  model_details :: nat
  loaded_model :: SimpleNN
  figures :: "figure list"

text \<open>The cells in their order. The first sets the address and the experiment.\<close>

definition cell_tracking :: "'o env \<Rightarrow> server \<Rightarrow> mlflow tracked" where
  "cell_tracking env sv =
     set_experiment env ''mnist_pytorch_experiment'' (set_tracking_uri ''http://localhost:5000'' (connect sv))"

definition cell_data :: "'o env \<Rightarrow> error + (dataset \<times> dataset)" where
  "cell_data env =
     (case mnist env True of
        Inl e \<Rightarrow> Inl e
      | Inr tr \<Rightarrow>
     (case mnist env False of
        Inl e \<Rightarrow> Inl e
      | Inr te \<Rightarrow> Inr (tr, te)))"

definition train_loader_of :: "dataset \<Rightarrow> DataLoader" where
  "train_loader_of ds = \<lparr>dataset_of = ds, batch_size = 64, shuffle = True\<rparr>"

definition test_loader_of :: "dataset \<Rightarrow> DataLoader" where
  "test_loader_of ds = \<lparr>dataset_of = ds, batch_size = 64, shuffle = False\<rparr>"

definition cell_model :: "'o env \<Rightarrow> SimpleNN \<times> optimizer \<times> 'o" where
  "cell_model env = (SimpleNN_init (init_params env), SGD 0.003 0.9, opt_init env)"

definition cell_train ::
  "'o env \<Rightarrow> optimizer \<Rightarrow> DataLoader \<Rightarrow> DataLoader \<Rightarrow> SimpleNN \<times> 'o \<Rightarrow> mlflow
     \<Rightarrow> (mlflow \<times> SimpleNN \<times> 'o \<times> nat) tracked" where
  "cell_train env opt train_loader test_loader mo s =
     with_start_run env (training_body env opt train_loader test_loader mo) s"

definition cell_load :: "'o env \<Rightarrow> mlflow \<Rightarrow> (mlflow \<times> SimpleNN) tracked" where
  "cell_load env s = load_model env (ModelsUri ''MNISTModel'' 1) s"

definition script :: "'o env \<Rightarrow> server \<Rightarrow> 'o notebook tracked" where
  "script env sv =
     (case cell_tracking env sv of
        Inl x \<Rightarrow> Inl x
      | Inr s0 \<Rightarrow>
     (case cell_data env of
        Inl e \<Rightarrow> Inl (e, s0)
      | Inr (tr, te) \<Rightarrow>
     (case cell_model env of (model, opt, os) \<Rightarrow>
     (case cell_train env opt (train_loader_of tr) (test_loader_of te) (model, os) s0 of
        Inl x \<Rightarrow> Inl x
      | Inr (s1, model', os', details) \<Rightarrow>
     (case cell_load env s1 of
        Inl x \<Rightarrow> Inl x
      | Inr (s2, loaded) \<Rightarrow>
     (case predict_and_visualize loaded te 0 of
        Inl e \<Rightarrow> Inl (e, s2)
      | Inr (loaded', fig) \<Rightarrow>
          Inr \<lparr>tracking = s2, train_dataset = tr, test_dataset = te, model_of = model',
               optimizer_of = opt, opt_state = os', model_details = details,
               loaded_model = loaded', figures = [fig]\<rparr>))))))"

section \<open>Data as the provider delivers it\<close>

text \<open>A data set as MNIST is: pictures of 28 by 28 pixels, labelled with a digit.\<close>

definition mnist_like :: "dataset \<Rightarrow> bool" where
  "mnist_like ds = list_all (\<lambda>s. height (fst s) = 28 \<and> width (fst s) = 28 \<and> snd s < 10) ds"

text \<open>A loader over such a data set that is not empty.\<close>

definition good_loader :: "DataLoader \<Rightarrow> bool" where
  "good_loader dl \<longleftrightarrow> mnist_like (dataset_of dl) \<and> dataset_of dl \<noteq> [] \<and> 0 < batch_size dl"

section \<open>What is read off a run\<close>

text \<open>
  The name and step of every metric of a run, in the order of logging, and the names and
  steps that epochs \<open>es\<close> are to log.
\<close>

definition metric_keys :: "(string \<times> real \<times> nat) list \<Rightarrow> (string \<times> nat) list" where
  "metric_keys ms = map (\<lambda>(k, v, stp). (k, stp)) ms"

definition expected_keys :: "nat list \<Rightarrow> (string \<times> nat) list" where
  "expected_keys es = concat (map (\<lambda>e. [(''average_train_loss'', e), (''average_test_loss'', e)]) es)"

text \<open>The run that the training cell leaves behind, with metrics \<open>ms\<close> and trained model \<open>m\<close>.\<close>

definition trained_run :: "mlflow \<Rightarrow> (string \<times> real \<times> nat) list \<Rightarrow> SimpleNN \<Rightarrow> run" where
  "trained_run s ms m =
     \<lparr>experiment_of = (case active_experiment s of None \<Rightarrow> ''Default'' | Some n \<Rightarrow> n),
      status = FINISHED,
      params_of = [(''learning_rate'', 0.003), (''momentum'', 0.003)],
      metrics_of = ms,
      artifacts_of = [(''mnist_model'', m)]\<rparr>"

text \<open>The run that the training cell leaves behind when its first batch raises.\<close>

definition failed_run :: "mlflow \<Rightarrow> run" where
  "failed_run s =
     \<lparr>experiment_of = (case active_experiment s of None \<Rightarrow> ''Default'' | Some n \<Rightarrow> n),
      status = FAILED,
      params_of = [(''learning_rate'', 0.003), (''momentum'', 0.003)],
      metrics_of = [],
      artifacts_of = []\<rparr>"

text \<open>The tracking state after the training cell when it began in state \<open>s\<close>.\<close>

definition after_training :: "mlflow \<Rightarrow> (string \<times> real \<times> nat) list \<Rightarrow> SimpleNN \<Rightarrow> mlflow" where
  "after_training s ms m =
     s\<lparr>requests := requests s + 16,
       runs := runs s @ [trained_run s ms m],
       registry := (registry s)(''MNISTModel'' :=
          registry s ''MNISTModel'' @ [(length (runs s), ''mnist_model'')]),
       active_run := None\<rparr>"

section \<open>Concrete inputs\<close>

text \<open>A model whose entries are all zero, and small tensors to run it on.\<close>

definition zero_params :: params where
  "zero_params = ((\<lambda>i j. 0, \<lambda>i. 0), (\<lambda>i j. 0, \<lambda>i. 0), (\<lambda>i j. 0, \<lambda>i. 0))"

definition two_images :: tensor where
  "two_images = \<lparr>shape = [2, 28, 28], data = replicate 1568 0\<rparr>"

definition three_numbers :: tensor where
  "three_numbers = \<lparr>shape = [3], data = [1, 2, 3]\<rparr>"

definition blank_input :: tensor where
  "blank_input = \<lparr>shape = [1, 28, 28], data = replicate 784 0\<rparr>"

text \<open>A data set of one blank picture of 28 by 28 pixels with the label 7.\<close>

definition blank_image :: image where
  "blank_image = \<lparr>height = 28, width = 28, pixel = (\<lambda>i j. 0)\<rparr>"

definition tiny_dataset :: dataset where
  "tiny_dataset = [(blank_image, 7)]"

text \<open>
  An environment in which everything works: the server answers every call at the address
  of the notebook and at no other, the provider delivers the data set above, the initial
  entries of the model are zero, and an optimizer step leaves the parameters as they are
  (the library keeps no state).
\<close>

definition demo_env :: "unit env" where
  "demo_env =
     \<lparr>server_up = (\<lambda>u k. u = Some ''http://localhost:5000''),
      mnist = (\<lambda>train. Inr tiny_dataset),
      init_params = zero_params,
      rng = (\<lambda>e k. 0),
      opt_init = (),
      zero_grad = (\<lambda>os. os),
      backward = (\<lambda>m images labels os. os),
      step = (\<lambda>l mo os p. (os, p))\<rparr>"

text \<open>
  A server without runs and registered models, the state of the client after it was
  pointed to this server, and a state in the middle of a run.
\<close>

definition empty_server :: server where
  "empty_server = \<lparr>requests = 0, experiments = [], runs = [], registry = (\<lambda>name. [])\<rparr>"

definition fresh_state :: mlflow where
  "fresh_state = set_tracking_uri ''http://localhost:5000'' (connect empty_server)"

definition running_state :: mlflow where
  "running_state =
     \<lparr>requests = 3, experiments = [''mnist_pytorch_experiment''],
      runs = [\<lparr>experiment_of = ''mnist_pytorch_experiment'', status = RUNNING,
               params_of = [], metrics_of = [], artifacts_of = []\<rparr>],
      registry = (\<lambda>name. []),
      tracking_uri = Some ''http://localhost:5000'',
      active_experiment = Some ''mnist_pytorch_experiment'',
      active_run = Some 0\<rparr>"

text \<open>
  Two executions of the notebook, one after the other on the same server. The first
  starts from a model whose last bias is not zero, the second from the zero model and on
  the server as the first left it.
\<close>

definition biased_params :: params where
  "biased_params =
     ((\<lambda>i j. 0, \<lambda>i. 0), (\<lambda>i j. 0, \<lambda>i. 0), (\<lambda>i j. 0, \<lambda>i. if i = 0 then 1 else 0))"

definition biased_env :: "unit env" where
  "biased_env = demo_env\<lparr>init_params := biased_params\<rparr>"

definition first_run :: "unit notebook tracked" where
  "first_run = script biased_env empty_server"

definition second_run :: "unit notebook tracked" where
  "second_run = script demo_env (server.truncate (tracking (projr first_run)))"

text \<open>
  Environments in which something fails: the server answers no call; the provider raises;
  the pictures have 3 by 3 pixels, which the model cannot take.
\<close>

definition down_env :: "unit env" where
  "down_env = demo_env\<lparr>server_up := (\<lambda>u k. False)\<rparr>"

definition offline_env :: "unit env" where
  "offline_env = demo_env\<lparr>mnist := (\<lambda>train. Inl RuntimeError)\<rparr>"

definition tiny_picture :: image where
  "tiny_picture = \<lparr>height = 3, width = 3, pixel = (\<lambda>i j. 0)\<rparr>"

definition odd_dataset :: dataset where
  "odd_dataset = [(tiny_picture, 7)]"

definition odd_env :: "unit env" where
  "odd_env = demo_env\<lparr>mnist := (\<lambda>train. Inr odd_dataset)\<rparr>"


text \<open>
  Inputs on which a single step fails: a sample whose label is no digit, a picture of one
  row and a picture of 56 by 28 pixels, a provider that delivers the first of them as test
  set and one that fails on the test set, modules with the layer sizes given (which
  \<^verbatim>\<open>SimpleNN()\<close> does not build), a server that answers the first \<open>n\<close> calls only, and a
  server on which version 1 of the registered model points to the artifact of an old run
  that holds the artifacts \<open>arts\<close>.
\<close>

definition mislabelled :: dataset where
  "mislabelled = [(blank_image, 11)]"

definition flat_dataset :: dataset where
  "flat_dataset = [(\<lparr>height = 1, width = 784, pixel = (\<lambda>i j. 0)\<rparr>, 7)]"

definition tall_dataset :: dataset where
  "tall_dataset = [(\<lparr>height = 56, width = 28, pixel = (\<lambda>i j. 0)\<rparr>, 7)]"

definition mixed_env :: "unit env" where
  "mixed_env = demo_env\<lparr>mnist := (\<lambda>train. if train then Inr tiny_dataset else Inr mislabelled)\<rparr>"

definition half_env :: "unit env" where
  "half_env = demo_env\<lparr>mnist := (\<lambda>train. if train then Inr tiny_dataset else Inl RuntimeError)\<rparr>"

definition layers :: "nat \<times> nat \<Rightarrow> nat \<times> nat \<Rightarrow> nat \<times> nat \<Rightarrow> SimpleNN" where
  "layers a b c =
     \<lparr>fc1 = nn_Linear (fst a) (snd a) (fst zero_params),
      fc2 = nn_Linear (fst b) (snd b) (fst (snd zero_params)),
      fc3 = nn_Linear (fst c) (snd c) (snd (snd zero_params)),
      training = True\<rparr>"

definition flaky_env :: "nat \<Rightarrow> unit env" where
  "flaky_env n = demo_env\<lparr>server_up := (\<lambda>u k. u = Some ''http://localhost:5000'' \<and> k < n)\<rparr>"

definition stale_server :: "(string \<times> SimpleNN) list \<Rightarrow> server" where
  "stale_server arts =
     \<lparr>requests = 0, experiments = [],
      runs = [\<lparr>experiment_of = ''Default'', status = FINISHED,
               params_of = [], metrics_of = [], artifacts_of = arts\<rparr>],
      registry = (\<lambda>name. if name = ''MNISTModel'' then [(0, ''mnist_model'')] else [])\<rparr>"

section \<open>Facts about the model\<close>

lemma topology_init: "topology (SimpleNN_init p) = [(784, 128), (128, 64), (64, 10)]"
  by (simp add: topology_def SimpleNN_init_def nn_Linear_def)

lemma topology_set_parameters: "topology (set_parameters m p) = topology m"
  by (simp add: topology_def set_parameters_def set_layer_def)

lemma topology_training: "topology (m\<lparr>training := b\<rparr>) = topology m"
  by (simp add: topology_def)

lemma length_affine: "length (affine L row) = out_features L"
  by (simp add: affine_def)

lemma length_concat_affine:
  "length (concat (map (affine L) rs)) = length rs * out_features L"
  by (induction rs) (simp_all add: length_affine)

lemma length_rows: "length (rows n k xs) = n"
  by (simp add: rows_def)


lemma shape_Linear_apply: "shape (Linear_apply L x) = butlast (shape x) @ [out_features L]"
  by (simp add: Linear_apply_def)

lemma shape_relu: "shape (relu x) = shape x"
  by (simp add: relu_def)

lemma numel_relu: "numel (relu x) = numel x"
  by (simp add: relu_def numel_def)

lemma forward_topology:
  assumes "topology m = [(784, 128), (128, 64), (64, 10)]"
  shows "forward m x =
     (case view_rows x 784 of
        Inl e \<Rightarrow> Inl e
      | Inr x0 \<Rightarrow> Inr (Linear_apply (fc3 m) (relu (Linear_apply (fc2 m) (relu (Linear_apply (fc1 m) x0))))))"
proof (cases "numel x mod 784 = 0")
  case False
  then show ?thesis by (simp add: forward_def view_rows_def)
next
  case True
  from assms have dims:
    "in_features (fc1 m) = 784" "out_features (fc1 m) = 128"
    "in_features (fc2 m) = 128" "out_features (fc2 m) = 64"
    "in_features (fc3 m) = 64" "out_features (fc3 m) = 10"
    by (simp_all add: topology_def)
  from True show ?thesis
    by (simp add: forward_def view_rows_def Linear_forward_def dims shape_Linear_apply shape_relu)
qed

lemma forward_training: "forward (m\<lparr>training := b\<rparr>) x = forward m x"
  by (simp add: forward_def cong: sum.case_cong)

section \<open>The forward computation\<close>

text \<open>
  C3: every module built by \<^verbatim>\<open>SimpleNN()\<close>, whatever its entries \<open>p\<close> and its mode \<open>b\<close>,
  has the layers 784 to 128, 128 to 64 and 64 to 10. On every input its forward
  computation is the third layer applied to the rectified second layer applied to the
  rectified first layer applied to the flattened input, with nothing applied after the
  third layer, and it fails only where the flattening fails. The result depends on the
  entries and the input alone: forward returns a tensor and no new module, and the mode
  of the module makes no difference.
\<close>

theorem SimpleNN_forward_composition:
  "topology ((SimpleNN_init p)\<lparr>training := b\<rparr>) = [(784, 128), (128, 64), (64, 10)]
   \<and> forward ((SimpleNN_init p)\<lparr>training := b\<rparr>) x =
       (case view_rows x 784 of
          Inl e \<Rightarrow> Inl e
        | Inr x0 \<Rightarrow>
            Inr (Linear_apply (nn_Linear 64 10 (snd (snd p)))
                  (relu (Linear_apply (nn_Linear 128 64 (fst (snd p)))
                    (relu (Linear_apply (nn_Linear 784 128 (fst p)) x0))))))
   \<and> forward ((SimpleNN_init p)\<lparr>training := b\<rparr>) x = forward (SimpleNN_init p) x"
proof -
  let ?m = "(SimpleNN_init p)\<lparr>training := b\<rparr>"
  have t: "topology ?m = [(784, 128), (128, 64), (64, 10)]"
    by (simp only: topology_training topology_init)
  have l: "fc1 ?m = nn_Linear 784 128 (fst p)" "fc2 ?m = nn_Linear 128 64 (fst (snd p))"
    "fc3 ?m = nn_Linear 64 10 (snd (snd p))"
    by (simp_all add: SimpleNN_init_def)
  have f: "forward ?m x = forward (SimpleNN_init p) x"
    by (rule forward_training)
  from t f forward_topology [OF t, of x] show ?thesis
    by (simp only: l)
qed



lemma tensor_ok_Linear_apply: "tensor_ok (Linear_apply L x)"
  unfolding tensor_ok_def Linear_apply_def
  by (simp only: tensor.simps length_concat_affine length_rows prod_list.append prod_list.Cons prod_list.Nil mult_1_right)

lemma tensor_ok_forward: "forward m x = Inr y \<Longrightarrow> tensor_ok y"
  by (auto simp: forward_def Linear_forward_def Let_def tensor_ok_Linear_apply
      split: sum.splits if_splits)

lemma elem_le_sum_list:
  fixes xs :: "real list"
  shows "(\<And>x. x \<in> set xs \<Longrightarrow> 0 \<le> x) \<Longrightarrow> i < length xs \<Longrightarrow> xs ! i \<le> sum_list xs"
proof (induction xs arbitrary: i)
  case Nil
  then show ?case by simp
next
  case (Cons a xs)
  have nn: "0 \<le> sum_list xs" using Cons.prems(1) by (simp add: sum_list_nonneg)
  show ?case
  proof (cases i)
    case 0
    then show ?thesis using nn by simp
  next
    case (Suc j)
    then have "xs ! j \<le> sum_list xs" using Cons by auto
    moreover have "0 \<le> a" using Cons.prems(1) by simp
    ultimately show ?thesis using Suc by simp
  qed
qed


lemma length_row:
  assumes "length xs = n * c" "i < n"
  shows "length (rows n c xs ! i) = c"
proof -
  have "c \<le> n * c - i * c"
  proof -
    have "(i + 1) * c \<le> n * c" using assms(2) by (intro mult_le_mono1) simp
    then show ?thesis by (simp add: algebra_simps)
  qed
  then show ?thesis using assms by (simp add: rows_def)
qed




section \<open>Facts about the tracking calls\<close>

text \<open>
  Inside a \<^verbatim>\<open>with\<close> block the active run is the last run of the server: \<open>runs s = old @ [r]\<close>
  and \<open>active_run s = Some (length old)\<close>. The calls then change the call counter and \<open>r\<close> alone.
\<close>

lemma log_metric_last:
  assumes "active_run s = Some (length old)" "runs s = old @ [r]"
  shows "log_metric env key v stp s =
     (if server_up env (tracking_uri s) (requests s)
      then Inr (s\<lparr>requests := Suc (requests s),
                  runs := old @ [r\<lparr>metrics_of := metrics_of r @ [(key, v, stp)]\<rparr>]\<rparr>)
      else Inl (ConnectionError, s))"
  using assms
  by (simp add: log_metric_def get_or_start_run_def request_def write_run_def update_run_def)

lemma log_param_last:
  assumes "active_run s = Some (length old)" "runs s = old @ [r]" "map_of (params_of r) key = None"
  shows "log_param env key v s =
     (if server_up env (tracking_uri s) (requests s)
      then Inr (s\<lparr>requests := Suc (requests s),
                  runs := old @ [r\<lparr>params_of := params_of r @ [(key, v)]\<rparr>]\<rparr>)
      else Inl (ConnectionError, s))"
  using assms
  by (simp add: log_param_def get_or_start_run_def request_def write_run_def update_run_def)

lemma log_model_last:
  assumes "active_run s = Some (length old)" "runs s = old @ [r]"
  shows "log_model env m path s =
     (if server_up env (tracking_uri s) (requests s)
      then Inr (s\<lparr>requests := Suc (requests s),
                  runs := old @ [r\<lparr>artifacts_of := (path, m) # artifacts_of r\<rparr>]\<rparr>)
      else Inl (ConnectionError, s))"
  using assms
  by (simp add: log_model_def get_or_start_run_def request_def write_run_def update_run_def)

lemma register_model_last:
  assumes "runs s = old @ [r]"
  shows "register_model env (RunsUri (length old) path) name s =
     (if server_up env (tracking_uri s) (requests s)
      then Inr (s\<lparr>requests := Suc (requests s),
                  registry := (registry s)(name := registry s name @ [(length old, path)])\<rparr>,
                Suc (length (registry s name)))
      else Inl (ConnectionError, s))"
  using assms
  by (simp add: register_model_def request_def)

lemma end_run_last:
  assumes "active_run s = Some (length old)" "runs s = old @ [r]"
  shows "end_run env st s =
     (if server_up env (tracking_uri s) (requests s)
      then Inr (s\<lparr>requests := Suc (requests s), runs := old @ [r\<lparr>status := st\<rparr>], active_run := None\<rparr>)
      else Inl (ConnectionError, s))"
  using assms
  by (simp add: end_run_def request_def write_run_def update_run_def)

lemma start_run_fresh:
  assumes "active_run s = None"
  shows "start_run env s =
     (if server_up env (tracking_uri s) (requests s)
      then Inr (length (runs s),
                s\<lparr>requests := Suc (requests s), runs := runs s @ [new_run s],
                  active_run := Some (length (runs s))\<rparr>)
      else Inl (ConnectionError, s))"
  using assms
  by (simp add: start_run_def request_def new_run_def)

section \<open>Facts about the epochs\<close>

lemma train_pass_Inr:
  assumes "active_run s = Some (length old)" "runs s = old @ [r]"
    and "train_pass env opt trl e (s, model, os) = Inr (s', model', os')"
  shows "\<exists>rl. train_loop env opt (batches trl (rng env e)) (train_mode model, os, 0) = Inr (model', os', rl)
     \<and> 0 < len_loader trl
     \<and> server_up env (tracking_uri s) (requests s)
     \<and> s' = s\<lparr>requests := Suc (requests s),
               runs := old @ [r\<lparr>metrics_of := metrics_of r @
                  [(''average_train_loss'', rl / real (len_loader trl), e)]\<rparr>]\<rparr>"
  using assms(3)
  by (auto simp: train_pass_def py_div_def log_metric_last [OF assms(1,2)]
      split: sum.splits prod.splits if_splits)

lemma test_pass_Inr:
  assumes "active_run s = Some (length old)" "runs s = old @ [r]"
    and "test_pass env tel e (s, model, os) = Inr (s', model', os')"
  shows "\<exists>trl. eval_loop (eval_mode model) (batches tel (rng env e)) 0 = Inr trl
     \<and> 0 < len_loader tel
     \<and> server_up env (tracking_uri s) (requests s)
     \<and> model' = eval_mode model \<and> os' = os
     \<and> s' = s\<lparr>requests := Suc (requests s),
               runs := old @ [r\<lparr>metrics_of := metrics_of r @
                  [(''average_test_loss'', trl / real (len_loader tel), e)]\<rparr>]\<rparr>"
  using assms(3)
  by (auto simp: test_pass_def py_div_def log_metric_last [OF assms(1,2)]
      split: sum.splits prod.splits if_splits)

lemma epoch_Inr:
  assumes a: "active_run s = Some (length old)" and r: "runs s = old @ [r]"
    and ep: "epoch env opt trl tel e (s, model, os) = Inr (s', model', os')"
  shows "\<exists>v w. s' = s\<lparr>requests := requests s + 2,
               runs := old @ [r\<lparr>metrics_of := metrics_of r @
                  [(''average_train_loss'', v, e), (''average_test_loss'', w, e)]\<rparr>]\<rparr>
     \<and> server_up env (tracking_uri s) (requests s)
     \<and> server_up env (tracking_uri s) (Suc (requests s))"
proof -
  from ep obtain s1 m1 os1 where
    tp: "train_pass env opt trl e (s, model, os) = Inr (s1, m1, os1)"
    and te: "test_pass env tel e (s1, m1, os1) = Inr (s', model', os')"
    by (auto simp: epoch_def split: sum.splits)
  from train_pass_Inr [OF a r tp] obtain rl where
    up1: "server_up env (tracking_uri s) (requests s)"
    and s1: "s1 = s\<lparr>requests := Suc (requests s),
               runs := old @ [r\<lparr>metrics_of := metrics_of r @
                  [(''average_train_loss'', rl / real (len_loader trl), e)]\<rparr>]\<rparr>"
    by blast
  have a1: "active_run s1 = Some (length old)" using a s1 by simp
  have r1: "runs s1 = old @ [r\<lparr>metrics_of := metrics_of r @
                  [(''average_train_loss'', rl / real (len_loader trl), e)]\<rparr>]"
    using s1 by simp
  from test_pass_Inr [OF a1 r1 te] obtain tv where
    up2: "server_up env (tracking_uri s1) (requests s1)"
    and s': "s' = s1\<lparr>requests := Suc (requests s1),
               runs := old @ [r\<lparr>metrics_of := metrics_of r @
                  [(''average_train_loss'', rl / real (len_loader trl), e)]\<rparr>
                  \<lparr>metrics_of := metrics_of (r\<lparr>metrics_of := metrics_of r @
                  [(''average_train_loss'', rl / real (len_loader trl), e)]\<rparr>) @
                  [(''average_test_loss'', tv / real (len_loader tel), e)]\<rparr>]\<rparr>"
    by blast
  have "s' = s\<lparr>requests := requests s + 2,
               runs := old @ [r\<lparr>metrics_of := metrics_of r @
                  [(''average_train_loss'', rl / real (len_loader trl), e),
                   (''average_test_loss'', tv / real (len_loader tel), e)]\<rparr>]\<rparr>"
    unfolding s' s1 by simp
  moreover have "server_up env (tracking_uri s) (Suc (requests s))"
    using up2 s1 by simp
  ultimately show ?thesis using up1 by blast
qed

lemma epochs_loop_Inr:
  assumes "active_run s = Some (length old)" "runs s = old @ [r]"
    and "epochs_loop env opt trl tel es (s, model, os) = Inr (s', model', os')"
  shows "\<exists>ms. s' = s\<lparr>requests := requests s + 2 * length es,
               runs := old @ [r\<lparr>metrics_of := metrics_of r @ ms\<rparr>]\<rparr>
     \<and> metric_keys ms = expected_keys es
     \<and> (\<forall>k < 2 * length es. server_up env (tracking_uri s) (requests s + k))"
  using assms
proof (induction es arbitrary: s r model os)
  case Nil
  then show ?case by (simp add: metric_keys_def expected_keys_def)
next
  case (Cons e es)
  from Cons.prems(3) obtain s1 m1 os1 where
    ep: "epoch env opt trl tel e (s, model, os) = Inr (s1, m1, os1)"
    and rest: "epochs_loop env opt trl tel es (s1, m1, os1) = Inr (s', model', os')"
    by (auto split: sum.splits)
  from epoch_Inr [OF Cons.prems(1,2) ep] obtain v w where
    s1: "s1 = s\<lparr>requests := requests s + 2,
               runs := old @ [r\<lparr>metrics_of := metrics_of r @
                  [(''average_train_loss'', v, e), (''average_test_loss'', w, e)]\<rparr>]\<rparr>"
    and up: "server_up env (tracking_uri s) (requests s)" "server_up env (tracking_uri s) (Suc (requests s))"
    by blast
  let ?r1 = "r\<lparr>metrics_of := metrics_of r @
                  [(''average_train_loss'', v, e), (''average_test_loss'', w, e)]\<rparr>"
  have a1: "active_run s1 = Some (length old)" using Cons.prems(1) s1 by simp
  have r1: "runs s1 = old @ [?r1]" using s1 by simp
  from Cons.IH [OF a1 r1 rest] obtain ms where
    s': "s' = s1\<lparr>requests := requests s1 + 2 * length es,
               runs := old @ [?r1\<lparr>metrics_of := metrics_of ?r1 @ ms\<rparr>]\<rparr>"
    and keys: "metric_keys ms = expected_keys es"
    and ups: "\<forall>k < 2 * length es. server_up env (tracking_uri s1) (requests s1 + k)"
    by blast
  let ?ms = "[(''average_train_loss'', v, e), (''average_test_loss'', w, e)] @ ms"
  have "s' = s\<lparr>requests := requests s + 2 * length (e # es),
               runs := old @ [r\<lparr>metrics_of := metrics_of r @ ?ms\<rparr>]\<rparr>"
    unfolding s' s1 by simp
  moreover have "metric_keys ?ms = expected_keys (e # es)"
    using keys by (simp add: metric_keys_def expected_keys_def)
  moreover have "\<forall>k < 2 * length (e # es). server_up env (tracking_uri s) (requests s + k)"
  proof (intro allI impI)
    fix k assume k: "k < 2 * length (e # es)"
    show "server_up env (tracking_uri s) (requests s + k)"
    proof (cases "k < 2")
      case True
      then have "k = 0 \<or> k = 1" by auto
      then show ?thesis using up by auto
    next
      case False
      then have "k - 2 < 2 * length es" using k by simp
      with ups have "server_up env (tracking_uri s1) (requests s1 + (k - 2))" by blast
      moreover have "requests s1 + (k - 2) = requests s + k" using s1 False by simp
      moreover have "tracking_uri s1 = tracking_uri s" using s1 by simp
      ultimately show ?thesis by simp
    qed
  qed
  ultimately show ?case by blast
qed

section \<open>When the library calls succeed\<close>

lemma length_concat_const:
  "length (concat (map (\<lambda>i. map (f i) [0..<w]) xs)) = length xs * w"
  by (induction xs) simp_all

lemma shape_transform: "shape (transform img) = [1, height img, width img]"
  by (simp add: transform_def Normalize_def ToTensor_def)

lemma length_data_transform: "length (data (transform img)) = height img * width img"
  by (simp add: transform_def Normalize_def ToTensor_def length_concat_const)

lemma length_concat_same:
  "(\<And>x. x \<in> set xs \<Longrightarrow> length (f x) = k) \<Longrightarrow> length (concat (map f xs)) = length xs * k"
  by (induction xs) simp_all

lemma collate_ok:
  assumes "b \<noteq> []" "mnist_like b"
  shows "\<exists>images. collate b = Inr (images, map snd b)
     \<and> numel images = length b * 784"
proof -
  from assms(1) obtain s0 b' where b: "b = s0 # b'" by (cases b) auto
  have each: "height (fst s) = 28 \<and> width (fst s) = 28" if "s \<in> set b" for s
    using assms(2) that by (auto simp: mnist_like_def list_all_iff)
  have sh: "list_all (\<lambda>u. shape u = shape (transform (fst s0))) (map (\<lambda>s. transform (fst s)) b)"
    using each b by (auto simp: list_all_iff shape_transform)
  have len: "length (concat (map data (map (\<lambda>s. transform (fst s)) b))) = length b * 784"
    unfolding map_map comp_def
    by (rule length_concat_same) (use each in \<open>simp add: length_data_transform\<close>)
  have "stack (map (\<lambda>s. transform (fst s)) b) =
     Inr \<lparr>shape = length b # shape (transform (fst s0)),
          data = concat (map data (map (\<lambda>s. transform (fst s)) b))\<rparr>"
    using sh by (simp add: stack_def b)
  then show ?thesis using len by (simp add: collate_def numel_def)
qed

lemma forward_ok:
  assumes "topology m = [(784, 128), (128, 64), (64, 10)]" "numel x = n * 784"
  shows "\<exists>y. forward m x = Inr y \<and> shape y = [n, 10] \<and> tensor_ok y"
proof -
  from assms(1) have o: "out_features (fc3 m) = 10" by (simp add: topology_def)
  have "forward m x = Inr (Linear_apply (fc3 m) (relu (Linear_apply (fc2 m)
      (relu (Linear_apply (fc1 m) \<lparr>shape = [numel x div 784, 784], data = data x\<rparr>)))))"
    using assms(2) by (simp add: forward_topology [OF assms(1)] view_rows_def)
  moreover have "numel x div 784 = n" using assms(2) by simp
  ultimately show ?thesis
    by (simp add: shape_Linear_apply shape_relu o tensor_ok_Linear_apply)
qed

lemma CrossEntropyLoss_ok:
  assumes "shape y = [n, c]" "length labels = n" "list_all (\<lambda>l. l < c) labels" "n \<noteq> 0"
  shows "\<exists>l. CrossEntropyLoss y labels = Inr l"
  using assms by (simp add: CrossEntropyLoss_def)

lemma train_batch_ok:
  assumes "topology m = [(784, 128), (128, 64), (64, 10)]" "b \<noteq> []" "mnist_like b"
  shows "\<exists>m' os' l. train_batch env opt b (m, os) = Inr (m', os', l)
     \<and> topology m' = [(784, 128), (128, 64), (64, 10)]"
proof -
  from collate_ok [OF assms(2,3)] obtain images where
    c: "collate b = Inr (images, map snd b)" and n: "numel images = length b * 784"
    by blast
  from forward_ok [OF assms(1) n] obtain y where
    f: "forward m images = Inr y" and sy: "shape y = [length b, 10]"
    by blast
  have lab: "list_all (\<lambda>l. l < 10) (map snd b)"
    using assms(3) by (auto simp: mnist_like_def list_all_iff)
  from CrossEntropyLoss_ok [OF sy _ lab] assms(2) obtain l where
    l: "CrossEntropyLoss y (map snd b) = Inr l"
    by auto
  show ?thesis
    using assms(1) by (simp add: train_batch_def c f l Let_def topology_set_parameters)
qed

lemma eval_batch_ok:
  assumes "topology m = [(784, 128), (128, 64), (64, 10)]" "b \<noteq> []" "mnist_like b"
  shows "\<exists>l. eval_batch m b = Inr l"
proof -
  from collate_ok [OF assms(2,3)] obtain images where
    c: "collate b = Inr (images, map snd b)" and n: "numel images = length b * 784"
    by blast
  from forward_ok [OF assms(1) n] obtain y where
    f: "forward m images = Inr y" and sy: "shape y = [length b, 10]"
    by blast
  have lab: "list_all (\<lambda>l. l < 10) (map snd b)"
    using assms(3) by (auto simp: mnist_like_def list_all_iff)
  from CrossEntropyLoss_ok [OF sy _ lab] assms(2) obtain l where
    l: "CrossEntropyLoss y (map snd b) = Inr l"
    by auto
  show ?thesis
    by (simp add: eval_batch_def c f l)
qed

lemma train_loop_ok:
  assumes "topology m = [(784, 128), (128, 64), (64, 10)]"
    and "\<And>b. b \<in> set bs \<Longrightarrow> b \<noteq> [] \<and> mnist_like b"
  shows "\<exists>m' os' rl. train_loop env opt bs (m, os, acc) = Inr (m', os', rl)
     \<and> topology m' = [(784, 128), (128, 64), (64, 10)]"
  using assms
proof (induction bs arbitrary: m os acc)
  case Nil
  then show ?case by simp
next
  case (Cons b bs)
  have "b \<noteq> []" "mnist_like b" using Cons.prems(2) by auto
  from train_batch_ok [OF Cons.prems(1) this, where env = env and opt = opt and os = os]
  obtain m1 os1 l where
    tb: "train_batch env opt b (m, os) = Inr (m1, os1, l)"
    and t1: "topology m1 = [(784, 128), (128, 64), (64, 10)]"
    by blast
  from Cons.IH [OF t1, of os1 "acc + l"] Cons.prems(2) obtain m' os' rl where
    "train_loop env opt bs (m1, os1, acc + l) = Inr (m', os', rl)"
    "topology m' = [(784, 128), (128, 64), (64, 10)]"
    by auto
  then show ?case using tb by simp
qed

lemma eval_loop_ok:
  assumes "topology m = [(784, 128), (128, 64), (64, 10)]"
    and "\<And>b. b \<in> set bs \<Longrightarrow> b \<noteq> [] \<and> mnist_like b"
  shows "\<exists>tv. eval_loop m bs acc = Inr tv"
  using assms(2)
proof (induction bs arbitrary: acc)
  case Nil
  then show ?case by simp
next
  case (Cons b bs)
  have "b \<noteq> []" "mnist_like b" using Cons.prems by auto
  from eval_batch_ok [OF assms(1) this] obtain l where
    eb: "eval_batch m b = Inr l"
    by blast
  from Cons.IH [of "acc + l"] Cons.prems obtain tv where
    "eval_loop m bs (acc + l) = Inr tv"
    by auto
  then show ?case using eb by simp
qed

lemma set_randperm: "set (randperm n r xs) \<subseteq> set xs"
proof (induction n arbitrary: r xs)
  case 0
  then show ?case by simp
next
  case (Suc n)
  show ?case
  proof (cases "xs = []")
    case True
    then show ?thesis by simp
  next
    case False
    let ?i = "r 0 mod length xs"
    have i: "?i < length xs" using False by simp
    have "set (take ?i xs @ drop (Suc ?i) xs) \<subseteq> set xs"
      by (auto dest: in_set_takeD in_set_dropD)
    with Suc.IH [of "\<lambda>k. r (Suc k)" "take ?i xs @ drop (Suc ?i) xs"]
    have "set (randperm n (\<lambda>k. r (Suc k)) (take ?i xs @ drop (Suc ?i) xs)) \<subseteq> set xs"
      by blast
    then show ?thesis using False i by (simp add: Let_def)
  qed
qed

lemma length_randperm: "length (randperm n r xs) = min n (length xs)"
proof (induction n arbitrary: r xs)
  case 0
  then show ?case by simp
next
  case (Suc n)
  show ?case
  proof (cases "xs = []")
    case True
    then show ?thesis by simp
  next
    case False
    let ?i = "r 0 mod length xs"
    have i: "?i < length xs" using False by simp
    have "length (take ?i xs @ drop (Suc ?i) xs) = length xs - 1" using i by simp
    with Suc.IH [of "\<lambda>k. r (Suc k)" "take ?i xs @ drop (Suc ?i) xs"]
    have "length (randperm n (\<lambda>k. r (Suc k)) (take ?i xs @ drop (Suc ?i) xs)) = min n (length xs - 1)"
      by simp
    moreover have "Suc (min n (length xs - 1)) = min (Suc n) (length xs)"
      using i by arith
    ultimately show ?thesis using False by (simp add: Let_def)
  qed
qed

lemma length_sampler: "length (sampler dl r) = length (dataset_of dl)"
  by (simp add: sampler_def length_randperm)

lemma set_sampler: "set (sampler dl r) \<subseteq> set (dataset_of dl)"
  by (simp add: sampler_def set_randperm)


lemma batches_good:
  assumes "mnist_like (dataset_of dl)" "0 < batch_size dl" "b \<in> set (batches dl r)"
  shows "b \<noteq> [] \<and> mnist_like b"
proof -
  let ?xs = "sampler dl r" and ?k = "batch_size dl"
  from assms(3) obtain i where i: "i < len_loader dl" and b: "b = take ?k (drop (i * ?k) ?xs)"
    by (auto simp: batches_def rows_def)
  have "i * ?k < length (dataset_of dl)"
  proof -
    have "len_loader dl * ?k < length (dataset_of dl) + ?k"
    proof -
      have "(length (dataset_of dl) + ?k - 1) div ?k * ?k \<le> length (dataset_of dl) + ?k - 1"
        by (rule div_times_less_eq_dividend)
      moreover have "length (dataset_of dl) + ?k - 1 < length (dataset_of dl) + ?k"
        using assms(2) by arith
      ultimately show ?thesis unfolding len_loader_def by (rule le_less_trans)
    qed
    moreover have "(i + 1) * ?k \<le> len_loader dl * ?k" using i by (intro mult_le_mono1) simp
    ultimately show ?thesis by simp
  qed
  then have "b \<noteq> []" using assms(2) b by (simp add: length_sampler)
  moreover have "set b \<subseteq> set (dataset_of dl)"
    using set_sampler [of dl r] b by (auto dest: in_set_takeD in_set_dropD)
  then have "mnist_like b" using assms(1) by (auto simp: mnist_like_def list_all_iff)
  ultimately show ?thesis by simp
qed

lemma len_loader_pos:
  assumes "dataset_of dl \<noteq> []" "0 < batch_size dl"
  shows "0 < len_loader dl"
proof -
  have "0 < length (dataset_of dl)" using assms(1) by simp
  then have "batch_size dl \<le> length (dataset_of dl) + batch_size dl - 1" by arith
  then show ?thesis using assms(2) by (simp add: len_loader_def div_greater_zero_iff)
qed

section \<open>Facts about the training cell\<close>

lemma training_body_Inr:
  assumes a: "active_run s = Some (length old)" and r: "runs s = old @ [r]"
    and p: "params_of r = []"
    and body: "training_body env opt trl tel (model, os) (length old) s = Inr (s', model', os', details)"
  shows "\<exists>ms s2 s3. s' = s\<lparr>requests := requests s + 14,
               runs := old @ [r\<lparr>params_of := [(''learning_rate'', 0.003), (''momentum'', 0.003)],
                                 metrics_of := metrics_of r @ ms,
                                 artifacts_of := (''mnist_model'', model') # artifacts_of r\<rparr>],
               registry := (registry s)(''MNISTModel'' :=
                  registry s ''MNISTModel'' @ [(length old, ''mnist_model'')])\<rparr>
     \<and> metric_keys ms = expected_keys [0..<5]
     \<and> details = Suc (length (registry s ''MNISTModel''))
     \<and> (\<forall>k < 14. server_up env (tracking_uri s) (requests s + k))
     \<and> epochs_loop env opt trl tel [0..<5] (s2, model, os) = Inr (s3, model', os')"
proof -
  from body obtain s1 s2 s3 s4 where
    lp1: "log_param env ''learning_rate'' 0.003 s = Inr s1"
    and lp2: "log_param env ''momentum'' 0.003 s1 = Inr s2"
    and el: "epochs_loop env opt trl tel [0..<5] (s2, model, os) = Inr (s3, model', os')"
    and lm: "log_model env model' ''mnist_model'' s3 = Inr s4"
    and rm: "register_model env (RunsUri (length old) ''mnist_model'') ''MNISTModel'' s4 = Inr (s', details)"
    by (auto simp: training_body_def Let_def split: sum.splits prod.splits)
  let ?r1 = "r\<lparr>params_of := [(''learning_rate'', 0.003)]\<rparr>"
  let ?r2 = "r\<lparr>params_of := [(''learning_rate'', 0.003), (''momentum'', 0.003)]\<rparr>"
  have m1: "map_of (params_of r) ''learning_rate'' = None" using p by simp
  from lp1 have up0: "server_up env (tracking_uri s) (requests s)"
    and s1: "s1 = s\<lparr>requests := Suc (requests s), runs := old @ [?r1]\<rparr>"
    by (auto simp: log_param_last [OF a r m1] p split: if_splits)
  have a1: "active_run s1 = Some (length old)" and r1: "runs s1 = old @ [?r1]"
    using a s1 by simp_all
  have m2: "map_of (params_of ?r1) ''momentum'' = None" by simp
  from lp2 have up1: "server_up env (tracking_uri s1) (requests s1)"
    and s2: "s2 = s1\<lparr>requests := Suc (requests s1), runs := old @ [?r2]\<rparr>"
    by (auto simp: log_param_last [OF a1 r1 m2] split: if_splits)
  have a2: "active_run s2 = Some (length old)" and r2: "runs s2 = old @ [?r2]"
    using a1 s2 by simp_all
  from epochs_loop_Inr [OF a2 r2 el] obtain ms where
    s3: "s3 = s2\<lparr>requests := requests s2 + 2 * length [0..<5::nat],
               runs := old @ [?r2\<lparr>metrics_of := metrics_of ?r2 @ ms\<rparr>]\<rparr>"
    and keys: "metric_keys ms = expected_keys [0..<5]"
    and ups: "\<forall>k < 2 * length [0..<5::nat]. server_up env (tracking_uri s2) (requests s2 + k)"
    by blast
  let ?r3 = "?r2\<lparr>metrics_of := metrics_of ?r2 @ ms\<rparr>"
  have a3: "active_run s3 = Some (length old)" and r3: "runs s3 = old @ [?r3]"
    using a2 s3 by simp_all
  from lm have up12: "server_up env (tracking_uri s3) (requests s3)"
    and s4: "s4 = s3\<lparr>requests := Suc (requests s3),
               runs := old @ [?r3\<lparr>artifacts_of := (''mnist_model'', model') # artifacts_of ?r3\<rparr>]\<rparr>"
    by (auto simp: log_model_last [OF a3 r3] split: if_splits)
  let ?r4 = "?r3\<lparr>artifacts_of := (''mnist_model'', model') # artifacts_of ?r3\<rparr>"
  have r4: "runs s4 = old @ [?r4]" using s4 by simp
  from rm have up13: "server_up env (tracking_uri s4) (requests s4)"
    and s': "s' = s4\<lparr>requests := Suc (requests s4),
               registry := (registry s4)(''MNISTModel'' :=
                  registry s4 ''MNISTModel'' @ [(length old, ''mnist_model'')])\<rparr>"
    and d: "details = Suc (length (registry s4 ''MNISTModel''))"
    by (auto simp: register_model_last [OF r4] split: if_splits)
  have req: "requests s1 = requests s + 1" "requests s2 = requests s + 2"
    "requests s3 = requests s + 12" "requests s4 = requests s + 13"
    and uri: "tracking_uri s1 = tracking_uri s" "tracking_uri s2 = tracking_uri s"
    "tracking_uri s3 = tracking_uri s" "tracking_uri s4 = tracking_uri s"
    and reg: "registry s4 = registry s"
    unfolding s4 s3 s2 s1 by simp_all
  have final: "s' = s\<lparr>requests := requests s + 14,
               runs := old @ [r\<lparr>params_of := [(''learning_rate'', 0.003), (''momentum'', 0.003)],
                                 metrics_of := metrics_of r @ ms,
                                 artifacts_of := (''mnist_model'', model') # artifacts_of r\<rparr>],
               registry := (registry s)(''MNISTModel'' :=
                  registry s ''MNISTModel'' @ [(length old, ''mnist_model'')])\<rparr>"
    unfolding s' s4 s3 s2 s1 by simp
  have allup: "\<forall>k < 14. server_up env (tracking_uri s) (requests s + k)"
  proof (intro allI impI)
    fix k :: nat assume k: "k < 14"
    consider "k = 0" | "k = 1" | "2 \<le> k \<and> k < 12" | "k = 12" | "k = 13"
      using k by linarith
    then show "server_up env (tracking_uri s) (requests s + k)"
    proof cases
      case 1
      then show ?thesis using up0 by simp
    next
      case 2
      then show ?thesis using up1 req(1) uri(1) by simp
    next
      case 3
      have "2 * length [0..<5::nat] = 10" by simp
      moreover have "k - 2 < 10" using 3 by arith
      ultimately have "k - 2 < 2 * length [0..<5::nat]" by simp
      with ups have "server_up env (tracking_uri s2) (requests s2 + (k - 2))" by blast
      moreover have "requests s2 + (k - 2) = requests s + k" using 3 req(2) by arith
      ultimately show ?thesis using uri(2) by simp
    next
      case 4
      then show ?thesis using up12 req(3) uri(3) by simp
    next
      case 5
      then show ?thesis using up13 req(4) uri(4) by simp
    qed
  qed
  have d': "details = Suc (length (registry s ''MNISTModel''))" using d reg by simp
  from final keys d' allup el show ?thesis by blast
qed

lemma cell_train_Inr:
  assumes a: "active_run s = None"
    and ct: "cell_train env opt trl tel (model, os) s = Inr (s', model', os', details)"
  shows "\<exists>ms s2 s3. s' = after_training s ms model'
     \<and> metric_keys ms = expected_keys [0..<5]
     \<and> details = Suc (length (registry s ''MNISTModel''))
     \<and> (\<forall>k < 16. server_up env (tracking_uri s) (requests s + k))
     \<and> epochs_loop env opt trl tel [0..<5] (s2, model, os) = Inr (s3, model', os')"
proof -
  let ?s1 = "s\<lparr>requests := Suc (requests s), runs := runs s @ [new_run s],
                active_run := Some (length (runs s))\<rparr>"
  from ct have up0: "server_up env (tracking_uri s) (requests s)"
    by (auto simp: cell_train_def with_start_run_def start_run_fresh [OF a] split: if_splits)
  with ct obtain s2 where
    body: "training_body env opt trl tel (model, os) (length (runs s)) ?s1 = Inr (s2, model', os', details)"
    and er: "end_run env FINISHED s2 = Inr s'"
    by (auto simp: cell_train_def with_start_run_def start_run_fresh [OF a]
        split: sum.splits prod.splits)
  have a1: "active_run ?s1 = Some (length (runs s))" and r1: "runs ?s1 = runs s @ [new_run s]"
    by simp_all
  have p1: "params_of (new_run s) = []" by (simp add: new_run_def)
  from training_body_Inr [OF a1 r1 p1 body] obtain ms t2 t3 where
    s2: "s2 = ?s1\<lparr>requests := requests ?s1 + 14,
               runs := runs s @ [(new_run s)\<lparr>params_of := [(''learning_rate'', 0.003), (''momentum'', 0.003)],
                                 metrics_of := metrics_of (new_run s) @ ms,
                                 artifacts_of := (''mnist_model'', model') # artifacts_of (new_run s)\<rparr>],
               registry := (registry ?s1)(''MNISTModel'' :=
                  registry ?s1 ''MNISTModel'' @ [(length (runs s), ''mnist_model'')])\<rparr>"
    and keys: "metric_keys ms = expected_keys [0..<5]"
    and d: "details = Suc (length (registry ?s1 ''MNISTModel''))"
    and ups: "\<forall>k < 14. server_up env (tracking_uri ?s1) (requests ?s1 + k)"
    and el: "epochs_loop env opt trl tel [0..<5] (t2, model, os) = Inr (t3, model', os')"
    by blast
  let ?r2 = "(new_run s)\<lparr>params_of := [(''learning_rate'', 0.003), (''momentum'', 0.003)],
                                 metrics_of := metrics_of (new_run s) @ ms,
                                 artifacts_of := (''mnist_model'', model') # artifacts_of (new_run s)\<rparr>"
  have a2: "active_run s2 = Some (length (runs s))" and r2: "runs s2 = runs s @ [?r2]"
    unfolding s2 by simp_all
  from er have up15: "server_up env (tracking_uri s2) (requests s2)"
    and s': "s' = s2\<lparr>requests := Suc (requests s2), runs := runs s @ [?r2\<lparr>status := FINISHED\<rparr>],
                      active_run := None\<rparr>"
    by (auto simp: end_run_last [OF a2 r2] split: if_splits)
  have tr: "?r2\<lparr>status := FINISHED\<rparr> = trained_run s ms model'"
    by (simp add: new_run_def trained_run_def)
  have final: "s' = after_training s ms model'"
    unfolding s' tr unfolding s2 after_training_def by simp
  have req2: "requests s2 = requests s + 15" and uri2: "tracking_uri s2 = tracking_uri s"
    unfolding s2 by simp_all
  have allup: "\<forall>k < 16. server_up env (tracking_uri s) (requests s + k)"
  proof (intro allI impI)
    fix k :: nat assume k: "k < 16"
    consider "k = 0" | "1 \<le> k \<and> k < 15" | "k = 15"
      using k by linarith
    then show "server_up env (tracking_uri s) (requests s + k)"
    proof cases
      case 1
      then show ?thesis using up0 by simp
    next
      case 2
      then have "k - 1 < 14" by arith
      with ups have "server_up env (tracking_uri ?s1) (requests ?s1 + (k - 1))" by blast
      moreover have "requests ?s1 + (k - 1) = requests s + k" using 2 by simp
      ultimately show ?thesis by simp
    next
      case 3
      then show ?thesis using up15 req2 uri2 by simp
    qed
  qed
  have d': "details = Suc (length (registry s ''MNISTModel''))" using d by simp
  from final keys d' allup el show ?thesis by blast
qed

lemma cell_tracking_Inr:
  assumes "cell_tracking env sv = Inr s0"
  shows "runs s0 = runs sv \<and> registry s0 = registry sv \<and> active_run s0 = None
     \<and> tracking_uri s0 = Some ''http://localhost:5000''
     \<and> active_experiment s0 = Some ''mnist_pytorch_experiment''
     \<and> requests sv < requests s0 \<and> requests s0 \<le> requests sv + 2
     \<and> (\<forall>k. requests sv \<le> k \<and> k < requests s0 \<longrightarrow> server_up env (Some ''http://localhost:5000'') k)"
  using assms
  by (auto simp: cell_tracking_def set_experiment_def set_tracking_uri_def connect_def
      request_def le_less_Suc_eq less_Suc_eq split: sum.splits if_splits)

lemma topology_train_mode: "topology (train_mode m) = topology m"
  by (simp add: train_mode_def topology_def)

lemma topology_eval_mode: "topology (eval_mode m) = topology m"
  by (simp add: eval_mode_def topology_def)

lemma train_pass_ok:
  assumes a: "active_run s = Some (length old)" and r: "runs s = old @ [r]"
    and t: "topology model = [(784, 128), (128, 64), (64, 10)]"
    and g: "good_loader trl"
    and up: "server_up env (tracking_uri s) (requests s)"
  shows "\<exists>s' m' os'. train_pass env opt trl e (s, model, os) = Inr (s', m', os')
     \<and> topology m' = [(784, 128), (128, 64), (64, 10)]"
proof -
  have tm: "topology (train_mode model) = [(784, 128), (128, 64), (64, 10)]"
    using t by (simp add: topology_train_mode)
  have gb: "b \<noteq> [] \<and> mnist_like b" if "b \<in> set (batches trl (rng env e))" for b
    using g that by (auto simp: good_loader_def dest: batches_good)
  from train_loop_ok [OF tm gb, where env = env and opt = opt and os = os and acc = 0]
  obtain m' os' rl where
    tl: "train_loop env opt (batches trl (rng env e)) (train_mode model, os, 0) = Inr (m', os', rl)"
    and t': "topology m' = [(784, 128), (128, 64), (64, 10)]"
    by blast
  have pos: "len_loader trl \<noteq> 0"
    using g len_loader_pos [of trl] by (simp add: good_loader_def)
  show ?thesis
    using t' up pos by (simp add: train_pass_def tl py_div_def log_metric_last [OF a r])
qed

lemma test_pass_ok:
  assumes a: "active_run s = Some (length old)" and r: "runs s = old @ [r]"
    and t: "topology model = [(784, 128), (128, 64), (64, 10)]"
    and g: "good_loader tel"
    and up: "server_up env (tracking_uri s) (requests s)"
  shows "\<exists>s' m' os'. test_pass env tel e (s, model, os) = Inr (s', m', os')
     \<and> topology m' = [(784, 128), (128, 64), (64, 10)]"
proof -
  have tm: "topology (eval_mode model) = [(784, 128), (128, 64), (64, 10)]"
    using t by (simp add: topology_eval_mode)
  have gb: "b \<noteq> [] \<and> mnist_like b" if "b \<in> set (batches tel (rng env e))" for b
    using g that by (auto simp: good_loader_def dest: batches_good)
  from eval_loop_ok [OF tm gb, where acc = 0]
  obtain tv where
    el: "eval_loop (eval_mode model) (batches tel (rng env e)) 0 = Inr tv"
    by blast
  have pos: "len_loader tel \<noteq> 0"
    using g len_loader_pos [of tel] by (simp add: good_loader_def)
  show ?thesis
    using tm up pos by (simp add: test_pass_def el py_div_def log_metric_last [OF a r])
qed

lemma epoch_ok:
  assumes a: "active_run s = Some (length old)" and r: "runs s = old @ [r]"
    and t: "topology model = [(784, 128), (128, 64), (64, 10)]"
    and g: "good_loader trl" "good_loader tel"
    and up: "\<forall>k. server_up env (tracking_uri s) k"
  shows "\<exists>s' m' os'. epoch env opt trl tel e (s, model, os) = Inr (s', m', os')
     \<and> topology m' = [(784, 128), (128, 64), (64, 10)]"
proof -
  from up have up0: "server_up env (tracking_uri s) (requests s)" by blast
  from train_pass_ok [OF a r t g(1) up0, where opt = opt and e = e and os = os]
  obtain s1 m1 os1 where
    tp: "train_pass env opt trl e (s, model, os) = Inr (s1, m1, os1)"
    and t1: "topology m1 = [(784, 128), (128, 64), (64, 10)]"
    by blast
  from train_pass_Inr [OF a r tp] obtain rl where
    s1: "s1 = s\<lparr>requests := Suc (requests s),
               runs := old @ [r\<lparr>metrics_of := metrics_of r @
                  [(''average_train_loss'', rl / real (len_loader trl), e)]\<rparr>]\<rparr>"
    by blast
  have a1: "active_run s1 = Some (length old)" using a s1 by simp
  have r1: "runs s1 = old @ [r\<lparr>metrics_of := metrics_of r @
                  [(''average_train_loss'', rl / real (len_loader trl), e)]\<rparr>]"
    using s1 by simp
  have up1: "server_up env (tracking_uri s1) (requests s1)" using up s1 by simp
  from test_pass_ok [OF a1 r1 t1 g(2) up1, where e = e and os = os1]
  obtain s' m' os' where
    "test_pass env tel e (s1, m1, os1) = Inr (s', m', os')"
    "topology m' = [(784, 128), (128, 64), (64, 10)]"
    by blast
  then show ?thesis by (simp add: epoch_def tp)
qed

lemma epochs_loop_ok:
  assumes "active_run s = Some (length old)" "runs s = old @ [r]"
    and "topology model = [(784, 128), (128, 64), (64, 10)]"
    and g: "good_loader trl" "good_loader tel"
    and "\<forall>k. server_up env (tracking_uri s) k"
  shows "\<exists>s' m' os'. epochs_loop env opt trl tel es (s, model, os) = Inr (s', m', os')
     \<and> topology m' = [(784, 128), (128, 64), (64, 10)]"
  using assms(1,2,3,6)
proof (induction es arbitrary: s r model os)
  case Nil
  then show ?case by simp
next
  case (Cons e es)
  from epoch_ok [OF Cons.prems(1,2,3) g Cons.prems(4), where opt = opt and e = e and os = os]
  obtain s1 m1 os1 where
    ep: "epoch env opt trl tel e (s, model, os) = Inr (s1, m1, os1)"
    and t1: "topology m1 = [(784, 128), (128, 64), (64, 10)]"
    by blast
  from epoch_Inr [OF Cons.prems(1,2) ep] obtain v w where
    s1: "s1 = s\<lparr>requests := requests s + 2,
               runs := old @ [r\<lparr>metrics_of := metrics_of r @
                  [(''average_train_loss'', v, e), (''average_test_loss'', w, e)]\<rparr>]\<rparr>"
    by blast
  have a1: "active_run s1 = Some (length old)" using Cons.prems(1) s1 by simp
  have r1: "runs s1 = old @ [r\<lparr>metrics_of := metrics_of r @
                  [(''average_train_loss'', v, e), (''average_test_loss'', w, e)]\<rparr>]"
    using s1 by simp
  have up1: "\<forall>k. server_up env (tracking_uri s1) k" using Cons.prems(4) s1 by simp
  from Cons.IH [OF a1 r1 t1 up1, of os1] obtain s' m' os' where
    "epochs_loop env opt trl tel es (s1, m1, os1) = Inr (s', m', os')"
    "topology m' = [(784, 128), (128, 64), (64, 10)]"
    by blast
  then show ?case by (simp add: ep)
qed

lemma training_body_ok:
  assumes a: "active_run s = Some (length old)" and r: "runs s = old @ [r]"
    and p: "params_of r = []"
    and t: "topology model = [(784, 128), (128, 64), (64, 10)]"
    and g: "good_loader trl" "good_loader tel"
    and up: "\<forall>k. server_up env (tracking_uri s) k"
  shows "\<exists>s' m' os' d. training_body env opt trl tel (model, os) (length old) s = Inr (s', m', os', d)
     \<and> topology m' = [(784, 128), (128, 64), (64, 10)]"
proof -
  let ?r1 = "r\<lparr>params_of := [(''learning_rate'', 0.003)]\<rparr>"
  let ?r2 = "r\<lparr>params_of := [(''learning_rate'', 0.003), (''momentum'', 0.003)]\<rparr>"
  let ?s1 = "s\<lparr>requests := Suc (requests s), runs := old @ [?r1]\<rparr>"
  let ?s2 = "?s1\<lparr>requests := Suc (requests ?s1), runs := old @ [?r2]\<rparr>"
  have m1: "map_of (params_of r) ''learning_rate'' = None" using p by simp
  have lp1: "log_param env ''learning_rate'' 0.003 s = Inr ?s1"
    using up log_param_last [OF a r m1, of env "0.003"] by (simp add: p)
  have a1: "active_run ?s1 = Some (length old)" and r1: "runs ?s1 = old @ [?r1]"
    using a by simp_all
  have m2: "map_of (params_of ?r1) ''momentum'' = None" by simp
  have lp2: "log_param env ''momentum'' 0.003 ?s1 = Inr ?s2"
    using up log_param_last [OF a1 r1 m2, of env "0.003"] by simp
  have a2: "active_run ?s2 = Some (length old)" and r2: "runs ?s2 = old @ [?r2]"
    using a by simp_all
  have up2: "\<forall>k. server_up env (tracking_uri ?s2) k" using up by simp
  from epochs_loop_ok [OF a2 r2 t g up2, where opt = opt and es = "[0..<5]" and os = os]
  obtain s3 m' os' where
    el: "epochs_loop env opt trl tel [0..<5] (?s2, model, os) = Inr (s3, m', os')"
    and t': "topology m' = [(784, 128), (128, 64), (64, 10)]"
    by blast
  from epochs_loop_Inr [OF a2 r2 el] obtain ms where
    s3: "s3 = ?s2\<lparr>requests := requests ?s2 + 2 * length [0..<5::nat],
               runs := old @ [?r2\<lparr>metrics_of := metrics_of ?r2 @ ms\<rparr>]\<rparr>"
    by blast
  let ?r3 = "?r2\<lparr>metrics_of := metrics_of ?r2 @ ms\<rparr>"
  have a3: "active_run s3 = Some (length old)" and r3: "runs s3 = old @ [?r3]"
    using a s3 by simp_all
  have up3: "server_up env (tracking_uri s3) (requests s3)" using up s3 by simp
  let ?s4 = "s3\<lparr>requests := Suc (requests s3),
               runs := old @ [?r3\<lparr>artifacts_of := (''mnist_model'', m') # artifacts_of ?r3\<rparr>]\<rparr>"
  have lm: "log_model env m' ''mnist_model'' s3 = Inr ?s4"
    using up3 by (subst log_model_last [OF a3 r3]) simp
  have r4: "runs ?s4 = old @ [?r3\<lparr>artifacts_of := (''mnist_model'', m') # artifacts_of ?r3\<rparr>]"
    by simp
  have up4: "server_up env (tracking_uri ?s4) (requests ?s4)" using up s3 by simp
  have "\<exists>s' d. register_model env (RunsUri (length old) ''mnist_model'') ''MNISTModel'' ?s4 = Inr (s', d)"
    using up4 by (subst register_model_last [OF r4]) simp
  then obtain s' d where
    rm: "register_model env (RunsUri (length old) ''mnist_model'') ''MNISTModel'' ?s4 = Inr (s', d)"
    by blast
  have "training_body env opt trl tel (model, os) (length old) s = Inr (s', m', os', d)"
    by (simp only: training_body_def lp1 lp2 Let_def fst_conv snd_conv el lm rm sum.case prod.case)
  with t' show ?thesis by blast
qed

lemma cell_train_ok:
  assumes a: "active_run s = None"
    and t: "topology model = [(784, 128), (128, 64), (64, 10)]"
    and g: "good_loader trl" "good_loader tel"
    and up: "\<forall>k. server_up env (tracking_uri s) k"
  shows "\<exists>s' m' os' d. cell_train env opt trl tel (model, os) s = Inr (s', m', os', d)
     \<and> topology m' = [(784, 128), (128, 64), (64, 10)]"
proof -
  let ?s1 = "s\<lparr>requests := Suc (requests s), runs := runs s @ [new_run s],
                active_run := Some (length (runs s))\<rparr>"
  have sr: "start_run env s = Inr (length (runs s), ?s1)"
    using up by (simp add: start_run_fresh [OF a])
  have a1: "active_run ?s1 = Some (length (runs s))" and r1: "runs ?s1 = runs s @ [new_run s]"
    by simp_all
  have p1: "params_of (new_run s) = []" by (simp add: new_run_def)
  have up1: "\<forall>k. server_up env (tracking_uri ?s1) k" using up by simp
  from training_body_ok [OF a1 r1 p1 t g up1, where opt = opt and os = os]
  obtain s2 m' os' d where
    body: "training_body env opt trl tel (model, os) (length (runs s)) ?s1 = Inr (s2, m', os', d)"
    and t': "topology m' = [(784, 128), (128, 64), (64, 10)]"
    by blast
  from training_body_Inr [OF a1 r1 p1 body] obtain ms where
    s2: "s2 = ?s1\<lparr>requests := requests ?s1 + 14,
               runs := runs s @ [(new_run s)\<lparr>params_of := [(''learning_rate'', 0.003), (''momentum'', 0.003)],
                                 metrics_of := metrics_of (new_run s) @ ms,
                                 artifacts_of := (''mnist_model'', m') # artifacts_of (new_run s)\<rparr>],
               registry := (registry ?s1)(''MNISTModel'' :=
                  registry ?s1 ''MNISTModel'' @ [(length (runs s), ''mnist_model'')])\<rparr>"
    by blast
  let ?r2 = "(new_run s)\<lparr>params_of := [(''learning_rate'', 0.003), (''momentum'', 0.003)],
                                 metrics_of := metrics_of (new_run s) @ ms,
                                 artifacts_of := (''mnist_model'', m') # artifacts_of (new_run s)\<rparr>"
  have a2: "active_run s2 = Some (length (runs s))" and r2: "runs s2 = runs s @ [?r2]"
    unfolding s2 by simp_all
  have up2: "server_up env (tracking_uri s2) (requests s2)" using up unfolding s2 by simp
  have "\<exists>s'. end_run env FINISHED s2 = Inr s'"
    using up2 by (subst end_run_last [OF a2 r2]) simp
  then obtain s' where er: "end_run env FINISHED s2 = Inr s'" by blast
  have "cell_train env opt trl tel (model, os) s = Inr (s', m', os', d)"
    by (simp add: cell_train_def with_start_run_def sr body er)
  with t' show ?thesis by blast
qed

lemma cell_tracking_ok:
  assumes "\<forall>k. server_up env (Some ''http://localhost:5000'') k"
  shows "\<exists>s0. cell_tracking env sv = Inr s0"
  using assms
  by (simp add: cell_tracking_def set_experiment_def set_tracking_uri_def connect_def request_def)

section \<open>Facts about inference\<close>



lemma rows_one: "rows (Suc 0) c xs = [take c xs]"
  by (simp add: rows_def)

lemma predict_steps:
  assumes "predict_and_visualize m ds i = Inr (m', fig)"
  shows "\<exists>img lbl logits predicted f p. 
    getitem ds i = Inr (img, lbl)
    \<and> forward (eval_mode m) (unsqueeze0 img) = Inr logits
    \<and> argmax_dim1 logits = Inr predicted
    \<and> imshow (squeeze (unsqueeze0 img)) ''Greys_r'' = Inr f
    \<and> item predicted = Inr p
    \<and> m' = eval_mode m
    \<and> fig = f\<lparr>title := ''Predicted Digit: '' @ str_nat p @ '', True Label: '' @ str_nat lbl\<rparr>"
proof (cases "getitem ds i")
  case (Inl e)
  with assms show ?thesis by (simp add: predict_and_visualize_def)
next
  case (Inr a)
  then obtain img lbl where g: "getitem ds i = Inr (img, lbl)" by (cases a) auto
  show ?thesis
  proof (cases "forward (eval_mode m) (unsqueeze0 img)")
    case (Inl e)
    with assms g show ?thesis by (simp add: predict_and_visualize_def)
  next
    case fw: (Inr logits)
    show ?thesis
    proof (cases "argmax_dim1 logits")
      case (Inl e)
      with assms g fw show ?thesis by (simp add: predict_and_visualize_def)
    next
      case am: (Inr predicted)
      show ?thesis
      proof (cases "imshow (squeeze (unsqueeze0 img)) ''Greys_r''")
        case (Inl e)
        with assms g fw am show ?thesis by (simp add: predict_and_visualize_def)
      next
        case im: (Inr f)
        show ?thesis
        proof (cases "item predicted")
          case (Inl e)
          with assms g fw am im show ?thesis by (simp add: predict_and_visualize_def)
        next
          case it: (Inr p)
          with assms g fw am im show ?thesis by (simp add: predict_and_visualize_def)
        qed
      qed
    qed
  qed
qed

lemma predict_Inr:
  assumes "predict_and_visualize m ds i = Inr (m', fig)"
  shows "\<exists>img lbl logits p. getitem ds i = Inr (img, lbl)
     \<and> forward m (unsqueeze0 img) = Inr logits
     \<and> argmax_dim1 logits = Inr [p]
     \<and> m' = eval_mode m
     \<and> fig = \<lparr>shown = squeeze (unsqueeze0 img), cmap = ''Greys_r'',
              title = ''Predicted Digit: '' @ str_nat p @ '', True Label: '' @ str_nat lbl\<rparr>"
proof -
  from predict_steps [OF assms] obtain img lbl logits predicted f p where
    g: "getitem ds i = Inr (img, lbl)"
    and fw: "forward (eval_mode m) (unsqueeze0 img) = Inr logits"
    and am: "argmax_dim1 logits = Inr predicted"
    and im: "imshow (squeeze (unsqueeze0 img)) ''Greys_r'' = Inr f"
    and it: "item predicted = Inr p"
    and m': "m' = eval_mode m"
    and fig: "fig = f\<lparr>title := ''Predicted Digit: '' @ str_nat p @ '', True Label: '' @ str_nat lbl\<rparr>"
    by blast
  from it have pr: "predicted = [p]"
    by (auto simp: item_def split: list.splits)
  from im have f: "f = \<lparr>shown = squeeze (unsqueeze0 img), cmap = ''Greys_r'', title = []\<rparr>"
    by (auto simp: imshow_def split: if_splits)
  from fw have fw': "forward m (unsqueeze0 img) = Inr logits"
    by (simp add: eval_mode_def forward_training)
  from g fw' am pr m' fig f show ?thesis by simp
qed




lemma predict_ok:
  assumes t: "topology m = [(784, 128), (128, 64), (64, 10)]"
    and ne: "ds \<noteq> []" and ml: "mnist_like ds"
  shows "\<exists>fig. predict_and_visualize m ds 0 = Inr (eval_mode m, fig)"
proof -
  let ?img = "transform (fst (ds ! 0))"
  have g: "getitem ds 0 = Inr (?img, snd (ds ! 0))"
    using ne by (simp add: getitem_def sample_def)
  have hw: "height (fst (ds ! 0)) = 28" "width (fst (ds ! 0)) = 28"
    using ne ml by (cases ds; simp add: mnist_like_def)+
  have n: "numel (unsqueeze0 ?img) = 1 * 784"
    by (simp add: numel_def unsqueeze0_def length_data_transform hw)
  have te: "topology (eval_mode m) = [(784, 128), (128, 64), (64, 10)]"
    using t by (simp add: topology_eval_mode)
  from forward_ok [OF te n] obtain y where
    fw: "forward (eval_mode m) (unsqueeze0 ?img) = Inr y" and sy: "shape y = [1, 10]"
    by blast
  have am: "argmax_dim1 y = Inr [argmax_list (take 10 (data y))]"
    using sy by (simp add: argmax_dim1_def rows_one)
  have sq: "shape (squeeze (unsqueeze0 ?img)) = [28, 28]"
    by (simp add: squeeze_def unsqueeze0_def shape_transform hw)
  have im: "imshow (squeeze (unsqueeze0 ?img)) ''Greys_r''
      = Inr \<lparr>shown = squeeze (unsqueeze0 ?img), cmap = ''Greys_r'', title = []\<rparr>"
    using sq by (simp add: imshow_def)
  show ?thesis
    by (simp add: predict_and_visualize_def Let_def g fw am im item_def)
qed

section \<open>Facts about the whole notebook\<close>

lemma resolve_requests: "resolve (s\<lparr>requests := n\<rparr>) u = resolve s u"
  by (simp add: resolve_def fetch_artifact_def split: uri.splits)

lemma cell_load_Inr:
  assumes "cell_load env s = Inr (s', lm)"
  shows "server_up env (tracking_uri s) (requests s)
     \<and> s' = s\<lparr>requests := Suc (requests s)\<rparr>
     \<and> resolve s (ModelsUri ''MNISTModel'' 1) = Inr lm"
  using assms
  by (auto simp: cell_load_def load_model_def request_def resolve_requests
      split: sum.splits if_splits)

lemma cell_load_ok:
  assumes "server_up env (tracking_uri s) (requests s)"
    and "resolve s (ModelsUri ''MNISTModel'' 1) = Inr lm"
  shows "cell_load env s = Inr (s\<lparr>requests := Suc (requests s)\<rparr>, lm)"
  using assms
  by (simp add: cell_load_def load_model_def request_def resolve_requests)

lemma script_Inr:
  assumes "script env sv = Inr nb"
  shows "\<exists>s0 tr te ms lm fig s2 s3.
       cell_tracking env sv = Inr s0 \<and> mnist env True = Inr tr \<and> mnist env False = Inr te
     \<and> tracking nb = (after_training s0 ms (model_of nb))\<lparr>requests := requests s0 + 17\<rparr>
     \<and> metric_keys ms = expected_keys [0..<5]
     \<and> model_details nb = Suc (length (registry sv ''MNISTModel''))
     \<and> (\<forall>k < 17. server_up env (Some ''http://localhost:5000'') (requests s0 + k))
     \<and> epochs_loop env (SGD 0.003 0.9) (train_loader_of tr) (test_loader_of te) [0..<5]
          (s2, SimpleNN_init (init_params env), opt_init env) = Inr (s3, model_of nb, opt_state nb)
     \<and> resolve (after_training s0 ms (model_of nb)) (ModelsUri ''MNISTModel'' 1) = Inr lm
     \<and> predict_and_visualize lm te 0 = Inr (loaded_model nb, fig)
     \<and> figures nb = [fig] \<and> optimizer_of nb = SGD 0.003 0.9
     \<and> train_dataset nb = tr \<and> test_dataset nb = te"
proof -
  from assms obtain s0 where ct: "cell_tracking env sv = Inr s0"
    by (auto simp: script_def split: sum.splits)
  from assms ct obtain tr te where cd: "cell_data env = Inr (tr, te)"
    by (auto simp: script_def split: sum.splits)
  from cd have mn: "mnist env True = Inr tr" "mnist env False = Inr te"
    by (auto simp: cell_data_def split: sum.splits)
  let ?opt = "SGD 0.003 0.9"
  from assms ct cd obtain s1 model' os' details where
    tr: "cell_train env ?opt (train_loader_of tr) (test_loader_of te)
           (SimpleNN_init (init_params env), opt_init env) s0 = Inr (s1, model', os', details)"
    by (auto simp: script_def cell_model_def split: sum.splits)
  from assms ct cd tr obtain s2 lm where cl: "cell_load env s1 = Inr (s2, lm)"
    by (auto simp: script_def cell_model_def split: sum.splits)
  from assms ct cd tr cl obtain lm' fig where
    pv: "predict_and_visualize lm te 0 = Inr (lm', fig)"
    and nb: "nb = \<lparr>tracking = s2, train_dataset = tr, test_dataset = te, model_of = model',
               optimizer_of = ?opt, opt_state = os', model_details = details,
               loaded_model = lm', figures = [fig]\<rparr>"
    by (auto simp: script_def cell_model_def split: sum.splits)
  from cell_tracking_Inr [OF ct] have
    a0: "active_run s0 = None" and u0: "tracking_uri s0 = Some ''http://localhost:5000''"
    and g0: "registry s0 = registry sv"
    by simp_all
  from cell_train_Inr [OF a0 tr] obtain ms t2 t3 where
    s1: "s1 = after_training s0 ms model'"
    and keys: "metric_keys ms = expected_keys [0..<5]"
    and d: "details = Suc (length (registry s0 ''MNISTModel''))"
    and ups: "\<forall>k < 16. server_up env (tracking_uri s0) (requests s0 + k)"
    and el: "epochs_loop env ?opt (train_loader_of tr) (test_loader_of te) [0..<5]
          (t2, SimpleNN_init (init_params env), opt_init env) = Inr (t3, model', os')"
    by blast
  from cell_load_Inr [OF cl] have
    up16: "server_up env (tracking_uri s1) (requests s1)"
    and s2: "s2 = s1\<lparr>requests := Suc (requests s1)\<rparr>"
    and rs: "resolve s1 (ModelsUri ''MNISTModel'' 1) = Inr lm"
    by simp_all
  have req1: "requests s1 = requests s0 + 16" and uri1: "tracking_uri s1 = tracking_uri s0"
    unfolding s1 after_training_def by simp_all
  have tk: "tracking nb = (after_training s0 ms (model_of nb))\<lparr>requests := requests s0 + 17\<rparr>"
    unfolding nb s2 req1 unfolding s1 by simp
  have allup: "\<forall>k < 17. server_up env (Some ''http://localhost:5000'') (requests s0 + k)"
  proof (intro allI impI)
    fix k :: nat assume "k < 17"
    then consider "k < 16" | "k = 16" by linarith
    then show "server_up env (Some ''http://localhost:5000'') (requests s0 + k)"
    proof cases
      case 1
      with ups u0 show ?thesis by simp
    next
      case 2
      with up16 req1 uri1 u0 show ?thesis by simp
    qed
  qed
  have d': "model_details nb = Suc (length (registry sv ''MNISTModel''))"
    using d g0 nb by simp
  have m: "model_of nb = model'" "opt_state nb = os'" "loaded_model nb = lm'" "figures nb = [fig]"
    "optimizer_of nb = ?opt" "train_dataset nb = tr" "test_dataset nb = te"
    using nb by simp_all
  from ct mn tk keys d' allup el rs pv m s1 show ?thesis
    by (simp only: m) blast
qed

lemma good_train_loader: "mnist_like tr \<Longrightarrow> tr \<noteq> [] \<Longrightarrow> good_loader (train_loader_of tr)"
  by (simp add: good_loader_def train_loader_of_def)

lemma good_test_loader: "mnist_like te \<Longrightarrow> te \<noteq> [] \<Longrightarrow> good_loader (test_loader_of te)"
  by (simp add: good_loader_def test_loader_of_def)

lemma resolve_after_training_fresh:
  assumes "registry s ''MNISTModel'' = []"
  shows "resolve (after_training s ms m) (ModelsUri ''MNISTModel'' v) =
     (if v = 1 then Inr m else Inl MlflowException)"
  using assms
  by (auto simp: resolve_def after_training_def fetch_artifact_def trained_run_def)

lemma resolve_after_training_stale:
  assumes "registry s ''MNISTModel'' = (rid, path) # vs" "rid < length (runs s)"
  shows "resolve (after_training s ms m) (ModelsUri ''MNISTModel'' 1) = fetch_artifact s rid path"
  using assms
  by (simp add: resolve_def after_training_def fetch_artifact_def nth_append)

lemma script_ok_core:
  assumes up: "\<forall>k. server_up env (Some ''http://localhost:5000'') k"
    and tr: "mnist env True = Inr tr" "mnist_like tr" "tr \<noteq> []"
    and te: "mnist env False = Inr te" "mnist_like te" "te \<noteq> []"
    and rs: "\<And>s0 ms m. cell_tracking env sv = Inr s0 \<Longrightarrow> topology m = [(784, 128), (128, 64), (64, 10)]
        \<Longrightarrow> \<exists>lm. resolve (after_training s0 ms m) (ModelsUri ''MNISTModel'' 1) = Inr lm
              \<and> topology lm = [(784, 128), (128, 64), (64, 10)]"
  shows "\<exists>nb. script env sv = Inr nb"
proof -
  from cell_tracking_ok [OF up] obtain s0 where ct: "cell_tracking env sv = Inr s0" by blast
  from cell_tracking_Inr [OF ct] have
    a0: "active_run s0 = None" and u0: "tracking_uri s0 = Some ''http://localhost:5000''"
    by simp_all
  have cd: "cell_data env = Inr (tr, te)" by (simp add: cell_data_def tr(1) te(1))
  have cm: "cell_model env = (SimpleNN_init (init_params env), SGD 0.003 0.9, opt_init env)"
    by (simp only: cell_model_def)
  have up0: "\<forall>k. server_up env (tracking_uri s0) k" using up u0 by simp
  from cell_train_ok [OF a0 topology_init [of "init_params env"] good_train_loader [OF tr(2,3)]
      good_test_loader [OF te(2,3)] up0, where opt = "SGD 0.003 0.9" and os = "opt_init env"]
  obtain s1 m' os' d where
    ctr: "cell_train env (SGD 0.003 0.9) (train_loader_of tr) (test_loader_of te)
           (SimpleNN_init (init_params env), opt_init env) s0 = Inr (s1, m', os', d)"
    and t': "topology m' = [(784, 128), (128, 64), (64, 10)]"
    by blast
  from cell_train_Inr [OF a0 ctr] obtain ms where s1: "s1 = after_training s0 ms m'"
    by blast
  from rs [OF ct t', of ms] obtain lm where
    r: "resolve s1 (ModelsUri ''MNISTModel'' 1) = Inr lm"
    and tl: "topology lm = [(784, 128), (128, 64), (64, 10)]"
    unfolding s1 by blast
  have up1: "server_up env (tracking_uri s1) (requests s1)"
    using up u0 unfolding s1 after_training_def by simp
  have cl: "cell_load env s1 = Inr (s1\<lparr>requests := Suc (requests s1)\<rparr>, lm)"
    using up1 r by (rule cell_load_ok)
  from predict_ok [OF tl te(3,2)] obtain fig where
    pv: "predict_and_visualize lm te 0 = Inr (eval_mode lm, fig)"
    by blast
  show ?thesis
    by (simp only: script_def ct cd cm ctr cl pv sum.case prod.case) blast
qed

lemma script_ok_fresh:
  assumes up: "\<forall>k. server_up env (Some ''http://localhost:5000'') k"
    and tr: "mnist env True = Inr tr" "mnist_like tr" "tr \<noteq> []"
    and te: "mnist env False = Inr te" "mnist_like te" "te \<noteq> []"
    and fresh: "registry sv ''MNISTModel'' = []"
  shows "\<exists>nb. script env sv = Inr nb"
proof (rule script_ok_core [OF up tr te])
  fix s0 ms m
  assume ct: "cell_tracking env sv = Inr s0" and t: "topology m = [(784, 128), (128, 64), (64, 10)]"
  from cell_tracking_Inr [OF ct] fresh have "registry s0 ''MNISTModel'' = []" by simp
  then show "\<exists>lm. resolve (after_training s0 ms m) (ModelsUri ''MNISTModel'' 1) = Inr lm
              \<and> topology lm = [(784, 128), (128, 64), (64, 10)]"
    using t by (simp add: resolve_after_training_fresh)
qed

lemma script_ok_stale:
  assumes up: "\<forall>k. server_up env (Some ''http://localhost:5000'') k"
    and tr: "mnist env True = Inr tr" "mnist_like tr" "tr \<noteq> []"
    and te: "mnist env False = Inr te" "mnist_like te" "te \<noteq> []"
    and stale: "registry sv ''MNISTModel'' = (rid, path) # vs" "rid < length (runs sv)"
      "map_of (artifacts_of (runs sv ! rid)) path = Some m0"
      "topology m0 = [(784, 128), (128, 64), (64, 10)]"
  shows "\<exists>nb. script env sv = Inr nb"
proof (rule script_ok_core [OF up tr te])
  fix s0 ms m
  assume ct: "cell_tracking env sv = Inr s0" and t: "topology m = [(784, 128), (128, 64), (64, 10)]"
  from cell_tracking_Inr [OF ct] stale have
    "registry s0 ''MNISTModel'' = (rid, path) # vs" "rid < length (runs s0)"
    "fetch_artifact s0 rid path = Inr m0"
    by (simp_all add: fetch_artifact_def)
  then have "resolve (after_training s0 ms m) (ModelsUri ''MNISTModel'' 1) = Inr m0"
    by (simp only: resolve_after_training_stale)
  then show "\<exists>lm. resolve (after_training s0 ms m) (ModelsUri ''MNISTModel'' 1) = Inr lm
              \<and> topology lm = [(784, 128), (128, 64), (64, 10)]"
    using stale(4) by blast
qed

lemma mnist_like_tiny: "mnist_like tiny_dataset" "tiny_dataset \<noteq> []"
  by (simp_all add: mnist_like_def tiny_dataset_def blank_image_def)

lemma running_state_facts:
  "active_run running_state = Some (length ([] :: run list))"
  "runs running_state = [] @ [\<lparr>experiment_of = ''mnist_pytorch_experiment'', status = RUNNING,
               params_of = [], metrics_of = [], artifacts_of = []\<rparr>]"
  "server_up demo_env (tracking_uri running_state) k"
  by (simp_all add: running_state_def demo_env_def)

lemma parameters_set_parameters: "parameters (set_parameters m p) = p"
  by (simp add: parameters_def set_parameters_def set_layer_def)

lemma parameters_train_mode: "parameters (train_mode m) = parameters m"
  by (simp add: parameters_def train_mode_def)

lemma parameters_eval_mode: "parameters (eval_mode m) = parameters m"
  by (simp add: parameters_def eval_mode_def)

section \<open>The evaluation pass\<close>

lemma test_pass_model:
  assumes "test_pass env tel e (s, model, os) = Inr (s', model', os')"
  shows "model' = eval_mode model \<and> os' = os"
  using assms
  by (auto simp: test_pass_def split: sum.splits)

lemma train_pass_model:
  assumes "train_pass env opt trl e (s, model, os) = Inr (s', model', os')"
  shows "\<exists>rl. train_loop env opt (batches trl (rng env e)) (train_mode model, os, 0) = Inr (model', os', rl)"
  using assms
  by (auto simp: train_pass_def split: sum.splits)

text \<open>
  C9: the evaluation pass of an epoch returns the model it was given with the mode set to
  evaluation and nothing else changed: the parameters after it are the parameters before
  it, and the state of the optimizer and of the gradients is untouched. So the parameters
  at the end of an epoch are those the inner training loop of the epoch produced.
\<close>

theorem evaluation_leaves_parameters:
  "(test_pass env tel e (s, model, os) = Inr (s', model', os') \<longrightarrow>
      parameters model' = parameters model \<and> model' = eval_mode model \<and> os' = os)
   \<and> (epoch env opt trl tel e (s, model, os) = Inr (s', model', os') \<longrightarrow>
      (\<exists>m1 rl. train_loop env opt (batches trl (rng env e)) (train_mode model, os, 0) = Inr (m1, os', rl)
         \<and> model' = eval_mode m1 \<and> parameters model' = parameters m1))"
proof (rule conjI; rule impI)
  assume tp: "test_pass env tel e (s, model, os) = Inr (s', model', os')"
  from test_pass_model [OF tp]
  show "parameters model' = parameters model \<and> model' = eval_mode model \<and> os' = os"
    by (simp add: parameters_eval_mode)
next
  assume ep: "epoch env opt trl tel e (s, model, os) = Inr (s', model', os')"
  then obtain s1 m1 os1 where
    tp: "train_pass env opt trl e (s, model, os) = Inr (s1, m1, os1)"
    and te: "test_pass env tel e (s1, m1, os1) = Inr (s', model', os')"
    by (auto simp: epoch_def split: sum.splits)
  from train_pass_model [OF tp] obtain rl where
    "train_loop env opt (batches trl (rng env e)) (train_mode model, os, 0) = Inr (m1, os1, rl)"
    by blast
  moreover from test_pass_model [OF te] have "model' = eval_mode m1" "os' = os1" by simp_all
  ultimately show "\<exists>m1 rl. train_loop env opt (batches trl (rng env e)) (train_mode model, os, 0) = Inr (m1, os', rl)
         \<and> model' = eval_mode m1 \<and> parameters model' = parameters m1"
    by (auto simp: parameters_eval_mode)
qed

theorem evaluation_leaves_parameters_witness:
  "\<exists>s' model' os'.
      test_pass demo_env (test_loader_of tiny_dataset) 0 (running_state, SimpleNN_init zero_params, ())
        = Inr (s', model', os')
      \<and> parameters model' = parameters (SimpleNN_init zero_params)
      \<and> model' = eval_mode (SimpleNN_init zero_params) \<and> os' = ()"
proof -
  from test_pass_ok [OF running_state_facts(1,2) topology_init [of zero_params]
      good_test_loader [OF mnist_like_tiny] running_state_facts(3), where e = 0 and os = "()"]
  obtain s' model' os' where
    tp: "test_pass demo_env (test_loader_of tiny_dataset) 0 (running_state, SimpleNN_init zero_params, ())
        = Inr (s', model', os')"
    by blast
  with evaluation_leaves_parameters [of demo_env "test_loader_of tiny_dataset" 0 running_state
      "SimpleNN_init zero_params" "()" s' model' os']
  show ?thesis by blast
qed

section \<open>The training pass\<close>





section \<open>Inference is a function of the parameters and the sample\<close>



lemma expected_keys_5:
  "expected_keys [0..<5] =
     [(''average_train_loss'', 0), (''average_test_loss'', 0),
      (''average_train_loss'', 1), (''average_test_loss'', 1),
      (''average_train_loss'', 2), (''average_test_loss'', 2),
      (''average_train_loss'', 3), (''average_test_loss'', 3),
      (''average_train_loss'', 4), (''average_test_loss'', 4)]"
  by (simp add: expected_keys_def upt_rec)

lemma demo_env_facts:
  "\<forall>k. server_up demo_env (Some ''http://localhost:5000'') k"
  "mnist demo_env True = Inr tiny_dataset" "mnist demo_env False = Inr tiny_dataset"
  by (simp_all add: demo_env_def)

lemma script_run:
  assumes "script env sv = Inr nb"
  shows "\<exists>s0 ms. cell_tracking env sv = Inr s0
     \<and> runs (tracking nb) = runs sv @ [trained_run s0 ms (model_of nb)]
     \<and> metric_keys ms = expected_keys [0..<5]"
proof -
  from script_Inr [OF assms] obtain s0 ms where
    ct: "cell_tracking env sv = Inr s0"
    and tk: "tracking nb = (after_training s0 ms (model_of nb))\<lparr>requests := requests s0 + 17\<rparr>"
    and keys: "metric_keys ms = expected_keys [0..<5]"
    by blast
  from cell_tracking_Inr [OF ct] have "runs s0 = runs sv" by simp
  with tk have "runs (tracking nb) = runs sv @ [trained_run s0 ms (model_of nb)]"
    by (simp add: after_training_def)
  with ct keys show ?thesis by blast
qed

section \<open>What the notebook leaves on the tracking server\<close>

text \<open>
  C1: when the notebook runs to its end, the server has exactly one run more than before.
  This run holds exactly the two parameters \<open>learning_rate\<close> and \<open>momentum\<close>, and its
  metrics are, in the order of logging, \<open>average_train_loss\<close> and \<open>average_test_loss\<close> at
  step \<open>e\<close> for \<open>e = 0, \<dots>, 4\<close>: ten metrics, two for each of the five epochs. And the
  notebook does run to its end when the server answers every call at the address that the
  notebook sets, both parts of the data set arrive, are not empty and are made of labelled
  28 by 28 pictures, and the name \<open>MNISTModel\<close> has no version yet.
\<close>

theorem script_logs_one_run:
  "(script env sv = Inr nb \<longrightarrow>
      (\<exists>r. runs (tracking nb) = runs sv @ [r]
         \<and> params_of r = [(''learning_rate'', 0.003), (''momentum'', 0.003)]
         \<and> metric_keys (metrics_of r) =
             [(''average_train_loss'', 0), (''average_test_loss'', 0),
              (''average_train_loss'', 1), (''average_test_loss'', 1),
              (''average_train_loss'', 2), (''average_test_loss'', 2),
              (''average_train_loss'', 3), (''average_test_loss'', 3),
              (''average_train_loss'', 4), (''average_test_loss'', 4)]))
   \<and> ((\<forall>k. server_up env (Some ''http://localhost:5000'') k)
        \<and> mnist env True = Inr tr \<and> mnist_like tr \<and> tr \<noteq> []
        \<and> mnist env False = Inr te \<and> mnist_like te \<and> te \<noteq> []
        \<and> registry sv ''MNISTModel'' = [] \<longrightarrow>
      (\<exists>nb. script env sv = Inr nb))"
proof (rule conjI; rule impI)
  assume "script env sv = Inr nb"
  from script_run [OF this] obtain s0 ms where
    r: "runs (tracking nb) = runs sv @ [trained_run s0 ms (model_of nb)]"
    and keys: "metric_keys ms = expected_keys [0..<5]"
    by blast
  have p: "params_of (trained_run s0 ms (model_of nb)) = [(''learning_rate'', 0.003), (''momentum'', 0.003)]"
    and m: "metrics_of (trained_run s0 ms (model_of nb)) = ms"
    by (simp_all add: trained_run_def)
  have k: "metric_keys (metrics_of (trained_run s0 ms (model_of nb))) =
             [(''average_train_loss'', 0), (''average_test_loss'', 0),
              (''average_train_loss'', 1), (''average_test_loss'', 1),
              (''average_train_loss'', 2), (''average_test_loss'', 2),
              (''average_train_loss'', 3), (''average_test_loss'', 3),
              (''average_train_loss'', 4), (''average_test_loss'', 4)]"
    using keys by (simp only: m expected_keys_5)
  show "\<exists>r. runs (tracking nb) = runs sv @ [r]
         \<and> params_of r = [(''learning_rate'', 0.003), (''momentum'', 0.003)]
         \<and> metric_keys (metrics_of r) =
             [(''average_train_loss'', 0), (''average_test_loss'', 0),
              (''average_train_loss'', 1), (''average_test_loss'', 1),
              (''average_train_loss'', 2), (''average_test_loss'', 2),
              (''average_train_loss'', 3), (''average_test_loss'', 3),
              (''average_train_loss'', 4), (''average_test_loss'', 4)]"
    by (rule exI [where x = "trained_run s0 ms (model_of nb)"]) (simp only: r p k simp_thms)
next
  assume "(\<forall>k. server_up env (Some ''http://localhost:5000'') k)
        \<and> mnist env True = Inr tr \<and> mnist_like tr \<and> tr \<noteq> []
        \<and> mnist env False = Inr te \<and> mnist_like te \<and> te \<noteq> []
        \<and> registry sv ''MNISTModel'' = []"
  then show "\<exists>nb. script env sv = Inr nb"
    by (intro script_ok_fresh [where tr = tr and te = te]) simp_all
qed

theorem script_logs_one_run_witness:
  "registry empty_server ''MNISTModel'' = []
   \<and> mnist demo_env True = Inr tiny_dataset \<and> mnist demo_env False = Inr tiny_dataset
   \<and> \<not> isl (script demo_env empty_server)
   \<and> length (runs (tracking (projr (script demo_env empty_server)))) = 1
   \<and> params_of (last (runs (tracking (projr (script demo_env empty_server)))))
       = [(''learning_rate'', 0.003), (''momentum'', 0.003)]
   \<and> metric_keys (metrics_of (last (runs (tracking (projr (script demo_env empty_server))))))
       = [(''average_train_loss'', 0), (''average_test_loss'', 0),
          (''average_train_loss'', 1), (''average_test_loss'', 1),
          (''average_train_loss'', 2), (''average_test_loss'', 2),
          (''average_train_loss'', 3), (''average_test_loss'', 3),
          (''average_train_loss'', 4), (''average_test_loss'', 4)]"
proof -
  have fresh: "registry empty_server ''MNISTModel'' = []" and old: "runs empty_server = []"
    by (simp_all add: empty_server_def)
  have pre: "(\<forall>k. server_up demo_env (Some ''http://localhost:5000'') k)
        \<and> mnist demo_env True = Inr tiny_dataset \<and> mnist_like tiny_dataset \<and> tiny_dataset \<noteq> []
        \<and> mnist demo_env False = Inr tiny_dataset \<and> mnist_like tiny_dataset \<and> tiny_dataset \<noteq> []
        \<and> registry empty_server ''MNISTModel'' = []"
    using demo_env_facts mnist_like_tiny fresh by (intro conjI)
  from script_logs_one_run [where env = demo_env and sv = empty_server and tr = tiny_dataset
      and te = tiny_dataset, THEN conjunct2, THEN mp, OF pre]
  obtain nb where nb: "script demo_env empty_server = Inr nb" by (elim exE)
  from script_logs_one_run [where env = demo_env and sv = empty_server and nb = nb,
      THEN conjunct1, THEN mp, OF nb]
  obtain r where
    r: "runs (tracking nb) = runs empty_server @ [r]"
    and p: "params_of r = [(''learning_rate'', 0.003), (''momentum'', 0.003)]"
    and k: "metric_keys (metrics_of r) =
             [(''average_train_loss'', 0), (''average_test_loss'', 0),
              (''average_train_loss'', 1), (''average_test_loss'', 1),
              (''average_train_loss'', 2), (''average_test_loss'', 2),
              (''average_train_loss'', 3), (''average_test_loss'', 3),
              (''average_train_loss'', 4), (''average_test_loss'', 4)]"
    by (elim exE conjE)
  have rs: "runs (tracking nb) = [r]" using r old by simp
  have pr: "projr (script demo_env empty_server) = nb" by (simp only: nb sum.sel)
  have l: "length (runs (tracking nb)) = 1" "last (runs (tracking nb)) = r"
    using rs by simp_all
  have ni: "\<not> isl (script demo_env empty_server)" by (simp only: nb sum.disc simp_thms)
  show ?thesis
    unfolding pr l using fresh demo_env_facts(2,3) ni p k by (intro conjI refl)
qed

lemma train_batch_step:
  assumes "train_batch env opt b (m, os) = Inr (m', os', l)"
  shows "\<exists>images labels. collate b = Inr (images, labels)
     \<and> step env (lr opt) (momentum opt) (backward env m images labels (zero_grad env os)) (parameters m)
         = (os', parameters m')"
  using assms
  by (auto simp: train_batch_def Let_def parameters_set_parameters split: sum.splits prod.splits)



lemma fresh_state_facts:
  "active_run fresh_state = None" "registry fresh_state ''MNISTModel'' = []"
  "\<forall>k. server_up demo_env (tracking_uri fresh_state) k"
  by (simp_all add: fresh_state_def set_tracking_uri_def connect_def empty_server_def demo_env_def)

lemma load_model_eq:
  "load_model env u s =
     (if server_up env (tracking_uri s) (requests s)
      then (case resolve s u of
              Inl e \<Rightarrow> Inl (e, s\<lparr>requests := Suc (requests s)\<rparr>)
            | Inr m \<Rightarrow> Inr (s\<lparr>requests := Suc (requests s)\<rparr>, m))
      else Inl (ConnectionError, s))"
  by (simp add: load_model_def request_def resolve_requests)

section \<open>The registry\<close>

text \<open>
  C6: let the name \<open>MNISTModel\<close> have no version, and let the training cell run: it
  registers once, and the version it creates is 1. Afterwards the reference
  \<open>models:/MNISTModel/1\<close> resolves to the model that the cell logged, and loading it
  succeeds when the server answers; every other version of the name was never created, and
  resolving or loading it fails. The load cell of the notebook asks for version 1.
\<close>

theorem version_one_resolves:
  "(registry s ''MNISTModel'' = [] \<and> active_run s = None
      \<and> cell_train env opt trl tel (model, os) s = Inr (s1, model', os', details) \<longrightarrow>
        details = 1
      \<and> resolve s1 (ModelsUri ''MNISTModel'' 1) = Inr model'
      \<and> (server_up env (tracking_uri s1) (requests s1) \<longrightarrow>
           cell_load env s1 = Inr (s1\<lparr>requests := Suc (requests s1)\<rparr>, model'))
      \<and> (\<forall>v. v \<noteq> 1 \<longrightarrow>
           resolve s1 (ModelsUri ''MNISTModel'' v) = Inl MlflowException
           \<and> isl (load_model env (ModelsUri ''MNISTModel'' v) s1)))
   \<and> cell_load env s2 = load_model env (ModelsUri ''MNISTModel'' 1) s2"
proof (rule conjI)
  show "cell_load env s2 = load_model env (ModelsUri ''MNISTModel'' 1) s2"
    by (simp only: cell_load_def)
next
  show "registry s ''MNISTModel'' = [] \<and> active_run s = None
      \<and> cell_train env opt trl tel (model, os) s = Inr (s1, model', os', details) \<longrightarrow>
        details = 1
      \<and> resolve s1 (ModelsUri ''MNISTModel'' 1) = Inr model'
      \<and> (server_up env (tracking_uri s1) (requests s1) \<longrightarrow>
           cell_load env s1 = Inr (s1\<lparr>requests := Suc (requests s1)\<rparr>, model'))
      \<and> (\<forall>v. v \<noteq> 1 \<longrightarrow>
           resolve s1 (ModelsUri ''MNISTModel'' v) = Inl MlflowException
           \<and> isl (load_model env (ModelsUri ''MNISTModel'' v) s1))"
  proof
    assume h: "registry s ''MNISTModel'' = [] \<and> active_run s = None
      \<and> cell_train env opt trl tel (model, os) s = Inr (s1, model', os', details)"
    then have fresh: "registry s ''MNISTModel'' = []" and a: "active_run s = None"
      and ct: "cell_train env opt trl tel (model, os) s = Inr (s1, model', os', details)"
      by simp_all
    from cell_train_Inr [OF a ct] obtain ms where
      s1: "s1 = after_training s ms model'"
      and d: "details = Suc (length (registry s ''MNISTModel''))"
      by blast
    have d1: "details = 1" using d fresh by simp
    have r: "resolve s1 (ModelsUri ''MNISTModel'' v) = (if v = 1 then Inr model' else Inl MlflowException)" for v
      unfolding s1 using fresh by (rule resolve_after_training_fresh)
    have r1: "resolve s1 (ModelsUri ''MNISTModel'' 1) = Inr model'"
      using r [of 1] by simp
    have l1: "server_up env (tracking_uri s1) (requests s1) \<longrightarrow>
           cell_load env s1 = Inr (s1\<lparr>requests := Suc (requests s1)\<rparr>, model')"
      using r1 by (simp add: cell_load_ok)
    have other: "\<forall>v. v \<noteq> 1 \<longrightarrow>
           resolve s1 (ModelsUri ''MNISTModel'' v) = Inl MlflowException
           \<and> isl (load_model env (ModelsUri ''MNISTModel'' v) s1)"
      by (simp add: r load_model_eq)
    from d1 r1 l1 other
    show "details = 1
      \<and> resolve s1 (ModelsUri ''MNISTModel'' 1) = Inr model'
      \<and> (server_up env (tracking_uri s1) (requests s1) \<longrightarrow>
           cell_load env s1 = Inr (s1\<lparr>requests := Suc (requests s1)\<rparr>, model'))
      \<and> (\<forall>v. v \<noteq> 1 \<longrightarrow>
           resolve s1 (ModelsUri ''MNISTModel'' v) = Inl MlflowException
           \<and> isl (load_model env (ModelsUri ''MNISTModel'' v) s1))"
      by (intro conjI)
  qed
qed

theorem version_one_resolves_witness:
  "registry fresh_state ''MNISTModel'' = [] \<and> active_run fresh_state = None
   \<and> \<not> isl (cell_train demo_env (SGD 0.003 0.9) (train_loader_of tiny_dataset)
          (test_loader_of tiny_dataset) (SimpleNN_init zero_params, ()) fresh_state)
   \<and> snd (snd (snd (projr (cell_train demo_env (SGD 0.003 0.9) (train_loader_of tiny_dataset)
          (test_loader_of tiny_dataset) (SimpleNN_init zero_params, ()) fresh_state)))) = 1
   \<and> resolve (fst (projr (cell_train demo_env (SGD 0.003 0.9) (train_loader_of tiny_dataset)
          (test_loader_of tiny_dataset) (SimpleNN_init zero_params, ()) fresh_state)))
        (ModelsUri ''MNISTModel'' 1)
      = Inr (fst (snd (projr (cell_train demo_env (SGD 0.003 0.9) (train_loader_of tiny_dataset)
          (test_loader_of tiny_dataset) (SimpleNN_init zero_params, ()) fresh_state))))
   \<and> resolve (fst (projr (cell_train demo_env (SGD 0.003 0.9) (train_loader_of tiny_dataset)
          (test_loader_of tiny_dataset) (SimpleNN_init zero_params, ()) fresh_state)))
        (ModelsUri ''MNISTModel'' 2)
      = Inl MlflowException"
proof -
  let ?c = "cell_train demo_env (SGD 0.003 0.9) (train_loader_of tiny_dataset)
          (test_loader_of tiny_dataset) (SimpleNN_init zero_params, ()) fresh_state"
  from cell_train_ok [OF fresh_state_facts(1) topology_init [of zero_params]
      good_train_loader [OF mnist_like_tiny] good_test_loader [OF mnist_like_tiny]
      fresh_state_facts(3), where opt = "SGD 0.003 0.9" and os = "()"]
  obtain s1 m' os' d where ct: "?c = Inr (s1, m', os', d)" by blast
  have pre: "registry fresh_state ''MNISTModel'' = [] \<and> active_run fresh_state = None \<and> ?c = Inr (s1, m', os', d)"
    using fresh_state_facts(1,2) ct by (intro conjI)
  note c = version_one_resolves [where env = demo_env and s = fresh_state and opt = "SGD 0.003 0.9"
      and trl = "train_loader_of tiny_dataset" and tel = "test_loader_of tiny_dataset"
      and model = "SimpleNN_init zero_params" and os = "()" and ?s1.0 = s1 and model' = m'
      and os' = os' and details = d, THEN conjunct1, THEN mp, OF pre]
  have two: "resolve s1 (ModelsUri ''MNISTModel'' 2) = Inl MlflowException"
    using c by simp
  have p: "fst (projr ?c) = s1" "fst (snd (projr ?c)) = m'" "snd (snd (snd (projr ?c))) = d"
    by (simp_all only: ct sum.sel fst_conv snd_conv)
  have ni: "\<not> isl ?c" by (simp only: ct sum.disc simp_thms)
  show ?thesis
    unfolding p using fresh_state_facts(1,2) ni c two by (intro conjI) simp_all
qed

section \<open>Reloading the model\<close>

lemma script_loaded:
  assumes "script env sv = Inr nb"
  shows "\<exists>s0 ms lm. cell_tracking env sv = Inr s0
     \<and> resolve (after_training s0 ms (model_of nb)) (ModelsUri ''MNISTModel'' 1) = Inr lm
     \<and> loaded_model nb = eval_mode lm"
proof -
  from script_Inr [OF assms] obtain s0 te ms lm fig where
    ct: "cell_tracking env sv = Inr s0"
    and rs: "resolve (after_training s0 ms (model_of nb)) (ModelsUri ''MNISTModel'' 1) = Inr lm"
    and pv: "predict_and_visualize lm te 0 = Inr (loaded_model nb, fig)"
    by blast
  from predict_Inr [OF pv] have "loaded_model nb = eval_mode lm" by blast
  with ct rs show ?thesis by blast
qed

text \<open>
  C5, as amended: when the name \<open>MNISTModel\<close> has no version before the notebook runs, the
  model that the notebook reloads from \<open>models:/MNISTModel/1\<close> is the model that it logged,
  which is the artifact of its run, in evaluation mode: the parameters are the same, and
  for every input the reloaded model and the logged model compute the same logits, or fail
  alike. The store is taken to return an artifact as it was stored.
\<close>

theorem reloaded_model_is_logged_model:
  "script env sv = Inr nb \<and> registry sv ''MNISTModel'' = [] \<longrightarrow>
      artifacts_of (last (runs (tracking nb))) = [(''mnist_model'', model_of nb)]
      \<and> loaded_model nb = eval_mode (model_of nb)
      \<and> parameters (loaded_model nb) = parameters (model_of nb)
      \<and> (\<forall>x. forward (loaded_model nb) x = forward (model_of nb) x)"
proof
  assume "script env sv = Inr nb \<and> registry sv ''MNISTModel'' = []"
  then have sc: "script env sv = Inr nb" and fresh: "registry sv ''MNISTModel'' = []"
    by simp_all
  from script_loaded [OF sc] obtain s0 ms lm where
    ct: "cell_tracking env sv = Inr s0"
    and rs: "resolve (after_training s0 ms (model_of nb)) (ModelsUri ''MNISTModel'' 1) = Inr lm"
    and lo: "loaded_model nb = eval_mode lm"
    by blast
  from cell_tracking_Inr [OF ct] fresh have "registry s0 ''MNISTModel'' = []" by simp
  from resolve_after_training_fresh [OF this, of ms "model_of nb" 1] rs
  have lm: "lm = model_of nb" by simp
  from script_run [OF sc] obtain t0 ms' where
    "runs (tracking nb) = runs sv @ [trained_run t0 ms' (model_of nb)]"
    by blast
  then have art: "artifacts_of (last (runs (tracking nb))) = [(''mnist_model'', model_of nb)]"
    by (simp add: trained_run_def)
  have lo': "loaded_model nb = eval_mode (model_of nb)" using lo lm by simp
  have fw: "\<forall>x. forward (loaded_model nb) x = forward (model_of nb) x"
    unfolding lo' by (simp add: eval_mode_def forward_training)
  from art lo' fw
  show "artifacts_of (last (runs (tracking nb))) = [(''mnist_model'', model_of nb)]
      \<and> loaded_model nb = eval_mode (model_of nb)
      \<and> parameters (loaded_model nb) = parameters (model_of nb)
      \<and> (\<forall>x. forward (loaded_model nb) x = forward (model_of nb) x)"
    by (simp add: parameters_eval_mode)
qed

theorem reloaded_model_is_logged_model_witness:
  "\<not> isl (script demo_env empty_server) \<and> registry empty_server ''MNISTModel'' = []
   \<and> loaded_model (projr (script demo_env empty_server))
       = eval_mode (model_of (projr (script demo_env empty_server)))
   \<and> forward (loaded_model (projr (script demo_env empty_server))) two_images
       = forward (model_of (projr (script demo_env empty_server))) two_images"
proof -
  have fresh: "registry empty_server ''MNISTModel'' = []"
    by (simp add: empty_server_def)
  from script_ok_fresh [OF demo_env_facts(1) demo_env_facts(2) mnist_like_tiny
      demo_env_facts(3) mnist_like_tiny fresh]
  obtain nb where nb: "script demo_env empty_server = Inr nb" by (elim exE)
  have pr: "projr (script demo_env empty_server) = nb" by (simp only: nb sum.sel)
  have ni: "\<not> isl (script demo_env empty_server)" by (simp only: nb sum.disc simp_thms)
  have pre: "script demo_env empty_server = Inr nb \<and> registry empty_server ''MNISTModel'' = []"
    using nb fresh by (intro conjI)
  note c = reloaded_model_is_logged_model [where env = demo_env and sv = empty_server and nb = nb,
      THEN mp, OF pre]
  from c have c1: "loaded_model nb = eval_mode (model_of nb)"
    and c2: "forward (loaded_model nb) two_images = forward (model_of nb) two_images"
    by blast+
  show ?thesis
    unfolding pr using ni fresh c1 c2 by (intro conjI)
qed

section \<open>What training keeps\<close>

lemma train_batch_keeps:
  assumes "train_batch env opt b (m, os) = Inr (m', os', l)"
  shows "topology m' = topology m
     \<and> ((\<forall>l mo os p. snd (step env l mo os p) = p) \<longrightarrow> parameters m' = parameters m)"
proof
  show "topology m' = topology m"
    using assms
    by (auto simp: train_batch_def Let_def topology_set_parameters split: sum.splits prod.splits)
next
  show "(\<forall>l mo os p. snd (step env l mo os p) = p) \<longrightarrow> parameters m' = parameters m"
  proof
    assume idle: "\<forall>l mo os p. snd (step env l mo os p) = p"
    from train_batch_step [OF assms] obtain images labels where
      st: "step env (lr opt) (momentum opt) (backward env m images labels (zero_grad env os)) (parameters m)
         = (os', parameters m')"
      by blast
    from idle have "snd (step env (lr opt) (momentum opt) (backward env m images labels (zero_grad env os))
        (parameters m)) = parameters m"
      by blast
    with st show "parameters m' = parameters m" by simp
  qed
qed

lemma train_loop_keeps:
  assumes "train_loop env opt bs (m, os, acc) = Inr (m', os', rl)"
  shows "topology m' = topology m
     \<and> ((\<forall>l mo os p. snd (step env l mo os p) = p) \<longrightarrow> parameters m' = parameters m)"
  using assms
proof (induction bs arbitrary: m os acc)
  case Nil
  then show ?case by simp
next
  case (Cons b bs)
  from Cons.prems obtain m1 os1 loss where
    tb: "train_batch env opt b (m, os) = Inr (m1, os1, loss)"
    and tl: "train_loop env opt bs (m1, os1, acc + loss) = Inr (m', os', rl)"
    by (auto split: sum.splits)
  from Cons.IH [OF tl] train_batch_keeps [OF tb] show ?case by simp
qed

lemma epoch_model:
  assumes "epoch env opt trl tel e (s, m, os) = Inr (s', m', os')"
  shows "\<exists>m1 rl. train_loop env opt (batches trl (rng env e)) (train_mode m, os, 0) = Inr (m1, os', rl)
     \<and> m' = eval_mode m1"
proof -
  from assms obtain s1 m1 os1 where
    tp: "train_pass env opt trl e (s, m, os) = Inr (s1, m1, os1)"
    and te: "test_pass env tel e (s1, m1, os1) = Inr (s', m', os')"
    by (auto simp: epoch_def split: sum.splits)
  from train_pass_model [OF tp] test_pass_model [OF te] show ?thesis by auto
qed

lemma epoch_keeps:
  assumes "epoch env opt trl tel e (s, m, os) = Inr (s', m', os')"
  shows "topology m' = topology m
     \<and> ((\<forall>l mo os p. snd (step env l mo os p) = p) \<longrightarrow> parameters m' = parameters m)"
proof -
  from epoch_model [OF assms] obtain m1 rl where
    tl: "train_loop env opt (batches trl (rng env e)) (train_mode m, os, 0) = Inr (m1, os', rl)"
    and m': "m' = eval_mode m1"
    by blast
  from train_loop_keeps [OF tl] m' show ?thesis
    by (simp add: topology_eval_mode topology_train_mode parameters_eval_mode parameters_train_mode)
qed

lemma epochs_loop_keeps:
  assumes "epochs_loop env opt trl tel es (s, m, os) = Inr (s', m', os')"
  shows "topology m' = topology m
     \<and> ((\<forall>l mo os p. snd (step env l mo os p) = p) \<longrightarrow> parameters m' = parameters m)"
  using assms
proof (induction es arbitrary: s m os)
  case Nil
  then show ?case by simp
next
  case (Cons e es)
  from Cons.prems obtain s1 m1 os1 where
    ep: "epoch env opt trl tel e (s, m, os) = Inr (s1, m1, os1)"
    and rest: "epochs_loop env opt trl tel es (s1, m1, os1) = Inr (s', m', os')"
    by (auto split: sum.splits)
  from Cons.IH [OF rest] epoch_keeps [OF ep] show ?case by simp
qed

lemma script_model:
  assumes "script env sv = Inr nb"
  shows "topology (model_of nb) = [(784, 128), (128, 64), (64, 10)]
     \<and> ((\<forall>l mo os p. snd (step env l mo os p) = p) \<longrightarrow> parameters (model_of nb) = init_params env)"
proof -
  from script_Inr [OF assms] obtain tr te s2 s3 where
    "epochs_loop env (SGD 0.003 0.9) (train_loader_of tr) (test_loader_of te) [0..<5]
          (s2, SimpleNN_init (init_params env), opt_init env) = Inr (s3, model_of nb, opt_state nb)"
    by blast
  note k = epochs_loop_keeps [OF this]
  have p0: "parameters (SimpleNN_init (init_params env)) = init_params env"
    by (simp add: parameters_def SimpleNN_init_def nn_Linear_def)
  from k show ?thesis
    unfolding topology_init p0 by blast
qed

section \<open>A model whose last layer has no weights\<close>

lemma affine_bias_only:
  assumes "weight L = (\<lambda>i j. 0)"
  shows "affine L row = map (bias L) [0..<out_features L]"
  by (simp add: affine_def assms)

lemma forward_bias_only:
  assumes t: "topology m = [(784, 128), (128, 64), (64, 10)]"
    and w: "weight (fc3 m) = (\<lambda>i j. 0)" and n: "numel x = 784"
  shows "forward m x = Inr \<lparr>shape = [1, 10], data = map (bias (fc3 m)) [0..<10]\<rparr>"
proof -
  from t have o: "out_features (fc3 m) = 10" by (simp add: topology_def)
  have "forward m x = Inr (Linear_apply (fc3 m) (relu (Linear_apply (fc2 m)
      (relu (Linear_apply (fc1 m) \<lparr>shape = [1, 784], data = data x\<rparr>)))))"
    using n by (simp add: forward_topology [OF t] view_rows_def)
  moreover have "Linear_apply (fc3 m) z = \<lparr>shape = [1, 10], data = map (bias (fc3 m)) [0..<10]\<rparr>"
    if "shape z = [1, k]" for z k
    using that by (simp add: Linear_apply_def rows_one affine_bias_only [OF w] o)
  moreover have "shape (relu (Linear_apply (fc2 m)
      (relu (Linear_apply (fc1 m) \<lparr>shape = [1, 784], data = data x\<rparr>)))) = [1, out_features (fc2 m)]"
    by (simp add: shape_relu shape_Linear_apply)
  ultimately show ?thesis by simp
qed

lemma layer3_of_parameters:
  assumes "parameters m = p"
  shows "weight (fc3 m) = fst (snd (snd p))" "bias (fc3 m) = snd (snd (snd p))"
  using assms by (auto simp: parameters_def)

section \<open>Running the notebook a second time\<close>

lemma biased_env_facts:
  "\<forall>k. server_up biased_env (Some ''http://localhost:5000'') k"
  "mnist biased_env True = Inr tiny_dataset" "mnist biased_env False = Inr tiny_dataset"
  "init_params biased_env = biased_params"
  "\<forall>l mo os p. snd (step biased_env l mo os p) = p"
  by (simp_all add: biased_env_def demo_env_def)

lemma demo_env_idle:
  "init_params demo_env = zero_params" "\<forall>l mo os p. snd (step demo_env l mo os p) = p"
  by (simp_all add: demo_env_def)

lemma truncate_fields:
  "runs (server.truncate s) = runs s" "registry (server.truncate s) = registry s"
  by (simp_all add: server.truncate_def)

lemma second_run_reloads_first_model:
  "\<exists>nb1 nb2. first_run = Inr nb1 \<and> second_run = Inr nb2
     \<and> loaded_model nb2 = eval_mode (model_of nb1)
     \<and> topology (model_of nb1) = [(784, 128), (128, 64), (64, 10)]
     \<and> parameters (model_of nb1) = biased_params
     \<and> topology (model_of nb2) = [(784, 128), (128, 64), (64, 10)]
     \<and> parameters (model_of nb2) = zero_params"
proof -
  have fresh: "registry empty_server ''MNISTModel'' = []" and old: "runs empty_server = []"
    by (simp_all add: empty_server_def)
  from script_ok_fresh [OF biased_env_facts(1) biased_env_facts(2) mnist_like_tiny
      biased_env_facts(3) mnist_like_tiny fresh]
  obtain nb1 where nb1: "script biased_env empty_server = Inr nb1" by (elim exE)
  have f1: "first_run = Inr nb1" by (simp only: first_run_def nb1)
  from script_model [OF nb1] biased_env_facts(4,5) have
    t1: "topology (model_of nb1) = [(784, 128), (128, 64), (64, 10)]"
    and p1: "parameters (model_of nb1) = biased_params"
    by simp_all
  from script_Inr [OF nb1] obtain s0 ms where
    ct: "cell_tracking biased_env empty_server = Inr s0"
    and tk: "tracking nb1 = (after_training s0 ms (model_of nb1))\<lparr>requests := requests s0 + 17\<rparr>"
    by blast
  from cell_tracking_Inr [OF ct] old fresh have s0: "runs s0 = []" "registry s0 ''MNISTModel'' = []"
    by simp_all
  let ?sv = "server.truncate (tracking nb1)"
  have r2: "runs ?sv = [trained_run s0 ms (model_of nb1)]"
    and g2: "registry ?sv ''MNISTModel'' = (0, ''mnist_model'') # []"
    by (simp_all add: truncate_fields tk after_training_def s0)
  have a2: "map_of (artifacts_of (runs ?sv ! 0)) ''mnist_model'' = Some (model_of nb1)"
    by (simp add: r2 trained_run_def)
  have l2: "0 < length (runs ?sv)" by (simp add: r2)
  from script_ok_stale [OF demo_env_facts(1) demo_env_facts(2) mnist_like_tiny
      demo_env_facts(3) mnist_like_tiny g2 l2 a2 t1]
  obtain nb2 where nb2: "script demo_env ?sv = Inr nb2" by (elim exE)
  have pr: "projr first_run = nb1" by (simp only: f1 sum.sel)
  have f2: "second_run = Inr nb2" by (simp only: second_run_def pr nb2)
  from script_model [OF nb2] demo_env_idle have
    t2: "topology (model_of nb2) = [(784, 128), (128, 64), (64, 10)]"
    and p2: "parameters (model_of nb2) = zero_params"
    by simp_all
  from script_loaded [OF nb2] obtain t0 ms2 lm where
    ct2: "cell_tracking demo_env ?sv = Inr t0"
    and rs: "resolve (after_training t0 ms2 (model_of nb2)) (ModelsUri ''MNISTModel'' 1) = Inr lm"
    and lo: "loaded_model nb2 = eval_mode lm"
    by blast
  from cell_tracking_Inr [OF ct2] have t0: "runs t0 = runs ?sv" "registry t0 = registry ?sv"
    by simp_all
  have g0: "registry t0 ''MNISTModel'' = (0, ''mnist_model'') # []" and l0: "0 < length (runs t0)"
    using t0 g2 l2 by simp_all
  have "fetch_artifact t0 0 ''mnist_model'' = Inr (model_of nb1)"
    using a2 l0 t0 by (simp add: fetch_artifact_def)
  with resolve_after_training_stale [OF g0 l0, of ms2 "model_of nb2"] rs
  have "lm = model_of nb1" by simp
  with lo have "loaded_model nb2 = eval_mode (model_of nb1)" by simp
  with f1 f2 t1 p1 t2 p2 show ?thesis by blast
qed

text \<open>
  C5 fails as stated: run the notebook on a new server, with some initial parameters, and
  run it again on the server as the first execution left it, with other initial
  parameters. The second execution registers version 2 and reloads version 1, the model of
  the first execution, whose logits on a blank picture are not the logits of the model
  that the second execution logged.
\<close>

theorem reloaded_model_counterexample:
  "\<not> isl first_run \<and> \<not> isl second_run
   \<and> model_details (projr second_run) = 2
   \<and> forward (loaded_model (projr second_run)) blank_input
       \<noteq> forward (model_of (projr second_run)) blank_input"
proof -
  from second_run_reloads_first_model obtain nb1 nb2 where
    f1: "first_run = Inr nb1" and f2: "second_run = Inr nb2"
    and lo: "loaded_model nb2 = eval_mode (model_of nb1)"
    and t1: "topology (model_of nb1) = [(784, 128), (128, 64), (64, 10)]"
    and p1: "parameters (model_of nb1) = biased_params"
    and t2: "topology (model_of nb2) = [(784, 128), (128, 64), (64, 10)]"
    and p2: "parameters (model_of nb2) = zero_params"
    by blast
  have n: "numel blank_input = 784" by (simp add: numel_def blank_input_def)
  have w1: "weight (fc3 (model_of nb1)) = (\<lambda>i j. 0)"
    and b1: "bias (fc3 (model_of nb1)) = (\<lambda>i. if i = 0 then 1 else 0)"
    using layer3_of_parameters [OF p1] by (simp_all add: biased_params_def)
  have w2: "weight (fc3 (model_of nb2)) = (\<lambda>i j. 0)"
    and b2: "bias (fc3 (model_of nb2)) = (\<lambda>i. 0)"
    using layer3_of_parameters [OF p2] by (simp_all add: zero_params_def)
  have fw1: "forward (loaded_model nb2) blank_input
      = Inr \<lparr>shape = [1, 10], data = map (\<lambda>i. if i = 0 then 1 else 0) [0..<10]\<rparr>"
    unfolding lo eval_mode_def forward_training
    using forward_bias_only [OF t1 w1 n] by (simp only: b1)
  have fw2: "forward (model_of nb2) blank_input
      = Inr \<lparr>shape = [1, 10], data = map (\<lambda>i. 0) [0..<10]\<rparr>"
    using forward_bias_only [OF t2 w2 n] by (simp only: b2)
  have ne: "forward (loaded_model nb2) blank_input \<noteq> forward (model_of nb2) blank_input"
    unfolding fw1 fw2 by (simp add: upt_rec)
  from script_Inr [OF f2 [unfolded second_run_def]] have
    "model_details nb2 = Suc (length (registry (server.truncate (tracking (projr first_run))) ''MNISTModel''))"
    by blast
  moreover from script_Inr [OF f1 [unfolded first_run_def]] obtain s0 ms where
    ct: "cell_tracking biased_env empty_server = Inr s0"
    and tk: "tracking nb1 = (after_training s0 ms (model_of nb1))\<lparr>requests := requests s0 + 17\<rparr>"
    by blast
  moreover from cell_tracking_Inr [OF ct] have "registry s0 ''MNISTModel'' = []"
    by (simp add: empty_server_def)
  ultimately have d: "model_details nb2 = 2"
    by (simp add: f1 truncate_fields after_training_def)
  show ?thesis
    using ne d by (simp add: f1 f2)
qed

section \<open>The average training loss\<close>

lemma nll_row_defined:
  assumes "y < length z"
  shows "nll_defined z y"
proof -
  have "map exp z ! y \<le> sum_list (map exp z)"
    by (rule elem_le_sum_list) (use assms in auto)
  then have le: "exp (z ! y) \<le> sum_list (map exp z)" using assms by simp
  have pos: "0 < exp (z ! y)" by simp
  then have spos: "0 < sum_list (map exp z)" using le by linarith
  have "exp (z ! y) / sum_list (map exp z) \<le> 1" using le spos by simp
  moreover have "0 < exp (z ! y) / sum_list (map exp z)" using pos spos by simp
  ultimately show ?thesis using assms spos by (simp add: nll_defined_def)
qed

lemma collate_Inr:
  assumes "collate b = Inr (images, labels)"
  shows "labels = map snd b \<and> b \<noteq> []"
  using assms
  by (cases b) (auto simp: collate_def stack_def split: sum.splits if_splits)

lemma CrossEntropyLoss_Inr:
  assumes ok: "tensor_ok output" and ce: "CrossEntropyLoss output labels = Inr l"
  shows "\<exists>c. shape output = [length labels, c]
     \<and> l = sum_list (map (\<lambda>(z, y). nll_row z y) (zip (rows (length labels) c (data output)) labels))
           / real (length labels)
     \<and> (\<forall>j < length labels. nll_defined (rows (length labels) c (data output) ! j) (labels ! j))
     \<and> 0 < length labels"
proof -
  from ce obtain n c where sh: "shape output = [n, c]"
    by (auto simp: CrossEntropyLoss_def split: list.splits)
  from ce sh have n: "n = length labels" and lab: "list_all (\<lambda>y. y < c) labels" and n0: "n \<noteq> 0"
    and l: "l = sum_list (map (\<lambda>(z, y). nll_row z y) (zip (rows n c (data output)) labels)) / real n"
    by (auto simp: CrossEntropyLoss_def split: if_splits)
  from ok sh have len: "length (data output) = n * c"
    by (simp add: tensor_ok_def)
  have "nll_defined (rows n c (data output) ! j) (labels ! j)" if "j < length labels" for j
  proof -
    from that n have j: "j < n" by simp
    from lab that have "labels ! j < c" by (simp add: list_all_length)
    with length_row [OF len j] show ?thesis by (intro nll_row_defined) simp
  qed
  with sh n n0 l show ?thesis by auto
qed

lemma train_batch_course:
  assumes tb: "train_batch env opt b (m, os) = Inr (m', os', loss)"
  shows "\<exists>images labels output c.
       collate b = Inr (images, labels) \<and> labels = map snd b
     \<and> forward m images = Inr output
     \<and> CrossEntropyLoss output labels = Inr loss
     \<and> shape output = [length b, c]
     \<and> loss = sum_list (map (\<lambda>(z, y). nll_row z y) (zip (rows (length b) c (data output)) labels))
           / real (length b)
     \<and> (\<forall>j < length b. nll_defined (rows (length b) c (data output) ! j) (labels ! j))
     \<and> 0 < length b
     \<and> (m', os') =
         (let r = step env (lr opt) (momentum opt)
                    (backward env m images labels (zero_grad env os)) (parameters m)
          in (set_parameters m (snd r), fst r))"
proof -
  from tb obtain images labels "output" where
    co: "collate b = Inr (images, labels)"
    and fw: "forward m images = Inr output"
    and ce: "CrossEntropyLoss output labels = Inr loss"
    and st: "(m', os') =
         (let r = step env (lr opt) (momentum opt)
                    (backward env m images labels (zero_grad env os)) (parameters m)
          in (set_parameters m (snd r), fst r))"
    by (auto simp: train_batch_def Let_def split: sum.splits prod.splits)
  from collate_Inr [OF co] have lab: "labels = map snd b" by simp
  then have len: "length labels = length b" by simp
  from CrossEntropyLoss_Inr [OF tensor_ok_forward [OF fw] ce] obtain c where
    "shape output = [length labels, c]"
    "loss = sum_list (map (\<lambda>(z, y). nll_row z y) (zip (rows (length labels) c (data output)) labels))
           / real (length labels)"
    "\<forall>j < length labels. nll_defined (rows (length labels) c (data output) ! j) (labels ! j)"
    "0 < length labels"
    by blast
  then have
    "shape output = [length b, c]"
    "loss = sum_list (map (\<lambda>(z, y). nll_row z y) (zip (rows (length b) c (data output)) labels))
           / real (length b)"
    "\<forall>j < length b. nll_defined (rows (length b) c (data output) ! j) (labels ! j)"
    "0 < length b"
    unfolding len by simp_all
  with co lab fw ce st show ?thesis by blast
qed

lemma train_loop_course:
  assumes "train_loop env opt bs (m, os, acc) = Inr (m', os', rl)"
  shows "length (batch_states env opt bs (m, os)) = Suc (length bs)
     \<and> batch_states env opt bs (m, os) ! 0 = (m, os)
     \<and> batch_states env opt bs (m, os) ! length bs = (m', os')
     \<and> (\<forall>i < length bs. train_batch env opt (bs ! i) (batch_states env opt bs (m, os) ! i) =
          Inr (fst (batch_states env opt bs (m, os) ! Suc i),
               snd (batch_states env opt bs (m, os) ! Suc i),
               batch_losses env opt bs (m, os) ! i))"
  using assms
proof (induction bs arbitrary: m os acc)
  case Nil
  then show ?case by simp
next
  case (Cons b bs)
  from Cons.prems obtain m1 os1 loss where
    tb: "train_batch env opt b (m, os) = Inr (m1, os1, loss)"
    and tl: "train_loop env opt bs (m1, os1, acc + loss) = Inr (m', os', rl)"
    by (auto split: sum.splits)
  note ih = Cons.IH [OF tl]
  let ?sts = "batch_states env opt (b # bs) (m, os)"
  have sts: "?sts = (m, os) # batch_states env opt bs (m1, os1)"
    using tb by simp
  have ls: "batch_losses env opt (b # bs) (m, os) = loss # batch_losses env opt bs (m1, os1)"
    using tb by simp
  have each: "train_batch env opt ((b # bs) ! i) (?sts ! i) =
          Inr (fst (?sts ! Suc i), snd (?sts ! Suc i), batch_losses env opt (b # bs) (m, os) ! i)"
    if i: "i < length (b # bs)" for i
  proof (cases i)
    case 0
    with tb ih show ?thesis unfolding sts ls by simp
  next
    case (Suc j)
    then have "j < length bs" using i by simp
    with ih Suc show ?thesis unfolding sts ls by simp
  qed
  from ih each show ?case unfolding sts by simp
qed





















section \<open>Failures\<close>

lemma cell_tracking_down:
  assumes "\<not> server_up env (Some ''http://localhost:5000'') (requests sv)"
  shows "cell_tracking env sv = Inl (ConnectionError, set_tracking_uri ''http://localhost:5000'' (connect sv))"
  using assms
  by (simp add: cell_tracking_def set_experiment_def request_def set_tracking_uri_def connect_def)

lemma script_tracking_fails:
  assumes "cell_tracking env sv = Inl x"
  shows "script env sv = Inl x"
  by (simp add: script_def assms)

lemma script_data_fails:
  assumes "cell_tracking env sv = Inr s0" "cell_data env = Inl e"
  shows "script env sv = Inl (e, s0)"
  by (simp add: script_def assms)

lemma script_train_fails:
  assumes "cell_tracking env sv = Inr s0" "cell_data env = Inr (tr, te)"
    and "cell_train env (SGD 0.003 0.9) (train_loader_of tr) (test_loader_of te)
           (SimpleNN_init (init_params env), opt_init env) s0 = Inl x"
  shows "script env sv = Inl x"
  using assms(3) by (simp only: script_def assms(1,2) cell_model_def sum.case prod.case)

lemma train_batch_forward_fails:
  assumes "collate b = Inr (images, labels)" "forward m images = Inl e"
  shows "train_batch env opt b (m, os) = Inl e"
  by (simp add: train_batch_def assms)

lemma train_pass_fails:
  assumes "batches trl (rng env ep) = b # bs"
    and "train_batch env opt b (train_mode model, os) = Inl e"
  shows "train_pass env opt trl ep (s, model, os) = Inl (e, s)"
  by (simp add: train_pass_def assms)

lemma epochs_loop_fails:
  assumes "train_pass env opt trl 0 st = Inl x"
  shows "epochs_loop env opt trl tel [0..<5] st = Inl x"
proof -
  have "[0..<5] = 0 # [1..<5]" by (simp add: upt_rec)
  then show ?thesis by (simp add: epoch_def assms)
qed

lemma getitem_out_of_range:
  assumes "\<not> (- int (length ds) \<le> i \<and> i < int (length ds))"
  shows "getitem ds i = Inl IndexError"
  using assms by (auto simp: getitem_def)

lemma predict_index_fails:
  assumes "\<not> (- int (length ds) \<le> i \<and> i < int (length ds))"
  shows "predict_and_visualize m ds i = Inl IndexError"
  by (simp add: predict_and_visualize_def getitem_out_of_range [OF assms])

lemma predict_forward_fails:
  assumes "getitem ds i = Inr (img, lbl)" "forward m (unsqueeze0 img) = Inl e"
  shows "predict_and_visualize m ds i = Inl e"
  using assms by (simp add: predict_and_visualize_def eval_mode_def forward_training)

text \<open>
  A failure in the first training batch: the run is started, the two parameters are
  logged, the body raises, the run is ended as failed and the exception goes on.
\<close>

lemma cell_train_first_batch_fails:
  assumes a: "active_run s = None"
    and up: "\<forall>k. server_up env (tracking_uri s) k"
    and bs: "batches trl (rng env 0) = b # bs"
    and tb: "train_batch env opt b (train_mode model, os) = Inl e"
  shows "cell_train env opt trl tel (model, os) s =
     Inl (e, s\<lparr>requests := requests s + 4, runs := runs s @ [failed_run s], active_run := None\<rparr>)"
proof -
  let ?old = "runs s"
  let ?r0 = "new_run s"
  let ?r1 = "?r0\<lparr>params_of := params_of ?r0 @ [(''learning_rate'', 0.003)]\<rparr>"
  let ?r2 = "?r1\<lparr>params_of := params_of ?r1 @ [(''momentum'', 0.003)]\<rparr>"
  let ?s1 = "s\<lparr>requests := Suc (requests s), runs := ?old @ [?r0], active_run := Some (length ?old)\<rparr>"
  let ?s2 = "?s1\<lparr>requests := Suc (requests ?s1), runs := ?old @ [?r1]\<rparr>"
  let ?s3 = "?s2\<lparr>requests := Suc (requests ?s2), runs := ?old @ [?r2]\<rparr>"
  let ?s4 = "?s3\<lparr>requests := Suc (requests ?s3), runs := ?old @ [?r2\<lparr>status := FAILED\<rparr>], active_run := None\<rparr>"
  have sr: "start_run env s = Inr (length ?old, ?s1)"
    using up by (simp add: start_run_fresh [OF a])
  have a1: "active_run ?s1 = Some (length ?old)" and r1: "runs ?s1 = ?old @ [?r0]" by simp_all
  have m1: "map_of (params_of ?r0) ''learning_rate'' = None" by (simp add: new_run_def)
  have lp1: "log_param env ''learning_rate'' 0.003 ?s1 = Inr ?s2"
    using up log_param_last [OF a1 r1 m1, of env "0.003"] by simp
  have a2: "active_run ?s2 = Some (length ?old)" and r2: "runs ?s2 = ?old @ [?r1]" by simp_all
  have m2: "map_of (params_of ?r1) ''momentum'' = None" by (simp add: new_run_def)
  have lp2: "log_param env ''momentum'' 0.003 ?s2 = Inr ?s3"
    using up log_param_last [OF a2 r2 m2, of env "0.003"] by simp
  have a3: "active_run ?s3 = Some (length ?old)" and r3: "runs ?s3 = ?old @ [?r2]" by simp_all
  have tp: "train_pass env opt trl 0 (?s3, model, os) = Inl (e, ?s3)"
    using bs tb by (rule train_pass_fails)
  have el: "epochs_loop env opt trl tel [0..<5] (?s3, model, os) = Inl (e, ?s3)"
    using tp by (rule epochs_loop_fails)
  have body: "training_body env opt trl tel (model, os) (length ?old) ?s1 = Inl (e, ?s3)"
    by (simp only: training_body_def lp1 lp2 Let_def fst_conv snd_conv el sum.case prod.case)
  have er: "end_run env FAILED ?s3 = Inr ?s4"
    using up by (subst end_run_last [OF a3 r3]) simp
  have ct: "cell_train env opt trl tel (model, os) s = Inl (e, ?s4)"
    by (simp only: cell_train_def with_start_run_def sr body er sum.case prod.case)
  have "?s4 = s\<lparr>requests := requests s + 4, runs := runs s @ [failed_run s], active_run := None\<rparr>"
    by (simp add: failed_run_def new_run_def)
  with ct show ?thesis by simp
qed

lemma script_calls_answered:
  assumes "script env sv = Inr nb"
  shows "\<forall>k. requests sv \<le> k \<and> k < requests (tracking nb) \<longrightarrow> server_up env (Some ''http://localhost:5000'') k"
proof (intro allI impI)
  fix k assume k: "requests sv \<le> k \<and> k < requests (tracking nb)"
  from script_Inr [OF assms] obtain s0 ms where
    ct: "cell_tracking env sv = Inr s0"
    and tk: "tracking nb = (after_training s0 ms (model_of nb))\<lparr>requests := requests s0 + 17\<rparr>"
    and ups: "\<forall>k < 17. server_up env (Some ''http://localhost:5000'') (requests s0 + k)"
    by blast
  from cell_tracking_Inr [OF ct] have
    early: "\<forall>k. requests sv \<le> k \<and> k < requests s0 \<longrightarrow> server_up env (Some ''http://localhost:5000'') k"
    by blast
  have rq: "requests (tracking nb) = requests s0 + 17" using tk by simp
  show "server_up env (Some ''http://localhost:5000'') k"
  proof (cases "k < requests s0")
    case True
    with early k show ?thesis by blast
  next
    case False
    then have "k - requests s0 < 17" using k rq by arith
    with ups have "server_up env (Some ''http://localhost:5000'') (requests s0 + (k - requests s0))"
      by blast
    then show ?thesis using False by simp
  qed
qed

lemma forward_failures:
  "(view_rows inp (28 * 28) = Inl e \<longrightarrow> forward m inp = Inl e)
   \<and> (view_rows inp (28 * 28) = Inr x0 \<and> Linear_forward (fc1 m) x0 = Inl e \<longrightarrow> forward m inp = Inl e)
   \<and> (view_rows inp (28 * 28) = Inr x0 \<and> Linear_forward (fc1 m) x0 = Inr h1
        \<and> Linear_forward (fc2 m) (relu h1) = Inl e \<longrightarrow> forward m inp = Inl e)
   \<and> (view_rows inp (28 * 28) = Inr x0 \<and> Linear_forward (fc1 m) x0 = Inr h1
        \<and> Linear_forward (fc2 m) (relu h1) = Inr h2
        \<and> Linear_forward (fc3 m) (relu h2) = Inl e \<longrightarrow> forward m inp = Inl e)"
  by (simp add: forward_def)

lemma batch_failures:
  "(collate b = Inl e \<longrightarrow>
      train_batch env opt b (m, os) = Inl e \<and> eval_batch m b = Inl e)
   \<and> (collate b = Inr (images, labels) \<and> forward m images = Inl e \<longrightarrow>
      train_batch env opt b (m, os) = Inl e \<and> eval_batch m b = Inl e)
   \<and> (collate b = Inr (images, labels) \<and> forward m images = Inr logits
        \<and> CrossEntropyLoss logits labels = Inl e \<longrightarrow>
      train_batch env opt b (m, os) = Inl e \<and> eval_batch m b = Inl e)"
  by (simp add: train_batch_def eval_batch_def)

lemma train_loop_append:
  "train_loop env opt (bs1 @ bs2) st =
     (case train_loop env opt bs1 st of Inl e \<Rightarrow> Inl e | Inr st' \<Rightarrow> train_loop env opt bs2 st')"
proof (induction bs1 arbitrary: st)
  case Nil
  then show ?case by simp
next
  case (Cons b bs1)
  obtain m os acc where st: "st = (m, os, acc)" by (cases st) auto
  show ?case
    unfolding st using Cons.IH by (simp split: sum.splits)
qed

lemma eval_loop_append:
  "eval_loop m (bs1 @ bs2) acc =
     (case eval_loop m bs1 acc of Inl e \<Rightarrow> Inl e | Inr acc' \<Rightarrow> eval_loop m bs2 acc')"
  by (induction bs1 arbitrary: acc) (simp_all split: sum.splits)

lemma epochs_loop_append:
  "epochs_loop env opt trl tel (es1 @ es2) st =
     (case epochs_loop env opt trl tel es1 st of
        Inl x \<Rightarrow> Inl x
      | Inr st' \<Rightarrow> epochs_loop env opt trl tel es2 st')"
  by (induction es1 arbitrary: st) (simp_all split: sum.splits)

lemma loop_failures:
  "(train_loop env opt bs1 lst = Inr (m, os, acc) \<and> train_batch env opt b (m, os) = Inl e \<longrightarrow>
      train_loop env opt (bs1 @ b # bs2) lst = Inl e)
   \<and> (eval_loop m bs1 acc0 = Inr acc \<and> eval_batch m b = Inl e \<longrightarrow>
      eval_loop m (bs1 @ b # bs2) acc0 = Inl e)"
  by (simp add: train_loop_append eval_loop_append)

lemma pass_failures:
  "(train_loop env opt (batches trl (rng env ep)) (train_mode model, os, 0) = Inl e \<longrightarrow>
      train_pass env opt trl ep (s, model, os) = Inl (e, s))
   \<and> (train_loop env opt (batches trl (rng env ep)) (train_mode model, os, 0) = Inr (m', os', rl)
        \<and> len_loader trl = 0 \<longrightarrow>
      train_pass env opt trl ep (s, model, os) = Inl (ZeroDivisionError, s))
   \<and> (train_loop env opt (batches trl (rng env ep)) (train_mode model, os, 0) = Inr (m', os', rl)
        \<and> len_loader trl \<noteq> 0
        \<and> log_metric env ''average_train_loss'' (rl / real (len_loader trl)) ep s = Inl x \<longrightarrow>
      train_pass env opt trl ep (s, model, os) = Inl x)
   \<and> (eval_loop (eval_mode model) (batches tel (rng env ep)) 0 = Inl e \<longrightarrow>
      test_pass env tel ep (s, model, os) = Inl (e, s))
   \<and> (eval_loop (eval_mode model) (batches tel (rng env ep)) 0 = Inr tv
        \<and> len_loader tel = 0 \<longrightarrow>
      test_pass env tel ep (s, model, os) = Inl (ZeroDivisionError, s))
   \<and> (eval_loop (eval_mode model) (batches tel (rng env ep)) 0 = Inr tv
        \<and> len_loader tel \<noteq> 0
        \<and> log_metric env ''average_test_loss'' (tv / real (len_loader tel)) ep s = Inl x \<longrightarrow>
      test_pass env tel ep (s, model, os) = Inl x)"
  by (simp add: train_pass_def test_pass_def py_div_def)

lemma epoch_failures:
  "(train_pass env opt trl ep st = Inl x \<longrightarrow> epoch env opt trl tel ep st = Inl x)
   \<and> (train_pass env opt trl ep st = Inr st1 \<and> test_pass env tel ep st1 = Inl x \<longrightarrow>
      epoch env opt trl tel ep st = Inl x)
   \<and> (epochs_loop env opt trl tel es1 st = Inr st1 \<and> epoch env opt trl tel ep st1 = Inl x \<longrightarrow>
      epochs_loop env opt trl tel (es1 @ ep # es2) st = Inl x)"
  by (simp add: epoch_def epochs_loop_append)

lemma body_failures:
  "(log_param env ''learning_rate'' 0.003 s = Inl x \<longrightarrow>
      training_body env opt trl tel mo rid s = Inl x)
   \<and> (log_param env ''learning_rate'' 0.003 s = Inr s1
        \<and> log_param env ''momentum'' 0.003 s1 = Inl x \<longrightarrow>
      training_body env opt trl tel mo rid s = Inl x)
   \<and> (log_param env ''learning_rate'' 0.003 s = Inr s1
        \<and> log_param env ''momentum'' 0.003 s1 = Inr s2
        \<and> epochs_loop env opt trl tel [0..<5] (s2, fst mo, snd mo) = Inl x \<longrightarrow>
      training_body env opt trl tel mo rid s = Inl x)
   \<and> (log_param env ''learning_rate'' 0.003 s = Inr s1
        \<and> log_param env ''momentum'' 0.003 s1 = Inr s2
        \<and> epochs_loop env opt trl tel [0..<5] (s2, fst mo, snd mo) = Inr (s3, model, os)
        \<and> log_model env model ''mnist_model'' s3 = Inl x \<longrightarrow>
      training_body env opt trl tel mo rid s = Inl x)
   \<and> (log_param env ''learning_rate'' 0.003 s = Inr s1
        \<and> log_param env ''momentum'' 0.003 s1 = Inr s2
        \<and> epochs_loop env opt trl tel [0..<5] (s2, fst mo, snd mo) = Inr (s3, model, os)
        \<and> log_model env model ''mnist_model'' s3 = Inr s4
        \<and> register_model env (RunsUri rid ''mnist_model'') ''MNISTModel'' s4 = Inl x \<longrightarrow>
      training_body env opt trl tel mo rid s = Inl x)"
  by (simp add: training_body_def)

lemma with_failures:
  "(start_run env s = Inl x \<longrightarrow> cell_train env opt trl tel mo s = Inl x)
   \<and> (start_run env s = Inr (rid, s1) \<and> training_body env opt trl tel mo rid s1 = Inl (e, s2)
        \<and> end_run env FAILED s2 = Inr s3 \<longrightarrow>
      cell_train env opt trl tel mo s = Inl (e, s3))
   \<and> (start_run env s = Inr (rid, s1) \<and> training_body env opt trl tel mo rid s1 = Inl (e, s2)
        \<and> end_run env FAILED s2 = Inl x \<longrightarrow>
      cell_train env opt trl tel mo s = Inl x)
   \<and> (start_run env s = Inr (rid, s1) \<and> training_body env opt trl tel mo rid s1 = Inr (s2, r)
        \<and> end_run env FINISHED s2 = Inl x \<longrightarrow>
      cell_train env opt trl tel mo s = Inl x)"
  by (simp add: cell_train_def with_start_run_def)

lemma cell_failures:
  "(mnist env True = Inl e \<longrightarrow> cell_data env = Inl e)
   \<and> (mnist env True = Inr tr \<and> mnist env False = Inl e \<longrightarrow> cell_data env = Inl e)
   \<and> (load_model env (ModelsUri ''MNISTModel'' 1) s = Inl x \<longrightarrow> cell_load env s = Inl x)
   \<and> (cell_tracking env sv = Inl x \<longrightarrow> script env sv = Inl x)
   \<and> (cell_tracking env sv = Inr s0 \<and> cell_data env = Inl e \<longrightarrow> script env sv = Inl (e, s0))
   \<and> (cell_tracking env sv = Inr s0 \<and> cell_data env = Inr (tr, te)
        \<and> cell_train env (SGD 0.003 0.9) (train_loader_of tr) (test_loader_of te)
             (SimpleNN_init (init_params env), opt_init env) s0 = Inl x \<longrightarrow>
      script env sv = Inl x)
   \<and> (cell_tracking env sv = Inr s0 \<and> cell_data env = Inr (tr, te)
        \<and> cell_train env (SGD 0.003 0.9) (train_loader_of tr) (test_loader_of te)
             (SimpleNN_init (init_params env), opt_init env) s0 = Inr (s1, model', os', details)
        \<and> cell_load env s1 = Inl x \<longrightarrow>
      script env sv = Inl x)
   \<and> (cell_tracking env sv = Inr s0 \<and> cell_data env = Inr (tr, te)
        \<and> cell_train env (SGD 0.003 0.9) (train_loader_of tr) (test_loader_of te)
             (SimpleNN_init (init_params env), opt_init env) s0 = Inr (s1, model', os', details)
        \<and> cell_load env s1 = Inr (s2, loaded)
        \<and> predict_and_visualize loaded te 0 = Inl e \<longrightarrow>
      script env sv = Inl (e, s2))"
  by (simp add: cell_data_def cell_load_def script_def cell_model_def)

lemma predict_failures:
  "(getitem ds i = Inl e \<longrightarrow> predict_and_visualize m ds i = Inl e)
   \<and> (getitem ds i = Inr (img, lbl) \<and> forward (eval_mode m) (unsqueeze0 img) = Inl e \<longrightarrow>
      predict_and_visualize m ds i = Inl e)
   \<and> (getitem ds i = Inr (img, lbl) \<and> forward (eval_mode m) (unsqueeze0 img) = Inr logits
        \<and> argmax_dim1 logits = Inl e \<longrightarrow>
      predict_and_visualize m ds i = Inl e)
   \<and> (getitem ds i = Inr (img, lbl) \<and> forward (eval_mode m) (unsqueeze0 img) = Inr logits
        \<and> argmax_dim1 logits = Inr predicted
        \<and> imshow (squeeze (unsqueeze0 img)) ''Greys_r'' = Inl e \<longrightarrow>
      predict_and_visualize m ds i = Inl e)
   \<and> (getitem ds i = Inr (img, lbl) \<and> forward (eval_mode m) (unsqueeze0 img) = Inr logits
        \<and> argmax_dim1 logits = Inr predicted
        \<and> imshow (squeeze (unsqueeze0 img)) ''Greys_r'' = Inr fig
        \<and> item predicted = Inl e \<longrightarrow>
      predict_and_visualize m ds i = Inl e)"
  by (simp add: predict_and_visualize_def)

lemma tracking_failures:
  "\<not> server_up env (tracking_uri s) (requests s) \<longrightarrow>
      set_experiment env name s = Inl (ConnectionError, s)
    \<and> (active_run s = None \<longrightarrow> start_run env s = Inl (ConnectionError, s))
    \<and> log_param env key v s = Inl (ConnectionError, s)
    \<and> log_metric env key v stp s = Inl (ConnectionError, s)
    \<and> log_model env m path s = Inl (ConnectionError, s)
    \<and> register_model env u name s = Inl (ConnectionError, s)
    \<and> load_model env u s = Inl (ConnectionError, s)
    \<and> (active_run s \<noteq> None \<longrightarrow> end_run env stat s = Inl (ConnectionError, s))"
  by (auto simp: set_experiment_def start_run_def log_param_def log_metric_def log_model_def
      register_model_def load_model_def end_run_def get_or_start_run_def request_def
      split: option.splits)

text \<open>What a pass that returned has run: every batch was collated, fed forward and scored.\<close>

lemma eval_loop_Inr:
  assumes "eval_loop m bs acc = Inr tot"
  shows "\<forall>b \<in> set bs. \<exists>images labels logits l.
      collate b = Inr (images, labels) \<and> forward m images = Inr logits
      \<and> CrossEntropyLoss logits labels = Inr l"
  using assms
proof (induction bs arbitrary: acc)
  case Nil
  then show ?case by simp
next
  case (Cons b bs)
  from Cons.prems obtain l where
    eb: "eval_batch m b = Inr l" and el: "eval_loop m bs (acc + l) = Inr tot"
    by (auto split: sum.splits)
  from eb have "\<exists>images labels logits l.
      collate b = Inr (images, labels) \<and> forward m images = Inr logits
      \<and> CrossEntropyLoss logits labels = Inr l"
    by (auto simp: eval_batch_def split: sum.splits prod.splits)
  with Cons.IH [OF el] show ?case by simp
qed

lemma train_loop_Inr:
  assumes "train_loop env opt bs (m, os, acc) = Inr (m', os', rl)"
  shows "\<forall>i < length bs. \<exists>images labels logits l.
      collate (bs ! i) = Inr (images, labels)
      \<and> forward (fst (batch_states env opt bs (m, os) ! i)) images = Inr logits
      \<and> CrossEntropyLoss logits labels = Inr l"
proof (intro allI impI)
  fix i assume i: "i < length bs"
  let ?sts = "batch_states env opt bs (m, os)"
  from train_loop_course [OF assms] i have
    "train_batch env opt (bs ! i) (fst (?sts ! i), snd (?sts ! i)) =
       Inr (fst (?sts ! Suc i), snd (?sts ! Suc i), batch_losses env opt bs (m, os) ! i)"
    by simp
  from train_batch_course [OF this]
  show "\<exists>images labels logits l.
      collate (bs ! i) = Inr (images, labels)
      \<and> forward (fst (?sts ! i)) images = Inr logits
      \<and> CrossEntropyLoss logits labels = Inr l"
    by blast
qed

lemma upt_split: "ep < n \<Longrightarrow> [0..<n] = [0..<ep] @ ep # [Suc ep..<n]"
proof -
  assume "ep < n"
  then have "[0..<n] = [0..<ep] @ [ep..<n]"
    using upt_add_eq_append [of 0 ep "n - ep"] by simp
  also have "[ep..<n] = ep # [Suc ep..<n]" using \<open>ep < n\<close> by (rule upt_conv_Cons)
  finally show ?thesis .
qed

text \<open>A failure in any epoch, composed up to the end of the notebook.\<close>

lemma epoch_failure_ends_script:
  assumes ct: "cell_tracking env sv = Inr s0" and cd: "cell_data env = Inr (tr, te)"
    and sr: "start_run env s0 = Inr (rid, s1)"
    and lp1: "log_param env ''learning_rate'' 0.003 s1 = Inr s2"
    and lp2: "log_param env ''momentum'' 0.003 s2 = Inr s3"
    and ep: "ep < 5"
    and el: "epochs_loop env (SGD 0.003 0.9) (train_loader_of tr) (test_loader_of te) [0..<ep]
               (s3, SimpleNN_init (init_params env), opt_init env) = Inr st"
    and fail: "epoch env (SGD 0.003 0.9) (train_loader_of tr) (test_loader_of te) ep st = Inl (e, t)"
  shows "script env sv = (case end_run env FAILED t of Inl x \<Rightarrow> Inl x | Inr t' \<Rightarrow> Inl (e, t'))"
proof -
  have "epochs_loop env (SGD 0.003 0.9) (train_loader_of tr) (test_loader_of te) [0..<5]
          (s3, SimpleNN_init (init_params env), opt_init env) = Inl (e, t)"
    unfolding upt_split [OF ep] using el fail by (simp add: epochs_loop_append)
  then have "training_body env (SGD 0.003 0.9) (train_loader_of tr) (test_loader_of te)
      (SimpleNN_init (init_params env), opt_init env) rid s1 = Inl (e, t)"
    using lp1 lp2 by (simp add: training_body_def)
  with sr have "cell_train env (SGD 0.003 0.9) (train_loader_of tr) (test_loader_of te)
      (SimpleNN_init (init_params env), opt_init env) s0 =
        (case end_run env FAILED t of Inl x \<Rightarrow> Inl x | Inr t' \<Rightarrow> Inl (e, t'))"
    by (simp add: cell_train_def with_start_run_def)
  with ct cd show ?thesis
    by (simp add: script_def cell_model_def split: sum.splits)
qed

text \<open>What an execution that returned has run.\<close>

lemma epochs_loop_epochs:
  assumes "epochs_loop env opt trl tel es st = Inr st'"
  shows "\<forall>ep \<in> set es. \<exists>sa sb sc.
      train_pass env opt trl ep sa = Inr sb \<and> test_pass env tel ep sb = Inr sc"
  using assms
proof (induction es arbitrary: st)
  case Nil
  then show ?case by simp
next
  case (Cons e es)
  from Cons.prems obtain st1 where
    ep: "epoch env opt trl tel e st = Inr st1"
    and rest: "epochs_loop env opt trl tel es st1 = Inr st'"
    by (auto split: sum.splits)
  from ep obtain sb where "train_pass env opt trl e st = Inr sb" "test_pass env tel e sb = Inr st1"
    by (auto simp: epoch_def split: sum.splits)
  then have "\<exists>sa sb sc. train_pass env opt trl e sa = Inr sb \<and> test_pass env tel e sb = Inr sc"
    by blast
  with Cons.IH [OF rest] show ?case by simp
qed

lemma script_cells:
  assumes "script env sv = Inr nb"
  shows "\<exists>s0 tr te s1 model' os' details s2 loaded fig.
      cell_tracking env sv = Inr s0 \<and> cell_data env = Inr (tr, te)
    \<and> cell_train env (SGD 0.003 0.9) (train_loader_of tr) (test_loader_of te)
         (SimpleNN_init (init_params env), opt_init env) s0 = Inr (s1, model', os', details)
    \<and> cell_load env s1 = Inr (s2, loaded)
    \<and> predict_and_visualize loaded te 0 = Inr (loaded_model nb, fig)"
proof (cases "cell_tracking env sv")
  case (Inl x)
  with assms show ?thesis by (simp add: script_def)
next
  case ct: (Inr s0)
  show ?thesis
  proof (cases "cell_data env")
    case (Inl e)
    with assms ct show ?thesis by (simp add: script_def)
  next
    case (Inr d)
    then obtain tr te where cd: "cell_data env = Inr (tr, te)" by (cases d) auto
    show ?thesis
    proof (cases "cell_train env (SGD 0.003 0.9) (train_loader_of tr) (test_loader_of te)
         (SimpleNN_init (init_params env), opt_init env) s0")
      case (Inl x)
      from script_train_fails [OF ct cd Inl] assms show ?thesis by simp
    next
      case (Inr r)
      then obtain s1 model' os' details where
        tc: "cell_train env (SGD 0.003 0.9) (train_loader_of tr) (test_loader_of te)
         (SimpleNN_init (init_params env), opt_init env) s0 = Inr (s1, model', os', details)"
        by (cases r) auto
      show ?thesis
      proof (cases "cell_load env s1")
        case (Inl x)
        with assms ct cd tc show ?thesis by (simp add: script_def cell_model_def)
      next
        case (Inr l)
        then obtain s2 loaded where cl: "cell_load env s1 = Inr (s2, loaded)" by (cases l) auto
        show ?thesis
        proof (cases "predict_and_visualize loaded te 0")
          case (Inl e)
          with assms ct cd tc cl show ?thesis by (simp add: script_def cell_model_def)
        next
          case (Inr p)
          then obtain lm fig where pv: "predict_and_visualize loaded te 0 = Inr (lm, fig)"
            by (cases p) auto
          with assms ct cd tc cl have "loaded_model nb = lm"
            by (auto simp: script_def cell_model_def)
          with ct cd tc cl pv show ?thesis by blast
        qed
      qed
    qed
  qed
qed

lemma notebook_failures:
  "(\<not> server_up env (Some ''http://localhost:5000'') (requests sv) \<longrightarrow>
      script env sv = Inl (ConnectionError, set_tracking_uri ''http://localhost:5000'' (connect sv)))
   \<and> (cell_tracking env sv = Inr s0 \<and> mnist env True = Inl e \<longrightarrow> script env sv = Inl (e, s0))
   \<and> (cell_tracking env sv = Inr s0 \<and> mnist env True = Inr tr \<and> mnist env False = Inl e \<longrightarrow>
        script env sv = Inl (e, s0))
   \<and> ((\<forall>k. server_up env (Some ''http://localhost:5000'') k)
        \<and> mnist env True = Inr tr \<and> mnist env False = Inr te
        \<and> batches (train_loader_of tr) (rng env 0) = b # bs
        \<and> collate b = Inr (images, labels)
        \<and> forward (SimpleNN_init (init_params env)) images = Inl e \<longrightarrow>
        (\<exists>t0. cell_tracking env sv = Inr t0
           \<and> script env sv =
               Inl (e, t0\<lparr>requests := requests t0 + 4, runs := runs sv @ [failed_run t0],
                          active_run := None\<rparr>)))
   \<and> (\<not> (- int (length ds) \<le> i \<and> i < int (length ds)) \<longrightarrow>
        predict_and_visualize m ds i = Inl IndexError)
   \<and> (getitem ds i = Inr (img, lbl) \<and> forward m (unsqueeze0 img) = Inl e \<longrightarrow>
        predict_and_visualize m ds i = Inl e)
   \<and> (script env sv = Inr nb \<longrightarrow>
        (\<forall>k. requests sv \<le> k \<and> k < requests (tracking nb) \<longrightarrow>
           server_up env (Some ''http://localhost:5000'') k)
        \<and> \<not> isl (mnist env True) \<and> \<not> isl (mnist env False))"
proof (intro conjI impI)
  assume "\<not> server_up env (Some ''http://localhost:5000'') (requests sv)"
  then show "script env sv = Inl (ConnectionError, set_tracking_uri ''http://localhost:5000'' (connect sv))"
    by (intro script_tracking_fails cell_tracking_down)
next
  assume "cell_tracking env sv = Inr s0 \<and> mnist env True = Inl e"
  then show "script env sv = Inl (e, s0)"
    by (intro script_data_fails [of env sv s0 e]) (simp_all add: cell_data_def)
next
  assume "cell_tracking env sv = Inr s0 \<and> mnist env True = Inr tr \<and> mnist env False = Inl e"
  then show "script env sv = Inl (e, s0)"
    by (intro script_data_fails [of env sv s0 e]) (simp_all add: cell_data_def)
next
  assume h: "(\<forall>k. server_up env (Some ''http://localhost:5000'') k)
        \<and> mnist env True = Inr tr \<and> mnist env False = Inr te
        \<and> batches (train_loader_of tr) (rng env 0) = b # bs
        \<and> collate b = Inr (images, labels)
        \<and> forward (SimpleNN_init (init_params env)) images = Inl e"
  then have up: "\<forall>k. server_up env (Some ''http://localhost:5000'') k"
    and cd: "cell_data env = Inr (tr, te)"
    and bs: "batches (train_loader_of tr) (rng env 0) = b # bs"
    and co: "collate b = Inr (images, labels)"
    and fw: "forward (train_mode (SimpleNN_init (init_params env))) images = Inl e"
    by (simp_all add: cell_data_def train_mode_def forward_training)
  from cell_tracking_ok [OF up] obtain t0 where ct: "cell_tracking env sv = Inr t0" by blast
  from cell_tracking_Inr [OF ct] have
    a0: "active_run t0 = None" and u0: "tracking_uri t0 = Some ''http://localhost:5000''"
    and r0: "runs t0 = runs sv"
    by simp_all
  have up0: "\<forall>k. server_up env (tracking_uri t0) k" using up u0 by simp
  have tb: "train_batch env (SGD 0.003 0.9) b (train_mode (SimpleNN_init (init_params env)), opt_init env) = Inl e"
    using co fw by (rule train_batch_forward_fails)
  note cell_train_first_batch_fails [OF a0 up0 bs tb, of "test_loader_of te"]
  then have "script env sv = Inl (e, t0\<lparr>requests := requests t0 + 4, runs := runs t0 @ [failed_run t0],
      active_run := None\<rparr>)"
    by (rule script_train_fails [OF ct cd])
  with ct r0 show "\<exists>t0. cell_tracking env sv = Inr t0
           \<and> script env sv =
               Inl (e, t0\<lparr>requests := requests t0 + 4, runs := runs sv @ [failed_run t0],
                          active_run := None\<rparr>)"
    by auto
next
  assume "\<not> (- int (length ds) \<le> i \<and> i < int (length ds))"
  then show "predict_and_visualize m ds i = Inl IndexError"
    by (rule predict_index_fails)
next
  assume "getitem ds i = Inr (img, lbl) \<and> forward m (unsqueeze0 img) = Inl e"
  then show "predict_and_visualize m ds i = Inl e"
    by (intro predict_forward_fails [of ds i img lbl]) simp_all
next
  assume sc: "script env sv = Inr nb"
  from script_calls_answered [OF sc]
  show "\<forall>k. requests sv \<le> k \<and> k < requests (tracking nb) \<longrightarrow>
           server_up env (Some ''http://localhost:5000'') k" .
  from script_Inr [OF sc] obtain tr te where "mnist env True = Inr tr" "mnist env False = Inr te"
    by blast
  then show "\<not> isl (mnist env True)" "\<not> isl (mnist env False)" by simp_all
qed

lemma composed_failures:
  "cell_tracking env sv = Inr s0 \<and> cell_data env = Inr (tr, te)
        \<and> start_run env s0 = Inr (rid, s1)
        \<and> log_param env ''learning_rate'' 0.003 s1 = Inr s2
        \<and> log_param env ''momentum'' 0.003 s2 = Inr s3
        \<and> ep < 5
        \<and> epochs_loop env (SGD 0.003 0.9) (train_loader_of tr) (test_loader_of te) [0..<ep]
             (s3, SimpleNN_init (init_params env), opt_init env) = Inr st
        \<and> epoch env (SGD 0.003 0.9) (train_loader_of tr) (test_loader_of te) ep st = Inl (e, t) \<longrightarrow>
   script env sv = (case end_run env FAILED t of Inl x \<Rightarrow> Inl x | Inr t' \<Rightarrow> Inl (e, t'))"
  by (auto intro: epoch_failure_ends_script)

lemma returned_runs:
  "(eval_loop m bs acc0 = Inr tot \<longrightarrow>
      (\<forall>b \<in> set bs. \<exists>images labels logits l.
          collate b = Inr (images, labels) \<and> forward m images = Inr logits
          \<and> CrossEntropyLoss logits labels = Inr l))
   \<and> (train_loop env opt bs (m, os, acc) = Inr (m', os', rl) \<longrightarrow>
      (\<forall>i < length bs. \<exists>images labels logits l.
          collate (bs ! i) = Inr (images, labels)
          \<and> forward (fst (batch_states env opt bs (m, os) ! i)) images = Inr logits
          \<and> CrossEntropyLoss logits labels = Inr l))
   \<and> (epochs_loop env opt trl tel es st = Inr st1 \<longrightarrow>
      (\<forall>ep \<in> set es. \<exists>sa sb sc.
          train_pass env opt trl ep sa = Inr sb \<and> test_pass env tel ep sb = Inr sc))
   \<and> (predict_and_visualize m ds i = Inr (m', fig) \<longrightarrow>
      (\<exists>img lbl logits predicted f p.
          getitem ds i = Inr (img, lbl)
          \<and> forward (eval_mode m) (unsqueeze0 img) = Inr logits
          \<and> argmax_dim1 logits = Inr predicted
          \<and> imshow (squeeze (unsqueeze0 img)) ''Greys_r'' = Inr f
          \<and> item predicted = Inr p))
   \<and> (script env sv = Inr nb \<longrightarrow>
      (\<exists>s0 tr te s1 model' os' details s2 loaded fig.
          cell_tracking env sv = Inr s0 \<and> cell_data env = Inr (tr, te)
          \<and> cell_train env (SGD 0.003 0.9) (train_loader_of tr) (test_loader_of te)
               (SimpleNN_init (init_params env), opt_init env) s0 = Inr (s1, model', os', details)
          \<and> cell_load env s1 = Inr (s2, loaded)
          \<and> predict_and_visualize loaded te 0 = Inr (loaded_model nb, fig)))"
proof (intro conjI impI)
  assume "eval_loop m bs acc0 = Inr tot"
  then show "\<forall>b \<in> set bs. \<exists>images labels logits l.
          collate b = Inr (images, labels) \<and> forward m images = Inr logits
          \<and> CrossEntropyLoss logits labels = Inr l"
    by (rule eval_loop_Inr)
next
  assume "train_loop env opt bs (m, os, acc) = Inr (m', os', rl)"
  then show "\<forall>i < length bs. \<exists>images labels logits l.
          collate (bs ! i) = Inr (images, labels)
          \<and> forward (fst (batch_states env opt bs (m, os) ! i)) images = Inr logits
          \<and> CrossEntropyLoss logits labels = Inr l"
    by (rule train_loop_Inr)
next
  assume "epochs_loop env opt trl tel es st = Inr st1"
  then show "\<forall>ep \<in> set es. \<exists>sa sb sc.
          train_pass env opt trl ep sa = Inr sb \<and> test_pass env tel ep sb = Inr sc"
    by (rule epochs_loop_epochs)
next
  assume "predict_and_visualize m ds i = Inr (m', fig)"
  from predict_steps [OF this]
  show "\<exists>img lbl logits predicted f p.
          getitem ds i = Inr (img, lbl)
          \<and> forward (eval_mode m) (unsqueeze0 img) = Inr logits
          \<and> argmax_dim1 logits = Inr predicted
          \<and> imshow (squeeze (unsqueeze0 img)) ''Greys_r'' = Inr f
          \<and> item predicted = Inr p"
    by blast
next
  assume "script env sv = Inr nb"
  then show "\<exists>s0 tr te s1 model' os' details s2 loaded fig.
          cell_tracking env sv = Inr s0 \<and> cell_data env = Inr (tr, te)
          \<and> cell_train env (SGD 0.003 0.9) (train_loader_of tr) (test_loader_of te)
               (SimpleNN_init (init_params env), opt_init env) s0 = Inr (s1, model', os', details)
          \<and> cell_load env s1 = Inr (s2, loaded)
          \<and> predict_and_visualize loaded te 0 = Inr (loaded_model nb, fig)"
    by (rule script_cells)
qed

lemma forward_rejects: "numel x mod 784 \<noteq> 0 \<Longrightarrow> forward m x = Inl RuntimeError"
  by (simp add: forward_def view_rows_def)

lemma odd_env_facts:
  "\<forall>k. server_up odd_env (Some ''http://localhost:5000'') k"
  "mnist odd_env True = Inr odd_dataset" "mnist odd_env False = Inr odd_dataset"
  "batches (train_loader_of odd_dataset) (rng odd_env 0) = odd_dataset # []"
  "\<exists>images. collate odd_dataset = Inr (images, [7]) \<and> numel images = 9"
  by (simp_all add: odd_env_def demo_env_def batches_def rows_def len_loader_def sampler_def
      train_loader_of_def odd_dataset_def collate_def stack_def numel_def length_data_transform
      tiny_picture_def)

subsection \<open>Single steps that fail\<close>

lemma view_rows_three: "view_rows three_numbers (28 * 28) = Inl RuntimeError"
  by (simp add: view_rows_def numel_def three_numbers_def)

lemma view_rows_blank:
  "view_rows blank_input (28 * 28) = Inr \<lparr>shape = [1, 784], data = data blank_input\<rparr>"
  by (simp add: view_rows_def numel_def blank_input_def)

lemma layers_sizes:
  "in_features (fc1 (layers a b c)) = fst a" "out_features (fc1 (layers a b c)) = snd a"
  "in_features (fc2 (layers a b c)) = fst b" "out_features (fc2 (layers a b c)) = snd b"
  "in_features (fc3 (layers a b c)) = fst c" "out_features (fc3 (layers a b c)) = snd c"
  by (simp_all add: layers_def nn_Linear_def)

lemma layers_first_fails:
  "Linear_forward (fc1 (layers (3, 128) (128, 64) (64, 10)))
     \<lparr>shape = [1, 784], data = data blank_input\<rparr> = Inl RuntimeError"
  by (simp add: Linear_forward_def layers_sizes)

lemma layers_second_fails:
  "Linear_forward (fc1 (layers (784, 128) (5, 64) (64, 10)))
     \<lparr>shape = [1, 784], data = data blank_input\<rparr> =
     Inr (Linear_apply (fc1 (layers (784, 128) (5, 64) (64, 10)))
            \<lparr>shape = [1, 784], data = data blank_input\<rparr>)"
  "Linear_forward (fc2 (layers (784, 128) (5, 64) (64, 10)))
     (relu (Linear_apply (fc1 (layers (784, 128) (5, 64) (64, 10)))
            \<lparr>shape = [1, 784], data = data blank_input\<rparr>)) = Inl RuntimeError"
  by (simp_all add: Linear_forward_def layers_sizes shape_relu shape_Linear_apply)

lemma layers_third_fails:
  "Linear_forward (fc1 (layers (784, 128) (128, 64) (5, 10)))
     \<lparr>shape = [1, 784], data = data blank_input\<rparr> =
     Inr (Linear_apply (fc1 (layers (784, 128) (128, 64) (5, 10)))
            \<lparr>shape = [1, 784], data = data blank_input\<rparr>)"
  "Linear_forward (fc2 (layers (784, 128) (128, 64) (5, 10)))
     (relu (Linear_apply (fc1 (layers (784, 128) (128, 64) (5, 10)))
            \<lparr>shape = [1, 784], data = data blank_input\<rparr>)) =
     Inr (Linear_apply (fc2 (layers (784, 128) (128, 64) (5, 10)))
            (relu (Linear_apply (fc1 (layers (784, 128) (128, 64) (5, 10)))
               \<lparr>shape = [1, 784], data = data blank_input\<rparr>)))"
  "Linear_forward (fc3 (layers (784, 128) (128, 64) (5, 10)))
     (relu (Linear_apply (fc2 (layers (784, 128) (128, 64) (5, 10)))
            (relu (Linear_apply (fc1 (layers (784, 128) (128, 64) (5, 10)))
               \<lparr>shape = [1, 784], data = data blank_input\<rparr>)))) = Inl RuntimeError"
  by (simp_all add: Linear_forward_def layers_sizes shape_relu shape_Linear_apply)

lemma collate_empty: "collate [] = Inl RuntimeError"
  by (simp add: collate_def stack_def)

lemma collate_single:
  "collate [(img, l)] = Inr (\<lparr>shape = 1 # shape (transform img), data = data (transform img)\<rparr>, [l])"
  by (simp add: collate_def stack_def)

lemma mislabelled_loss:
  assumes t: "topology m = [(784, 128), (128, 64), (64, 10)]"
  shows "\<exists>images logits. collate mislabelled = Inr (images, [11])
     \<and> forward m images = Inr logits \<and> CrossEntropyLoss logits [11] = Inl IndexError"
proof -
  let ?images = "\<lparr>shape = 1 # shape (transform blank_image), data = data (transform blank_image)\<rparr>"
  have c: "collate mislabelled = Inr (?images, [11])"
    unfolding mislabelled_def by (rule collate_single)
  have n: "numel ?images = 1 * 784"
    by (simp add: numel_def length_data_transform blank_image_def)
  from forward_ok [OF t n] obtain logits where
    f: "forward m ?images = Inr logits" and sh: "shape logits = [1, 10]"
    by blast
  have "CrossEntropyLoss logits [11] = Inl IndexError"
    by (simp add: CrossEntropyLoss_def sh)
  with c f show ?thesis by blast
qed

lemma batches_single:
  "batches (train_loader_of [x]) r = [x] # []" "batches (test_loader_of [x]) r = [x] # []"
  "batches (train_loader_of []) r = []" "batches (test_loader_of []) r = []"
  "len_loader (train_loader_of [x]) = 1" "len_loader (test_loader_of [x]) = 1"
  "len_loader (train_loader_of []) = 0" "len_loader (test_loader_of []) = 0"
  by (simp_all add: batches_def len_loader_def sampler_def train_loader_of_def test_loader_of_def
      rows_def)

lemma down_env_running:
  "\<not> server_up down_env (tracking_uri running_state) (requests running_state)"
  by (simp add: down_env_def)

lemma batches_datasets:
  "batches (train_loader_of mislabelled) r = [mislabelled]"
  "batches (test_loader_of mislabelled) r = [mislabelled]"
  "batches (train_loader_of tiny_dataset) r = [tiny_dataset]"
  "batches (test_loader_of tiny_dataset) r = [tiny_dataset]"
  "len_loader (train_loader_of tiny_dataset) \<noteq> 0" "len_loader (test_loader_of tiny_dataset) \<noteq> 0"
  by (simp_all add: mislabelled_def tiny_dataset_def batches_single)

lemma item_not_one: "length xs \<noteq> 1 \<Longrightarrow> item xs = Inl RuntimeError"
  by (cases xs; cases "tl xs") (auto simp: item_def)

lemma getitem_first: "getitem [(img, l)] 0 = Inr (transform img, l)"
  by (simp add: getitem_def sample_def)

lemma numel_unsqueeze_transform:
  "numel (unsqueeze0 (transform img)) = height img * width img"
  by (simp add: numel_def unsqueeze0_def length_data_transform)

lemma shape_squeeze_transform:
  "shape (squeeze (unsqueeze0 (transform img))) = filter (\<lambda>d. d \<noteq> 1) [height img, width img]"
  by (simp add: squeeze_def unsqueeze0_def shape_transform)

lemma forward_sized:
  assumes "in_features (fc1 m) = 784" "in_features (fc2 m) = out_features (fc1 m)"
    "in_features (fc3 m) = out_features (fc2 m)" "numel x = 784"
  shows "\<exists>y. forward m x = Inr y \<and> shape y = [1, out_features (fc3 m)]"
  using assms
  by (simp add: forward_def view_rows_def Linear_forward_def shape_relu shape_Linear_apply)

lemma no_classes_logits:
  "\<exists>y. forward (eval_mode (layers (784, 128) (128, 64) (64, 0)))
          (unsqueeze0 (transform blank_image)) = Inr y
     \<and> argmax_dim1 y = Inl IndexError"
proof -
  have "\<exists>y. forward (eval_mode (layers (784, 128) (128, 64) (64, 0)))
          (unsqueeze0 (transform blank_image)) = Inr y
     \<and> shape y = [1, out_features (fc3 (eval_mode (layers (784, 128) (128, 64) (64, 0))))]"
    by (rule forward_sized)
      (simp_all add: eval_mode_def layers_sizes numel_unsqueeze_transform blank_image_def)
  then obtain y where
    f: "forward (eval_mode (layers (784, 128) (128, 64) (64, 0)))
          (unsqueeze0 (transform blank_image)) = Inr y"
    and sh: "shape y = [1, 0]"
    by (auto simp: eval_mode_def layers_sizes)
  have "argmax_dim1 y = Inl IndexError" by (simp add: argmax_dim1_def sh)
  with f show ?thesis by blast
qed

lemma flat_steps:
  "\<exists>img logits predicted.
      getitem flat_dataset 0 = Inr (img, 7)
    \<and> forward (eval_mode (SimpleNN_init zero_params)) (unsqueeze0 img) = Inr logits
    \<and> argmax_dim1 logits = Inr predicted
    \<and> imshow (squeeze (unsqueeze0 img)) ''Greys_r'' = Inl TypeError"
proof -
  let ?p = "\<lparr>height = 1, width = 784, pixel = (\<lambda>i j. 0)\<rparr> :: image"
  let ?img = "transform ?p"
  have g: "getitem flat_dataset 0 = Inr (?img, 7)"
    unfolding flat_dataset_def by (rule getitem_first)
  have te: "topology (eval_mode (SimpleNN_init zero_params)) = [(784, 128), (128, 64), (64, 10)]"
    by (simp add: topology_eval_mode topology_init)
  have n: "numel (unsqueeze0 ?img) = 1 * 784" by (simp add: numel_unsqueeze_transform)
  from forward_ok [OF te n] obtain y where
    f: "forward (eval_mode (SimpleNN_init zero_params)) (unsqueeze0 ?img) = Inr y"
    and sh: "shape y = [1, 10]"
    by blast
  have a: "argmax_dim1 y = Inr (map argmax_list (rows 1 10 (data y)))"
    by (simp add: argmax_dim1_def sh)
  have i: "imshow (squeeze (unsqueeze0 ?img)) ''Greys_r'' = Inl TypeError"
    by (simp add: imshow_def shape_squeeze_transform)
  from g f a i show ?thesis by blast
qed

lemma tall_steps:
  "\<exists>img logits predicted fig.
      getitem tall_dataset 0 = Inr (img, 7)
    \<and> forward (eval_mode (SimpleNN_init zero_params)) (unsqueeze0 img) = Inr logits
    \<and> argmax_dim1 logits = Inr predicted
    \<and> imshow (squeeze (unsqueeze0 img)) ''Greys_r'' = Inr fig
    \<and> item predicted = Inl RuntimeError"
proof -
  let ?p = "\<lparr>height = 56, width = 28, pixel = (\<lambda>i j. 0)\<rparr> :: image"
  let ?img = "transform ?p"
  have g: "getitem tall_dataset 0 = Inr (?img, 7)"
    unfolding tall_dataset_def by (rule getitem_first)
  have te: "topology (eval_mode (SimpleNN_init zero_params)) = [(784, 128), (128, 64), (64, 10)]"
    by (simp add: topology_eval_mode topology_init)
  have n: "numel (unsqueeze0 ?img) = 2 * 784" by (simp add: numel_unsqueeze_transform)
  from forward_ok [OF te n] obtain y where
    f: "forward (eval_mode (SimpleNN_init zero_params)) (unsqueeze0 ?img) = Inr y"
    and sh: "shape y = [2, 10]"
    by blast
  have a: "argmax_dim1 y = Inr (map argmax_list (rows 2 10 (data y)))"
    by (simp add: argmax_dim1_def sh)
  have i: "\<exists>fig. imshow (squeeze (unsqueeze0 ?img)) ''Greys_r'' = Inr fig"
    by (simp add: imshow_def shape_squeeze_transform)
  have it: "item (map argmax_list (rows 2 10 (data y))) = Inl RuntimeError"
    by (rule item_not_one) (simp add: length_rows)
  from g f a i it show ?thesis by blast
qed

lemma odd_steps:
  "\<exists>img. getitem odd_dataset 0 = Inr (img, 7)
    \<and> forward (eval_mode (SimpleNN_init zero_params)) (unsqueeze0 img) = Inl RuntimeError"
proof -
  have g: "getitem odd_dataset 0 = Inr (transform tiny_picture, 7)"
    unfolding odd_dataset_def by (rule getitem_first)
  have "forward (eval_mode (SimpleNN_init zero_params)) (unsqueeze0 (transform tiny_picture))
      = Inl RuntimeError"
    by (rule forward_rejects) (simp add: numel_unsqueeze_transform tiny_picture_def)
  with g show ?thesis by blast
qed

lemma down_env_fresh:
  "\<not> server_up down_env (tracking_uri fresh_state) (requests fresh_state)"
  "active_run fresh_state = None" "active_run running_state \<noteq> None"
  by (simp_all add: down_env_def fresh_state_def set_tracking_uri_def connect_def
      running_state_def)

subsection \<open>When the server answers long enough\<close>

lemma epoch_ok2:
  assumes a: "active_run s = Some (length old)" and r: "runs s = old @ [r]"
    and t: "topology model = [(784, 128), (128, 64), (64, 10)]"
    and g: "good_loader trl" "good_loader tel"
    and up0: "server_up env (tracking_uri s) (requests s)"
    and up1: "server_up env (tracking_uri s) (Suc (requests s))"
  shows "\<exists>s' m' os'. epoch env opt trl tel e (s, model, os) = Inr (s', m', os')
     \<and> topology m' = [(784, 128), (128, 64), (64, 10)]"
proof -
  from train_pass_ok [OF a r t g(1) up0, where opt = opt and e = e and os = os]
  obtain s1 m1 os1 where
    tp: "train_pass env opt trl e (s, model, os) = Inr (s1, m1, os1)"
    and t1: "topology m1 = [(784, 128), (128, 64), (64, 10)]"
    by blast
  from train_pass_Inr [OF a r tp] obtain rl where
    s1: "s1 = s\<lparr>requests := Suc (requests s),
               runs := old @ [r\<lparr>metrics_of := metrics_of r @
                  [(''average_train_loss'', rl / real (len_loader trl), e)]\<rparr>]\<rparr>"
    by blast
  have a1: "active_run s1 = Some (length old)" using a s1 by simp
  have r1: "runs s1 = old @ [r\<lparr>metrics_of := metrics_of r @
                  [(''average_train_loss'', rl / real (len_loader trl), e)]\<rparr>]"
    using s1 by simp
  have u1: "server_up env (tracking_uri s1) (requests s1)" using up1 s1 by simp
  from test_pass_ok [OF a1 r1 t1 g(2) u1, where e = e and os = os1]
  obtain s' m' os' where
    "test_pass env tel e (s1, m1, os1) = Inr (s', m', os')"
    "topology m' = [(784, 128), (128, 64), (64, 10)]"
    by blast
  then show ?thesis by (simp add: epoch_def tp)
qed

lemma epochs_loop_ok2:
  assumes "active_run s = Some (length old)" "runs s = old @ [r]"
    and "topology model = [(784, 128), (128, 64), (64, 10)]"
    and g: "good_loader trl" "good_loader tel"
    and "\<forall>k < 2 * length es. server_up env (tracking_uri s) (requests s + k)"
  shows "\<exists>s' m' os'. epochs_loop env opt trl tel es (s, model, os) = Inr (s', m', os')
     \<and> topology m' = [(784, 128), (128, 64), (64, 10)]"
  using assms(1,2,3,6)
proof (induction es arbitrary: s r model os)
  case Nil
  then show ?case by simp
next
  case (Cons e es)
  have up0: "server_up env (tracking_uri s) (requests s)"
    using Cons.prems(4) [rule_format, of 0] by simp
  have up1: "server_up env (tracking_uri s) (Suc (requests s))"
    using Cons.prems(4) [rule_format, of 1] by simp
  from epoch_ok2 [OF Cons.prems(1,2,3) g up0 up1, where opt = opt and e = e and os = os]
  obtain s1 m1 os1 where
    ep: "epoch env opt trl tel e (s, model, os) = Inr (s1, m1, os1)"
    and t1: "topology m1 = [(784, 128), (128, 64), (64, 10)]"
    by blast
  from epoch_Inr [OF Cons.prems(1,2) ep] obtain v w where
    s1: "s1 = s\<lparr>requests := requests s + 2,
               runs := old @ [r\<lparr>metrics_of := metrics_of r @
                  [(''average_train_loss'', v, e), (''average_test_loss'', w, e)]\<rparr>]\<rparr>"
    by blast
  have a1: "active_run s1 = Some (length old)" using Cons.prems(1) s1 by simp
  have r1: "runs s1 = old @ [r\<lparr>metrics_of := metrics_of r @
                  [(''average_train_loss'', v, e), (''average_test_loss'', w, e)]\<rparr>]"
    using s1 by simp
  have ups: "\<forall>k < 2 * length es. server_up env (tracking_uri s1) (requests s1 + k)"
  proof (intro allI impI)
    fix k assume "k < 2 * length es"
    then have "k + 2 < 2 * length (e # es)" by simp
    from Cons.prems(4) [rule_format, OF this]
    show "server_up env (tracking_uri s1) (requests s1 + k)"
      unfolding s1 by (simp add: add.commute add.left_commute)
  qed
  from Cons.IH [OF a1 r1 t1 ups, of os1] obtain s' m' os' where
    "epochs_loop env opt trl tel es (s1, m1, os1) = Inr (s', m', os')"
    "topology m' = [(784, 128), (128, 64), (64, 10)]"
    by blast
  then show ?case by (simp add: ep)
qed

text \<open>The two parameters, logged to a run that has none.\<close>

lemma log_params_ok:
  assumes a: "active_run s = Some (length old)" and r: "runs s = old @ [r]"
    and p: "params_of r = []"
    and up0: "server_up env (tracking_uri s) (requests s)"
  shows "log_param env ''learning_rate'' 0.003 s =
      Inr (s\<lparr>requests := Suc (requests s),
             runs := old @ [r\<lparr>params_of := [(''learning_rate'', 0.003)]\<rparr>]\<rparr>)"
    and "server_up env (tracking_uri s) (Suc (requests s)) \<Longrightarrow>
      log_param env ''momentum'' 0.003
        (s\<lparr>requests := Suc (requests s),
           runs := old @ [r\<lparr>params_of := [(''learning_rate'', 0.003)]\<rparr>]\<rparr>) =
      Inr (s\<lparr>requests := Suc (Suc (requests s)),
             runs := old @ [r\<lparr>params_of := [(''learning_rate'', 0.003), (''momentum'', 0.003)]\<rparr>]\<rparr>)"
proof -
  let ?r1 = "r\<lparr>params_of := [(''learning_rate'', 0.003)]\<rparr>"
  let ?s1 = "s\<lparr>requests := Suc (requests s), runs := old @ [?r1]\<rparr>"
  have m1: "map_of (params_of r) ''learning_rate'' = None" using p by simp
  show "log_param env ''learning_rate'' 0.003 s = Inr ?s1"
    using up0 log_param_last [OF a r m1, of env "0.003"] by (simp add: p)
  have a1: "active_run ?s1 = Some (length old)" and r1: "runs ?s1 = old @ [?r1]"
    using a by simp_all
  have m2: "map_of (params_of ?r1) ''momentum'' = None" by simp
  show "log_param env ''momentum'' 0.003 ?s1 =
      Inr (s\<lparr>requests := Suc (Suc (requests s)),
             runs := old @ [r\<lparr>params_of := [(''learning_rate'', 0.003), (''momentum'', 0.003)]\<rparr>]\<rparr>)"
    if "server_up env (tracking_uri s) (Suc (requests s))"
    using that log_param_last [OF a1 r1 m2, of env "0.003"] by simp
qed

lemma training_body_ok2:
  assumes a: "active_run s = Some (length old)" and r: "runs s = old @ [r]"
    and p: "params_of r = []"
    and t: "topology model = [(784, 128), (128, 64), (64, 10)]"
    and g: "good_loader trl" "good_loader tel"
    and up: "\<forall>k < 14. server_up env (tracking_uri s) (requests s + k)"
  shows "\<exists>s' m' os' d. training_body env opt trl tel (model, os) (length old) s = Inr (s', m', os', d)
     \<and> topology m' = [(784, 128), (128, 64), (64, 10)]"
proof -
  let ?r1 = "r\<lparr>params_of := [(''learning_rate'', 0.003)]\<rparr>"
  let ?r2 = "r\<lparr>params_of := [(''learning_rate'', 0.003), (''momentum'', 0.003)]\<rparr>"
  let ?s1 = "s\<lparr>requests := Suc (requests s), runs := old @ [?r1]\<rparr>"
  let ?s2 = "s\<lparr>requests := Suc (Suc (requests s)), runs := old @ [?r2]\<rparr>"
  have up0: "server_up env (tracking_uri s) (requests s)"
    using up [rule_format, of 0] by simp
  have up1: "server_up env (tracking_uri s) (Suc (requests s))"
    using up [rule_format, of 1] by simp
  note lp1 = log_params_ok(1) [OF a r p up0]
  note lp2 = log_params_ok(2) [OF a r p up0 up1]
  have a2: "active_run ?s2 = Some (length old)" and r2: "runs ?s2 = old @ [?r2]"
    using a by simp_all
  have up2: "\<forall>k < 2 * length [0..<5::nat]. server_up env (tracking_uri ?s2) (requests ?s2 + k)"
  proof (intro allI impI)
    fix k assume "k < 2 * length [0..<5::nat]"
    then have "k + 2 < 14" by simp
    from up [rule_format, OF this]
    show "server_up env (tracking_uri ?s2) (requests ?s2 + k)"
      by (simp add: add.commute add.left_commute)
  qed
  from epochs_loop_ok2 [OF a2 r2 t g up2, where opt = opt and os = os]
  obtain s3 m' os' where
    el: "epochs_loop env opt trl tel [0..<5] (?s2, model, os) = Inr (s3, m', os')"
    and t': "topology m' = [(784, 128), (128, 64), (64, 10)]"
    by blast
  from epochs_loop_Inr [OF a2 r2 el] obtain ms where
    s3: "s3 = ?s2\<lparr>requests := requests ?s2 + 2 * length [0..<5::nat],
               runs := old @ [?r2\<lparr>metrics_of := metrics_of ?r2 @ ms\<rparr>]\<rparr>"
    by blast
  let ?r3 = "?r2\<lparr>metrics_of := metrics_of ?r2 @ ms\<rparr>"
  have a3: "active_run s3 = Some (length old)" and r3: "runs s3 = old @ [?r3]"
    using a s3 by simp_all
  have up3: "server_up env (tracking_uri s3) (requests s3)"
    using up [rule_format, of 12] s3 by (simp add: add.commute)
  let ?s4 = "s3\<lparr>requests := Suc (requests s3),
               runs := old @ [?r3\<lparr>artifacts_of := (''mnist_model'', m') # artifacts_of ?r3\<rparr>]\<rparr>"
  have lm: "log_model env m' ''mnist_model'' s3 = Inr ?s4"
    using up3 by (subst log_model_last [OF a3 r3]) simp
  have r4: "runs ?s4 = old @ [?r3\<lparr>artifacts_of := (''mnist_model'', m') # artifacts_of ?r3\<rparr>]"
    by simp
  have up4: "server_up env (tracking_uri ?s4) (requests ?s4)"
    using up [rule_format, of 13] s3 by (simp add: add.commute)
  have "\<exists>s' d. register_model env (RunsUri (length old) ''mnist_model'') ''MNISTModel'' ?s4 = Inr (s', d)"
    using up4 by (subst register_model_last [OF r4]) simp
  then obtain s' d where
    rm: "register_model env (RunsUri (length old) ''mnist_model'') ''MNISTModel'' ?s4 = Inr (s', d)"
    by blast
  have "training_body env opt trl tel (model, os) (length old) s = Inr (s', m', os', d)"
    by (simp only: training_body_def lp1 lp2 Let_def fst_conv snd_conv el lm rm sum.case prod.case)
  with t' show ?thesis by blast
qed

lemma flaky_env_up:
  "server_up (flaky_env n) u k \<longleftrightarrow> u = Some ''http://localhost:5000'' \<and> k < n"
  by (simp add: flaky_env_def demo_env_def)

lemma running_state_fields:
  "tracking_uri running_state = Some ''http://localhost:5000''" "requests running_state = 3"
  "params_of \<lparr>experiment_of = ''mnist_pytorch_experiment'', status = RUNNING,
               params_of = [], metrics_of = [], artifacts_of = []\<rparr> = []"
  by (simp_all add: running_state_def)

lemma fresh_state_fields:
  "tracking_uri fresh_state = Some ''http://localhost:5000''" "requests fresh_state = 0"
  "runs fresh_state = []" "active_run fresh_state = None"
  by (simp_all add: fresh_state_def set_tracking_uri_def connect_def empty_server_def)

lemma upt_5: "[0..<5] = [] @ 0 # [1, 2, 3, 4]"
  by (simp add: upt_rec)

lemma new_run_fresh: "params_of (new_run s) = []" "metrics_of (new_run s) = []"
  "artifacts_of (new_run s) = []" "status (new_run s) = RUNNING"
  by (simp_all add: new_run_def)

lemma env_facts:
  "mnist offline_env True = Inl RuntimeError"
  "mnist half_env True = Inr tiny_dataset" "mnist half_env False = Inl RuntimeError"
  "\<forall>k. server_up half_env (Some ''http://localhost:5000'') k"
  "\<forall>k. server_up mixed_env (Some ''http://localhost:5000'') k"
  "mnist mixed_env True = Inr tiny_dataset" "mnist mixed_env False = Inr mislabelled"
  "cell_data mixed_env = Inr (tiny_dataset, mislabelled)"
  "cell_data demo_env = Inr (tiny_dataset, tiny_dataset)"
  "cell_data (flaky_env n) = Inr (tiny_dataset, tiny_dataset)"
  by (simp_all add: offline_env_def half_env_def mixed_env_def flaky_env_def demo_env_def
      cell_data_def)

lemma cell_tracking_flaky_1:
  "\<exists>s. cell_tracking (flaky_env 1) empty_server = Inl (ConnectionError, s) \<and> requests s = 1"
  by (simp add: cell_tracking_def set_experiment_def request_def set_tracking_uri_def connect_def
      flaky_env_up empty_server_def)

lemma narrow_forward:
  "forward (eval_mode (layers (3, 128) (128, 64) (64, 10))) (unsqueeze0 (transform blank_image))
     = Inl RuntimeError"
  by (simp add: forward_def view_rows_def Linear_forward_def eval_mode_def layers_sizes
      numel_unsqueeze_transform blank_image_def)

text \<open>
  The notebook on a server that holds an old version 1 of the registered model: training
  returns, and version 1 resolves to what the old run holds under the artifact path.
\<close>

lemma stale_training:
  "\<exists>s0 s1 m' os' d.
      cell_tracking demo_env (stale_server arts) = Inr s0
    \<and> cell_train demo_env (SGD 0.003 0.9) (train_loader_of tiny_dataset) (test_loader_of tiny_dataset)
        (SimpleNN_init (init_params demo_env), opt_init demo_env) s0 = Inr (s1, m', os', d)
    \<and> server_up demo_env (tracking_uri s1) (requests s1)
    \<and> resolve s1 (ModelsUri ''MNISTModel'' 1) =
        (case map_of arts ''mnist_model'' of None \<Rightarrow> Inl MlflowException | Some m \<Rightarrow> Inr m)"
proof -
  from cell_tracking_ok [OF demo_env_facts(1)] obtain s0 where
    ct: "cell_tracking demo_env (stale_server arts) = Inr s0"
    by blast
  from cell_tracking_Inr [OF ct] have
    a0: "active_run s0 = None" and u0: "tracking_uri s0 = Some ''http://localhost:5000''"
    and r0: "runs s0 = runs (stale_server arts)" and g0: "registry s0 = registry (stale_server arts)"
    by simp_all
  have up0: "\<forall>k. server_up demo_env (tracking_uri s0) k"
    using demo_env_facts(1) u0 by simp
  have gl: "good_loader (train_loader_of tiny_dataset)" "good_loader (test_loader_of tiny_dataset)"
    by (simp_all add: good_train_loader good_test_loader mnist_like_tiny)
  from cell_train_ok [OF a0 topology_init gl up0, where opt = "SGD 0.003 0.9"
      and os = "opt_init demo_env" and ?p1 = "init_params demo_env"]
  obtain s1 m' os' d where
    tc: "cell_train demo_env (SGD 0.003 0.9) (train_loader_of tiny_dataset)
        (test_loader_of tiny_dataset)
        (SimpleNN_init (init_params demo_env), opt_init demo_env) s0 = Inr (s1, m', os', d)"
    by blast
  from cell_train_Inr [OF a0 tc] obtain ms where
    s1: "s1 = after_training s0 ms m'"
    by blast
  have up1: "server_up demo_env (tracking_uri s1) (requests s1)"
    using up0 unfolding s1 by (simp add: after_training_def)
  have reg: "registry s0 ''MNISTModel'' = (0, ''mnist_model'') # []"
    and len: "0 < length (runs s0)"
    by (simp_all add: g0 r0 stale_server_def)
  have "resolve s1 (ModelsUri ''MNISTModel'' 1) = fetch_artifact s0 0 ''mnist_model''"
    unfolding s1 by (rule resolve_after_training_stale [OF reg len])
  also have "\<dots> = (case map_of arts ''mnist_model'' of None \<Rightarrow> Inl MlflowException
      | Some m \<Rightarrow> Inr m)"
    by (simp add: fetch_artifact_def r0 stale_server_def)
  finally show ?thesis using ct tc up1 by blast
qed

text \<open>Opening the run and logging the two parameters, on a client without an active run.\<close>

lemma run_opened:
  assumes a: "active_run s = None"
    and up: "server_up env (tracking_uri s) (requests s)"
      "server_up env (tracking_uri s) (Suc (requests s))"
      "server_up env (tracking_uri s) (Suc (Suc (requests s)))"
  shows "\<exists>s1 s2 s3.
      start_run env s = Inr (length (runs s), s1)
    \<and> log_param env ''learning_rate'' 0.003 s1 = Inr s2
    \<and> log_param env ''momentum'' 0.003 s2 = Inr s3
    \<and> active_run s3 = Some (length (runs s))
    \<and> runs s3 = runs s @ [(new_run s)\<lparr>params_of := [(''learning_rate'', 0.003), (''momentum'', 0.003)]\<rparr>]
    \<and> requests s3 = requests s + 3 \<and> tracking_uri s3 = tracking_uri s"
proof -
  let ?s1 = "s\<lparr>requests := Suc (requests s), runs := runs s @ [new_run s],
      active_run := Some (length (runs s))\<rparr>"
  have sr: "start_run env s = Inr (length (runs s), ?s1)"
    using up(1) by (simp add: start_run_fresh [OF a])
  have a1: "active_run ?s1 = Some (length (runs s))" and r1: "runs ?s1 = runs s @ [new_run s]"
    and p1: "params_of (new_run s) = []"
    by (simp_all add: new_run_def)
  have u1: "server_up env (tracking_uri ?s1) (requests ?s1)"
    and u2: "server_up env (tracking_uri ?s1) (Suc (requests ?s1))"
    using up(2,3) by simp_all
  note lp1 = log_params_ok(1) [OF a1 r1 p1 u1]
  note lp2 = log_params_ok(2) [OF a1 r1 p1 u1 u2]
  let ?s3 = "?s1\<lparr>requests := Suc (Suc (requests ?s1)),
      runs := runs s @ [(new_run s)\<lparr>params_of := [(''learning_rate'', 0.003), (''momentum'', 0.003)]\<rparr>]\<rparr>"
  have "active_run ?s3 = Some (length (runs s))"
    "runs ?s3 = runs s @ [(new_run s)\<lparr>params_of := [(''learning_rate'', 0.003), (''momentum'', 0.003)]\<rparr>]"
    "requests ?s3 = requests s + 3" "tracking_uri ?s3 = tracking_uri s"
    by simp_all
  with sr lp1 lp2 show ?thesis by blast
qed

lemma cell_tracking_flaky:
  "2 \<le> n \<Longrightarrow> \<exists>s0. cell_tracking (flaky_env n) empty_server = Inr s0
     \<and> active_run s0 = None \<and> runs s0 = []
     \<and> tracking_uri s0 = Some ''http://localhost:5000'' \<and> requests s0 = 2"
  by (simp add: cell_tracking_def set_experiment_def request_def set_tracking_uri_def connect_def
      flaky_env_up empty_server_def)

lemma upt_1: "[0..<1] = [0]" "[0] @ 1 # [2, 3, 4] = [0..<5]"
  by (simp_all add: upt_rec)

lemma demo_script:
  "\<exists>nb. script demo_env empty_server = Inr nb \<and> 17 < requests (tracking nb)"
proof -
  have "registry empty_server ''MNISTModel'' = []" by (simp add: empty_server_def)
  from script_ok_fresh [OF demo_env_facts(1) demo_env_facts(2) mnist_like_tiny
      demo_env_facts(3) mnist_like_tiny this]
  obtain nb where sc: "script demo_env empty_server = Inr nb" by blast
  from script_Inr [OF sc] obtain s0 ms where
    "tracking nb = (after_training s0 ms (model_of nb))\<lparr>requests := requests s0 + 17\<rparr>"
    "cell_tracking demo_env empty_server = Inr s0"
    by blast
  with cell_tracking_Inr [of demo_env empty_server s0] have "17 < requests (tracking nb)"
    by simp
  with sc show ?thesis by blast
qed

text \<open>
  C8: no failure is caught. Every function of the notebook ends with the error of the
  first call in it that raises: \<open>forward\<close> with that of the view or of a layer; the body
  of a training or evaluation batch with that of the collation, of \<open>forward\<close> or of the
  loss; each of the two iterations with that of the first failing batch, wherever it stands; the two
  passes with that of their loop, with the division by zero of a loader without batches,
  or with that of logging the metric; an epoch with that of either pass, and the loop over
  the epochs with that of the first failing epoch, wherever it stands; the body of the
  \<^verbatim>\<open>with\<close> block with that of either parameter, of the epochs, of logging the model or of
  registering it; the training cell with that of starting the run, with that of the body
  after the run was ended as failed, or with that of ending the run; the notebook with
  that of any of its cells; \<open>predict_and_visualize\<close> with that of the indexing, of
  \<open>forward\<close>, of the argmax, of \<open>imshow\<close> or of \<open>item\<close>. Every call to a tracking server
  that does not answer raises. Composed: a failure in any of the five epochs ends the
  notebook with that error once the run was ended as failed, or with the error of ending
  the run. When the server does not answer the first call, the notebook ends with the
  connection error before anything is written; when the data set provider fails, it ends
  with the provider's error in the state that the first cell left; when the forward pass
  raises on the first training batch, the run is ended as failed with no metric and no
  artifact and nothing is registered. In the other direction, a loop, a function or an
  execution that returned has had every one of its calls return: every batch was
  collated, fed forward and scored, every epoch ran both passes, every cell returned,
  every call to the server was answered and both parts of the data set were delivered.
  Nothing is retried or recovered from.
\<close>

theorem failures_propagate:
  "((\<not> server_up env (Some ''http://localhost:5000'') (requests sv) \<longrightarrow>
      script env sv = Inl (ConnectionError, set_tracking_uri ''http://localhost:5000'' (connect sv)))
   \<and> (cell_tracking env sv = Inr s0 \<and> mnist env True = Inl e \<longrightarrow> script env sv = Inl (e, s0))
   \<and> (cell_tracking env sv = Inr s0 \<and> mnist env True = Inr tr \<and> mnist env False = Inl e \<longrightarrow>
        script env sv = Inl (e, s0))
   \<and> ((\<forall>k. server_up env (Some ''http://localhost:5000'') k)
        \<and> mnist env True = Inr tr \<and> mnist env False = Inr te
        \<and> batches (train_loader_of tr) (rng env 0) = b # bs
        \<and> collate b = Inr (images, labels)
        \<and> forward (SimpleNN_init (init_params env)) images = Inl e \<longrightarrow>
        (\<exists>t0. cell_tracking env sv = Inr t0
           \<and> script env sv =
               Inl (e, t0\<lparr>requests := requests t0 + 4, runs := runs sv @ [failed_run t0],
                          active_run := None\<rparr>)))
   \<and> (\<not> (- int (length ds) \<le> i \<and> i < int (length ds)) \<longrightarrow>
        predict_and_visualize m ds i = Inl IndexError)
   \<and> (getitem ds i = Inr (img, lbl) \<and> forward m (unsqueeze0 img) = Inl e \<longrightarrow>
        predict_and_visualize m ds i = Inl e)
   \<and> (script env sv = Inr nb \<longrightarrow>
        (\<forall>k. requests sv \<le> k \<and> k < requests (tracking nb) \<longrightarrow>
           server_up env (Some ''http://localhost:5000'') k)
        \<and> \<not> isl (mnist env True) \<and> \<not> isl (mnist env False)))
   \<and> ((view_rows inp (28 * 28) = Inl e \<longrightarrow> forward m inp = Inl e)
   \<and> (view_rows inp (28 * 28) = Inr x0 \<and> Linear_forward (fc1 m) x0 = Inl e \<longrightarrow> forward m inp = Inl e)
   \<and> (view_rows inp (28 * 28) = Inr x0 \<and> Linear_forward (fc1 m) x0 = Inr h1
        \<and> Linear_forward (fc2 m) (relu h1) = Inl e \<longrightarrow> forward m inp = Inl e)
   \<and> (view_rows inp (28 * 28) = Inr x0 \<and> Linear_forward (fc1 m) x0 = Inr h1
        \<and> Linear_forward (fc2 m) (relu h1) = Inr h2
        \<and> Linear_forward (fc3 m) (relu h2) = Inl e \<longrightarrow> forward m inp = Inl e))
   \<and> ((collate b = Inl e \<longrightarrow>
      train_batch env opt b (m, os) = Inl e \<and> eval_batch m b = Inl e)
   \<and> (collate b = Inr (images, labels) \<and> forward m images = Inl e \<longrightarrow>
      train_batch env opt b (m, os) = Inl e \<and> eval_batch m b = Inl e)
   \<and> (collate b = Inr (images, labels) \<and> forward m images = Inr logits
        \<and> CrossEntropyLoss logits labels = Inl e \<longrightarrow>
      train_batch env opt b (m, os) = Inl e \<and> eval_batch m b = Inl e))
   \<and> ((train_loop env opt bs1 lst = Inr (m, os, acc) \<and> train_batch env opt b (m, os) = Inl e \<longrightarrow>
      train_loop env opt (bs1 @ b # bs2) lst = Inl e)
   \<and> (eval_loop m bs1 acc0 = Inr acc \<and> eval_batch m b = Inl e \<longrightarrow>
      eval_loop m (bs1 @ b # bs2) acc0 = Inl e))
   \<and> ((train_loop env opt (batches trl (rng env ep)) (train_mode model, os, 0) = Inl e \<longrightarrow>
      train_pass env opt trl ep (s, model, os) = Inl (e, s))
   \<and> (train_loop env opt (batches trl (rng env ep)) (train_mode model, os, 0) = Inr (m', os', rl)
        \<and> len_loader trl = 0 \<longrightarrow>
      train_pass env opt trl ep (s, model, os) = Inl (ZeroDivisionError, s))
   \<and> (train_loop env opt (batches trl (rng env ep)) (train_mode model, os, 0) = Inr (m', os', rl)
        \<and> len_loader trl \<noteq> 0
        \<and> log_metric env ''average_train_loss'' (rl / real (len_loader trl)) ep s = Inl x \<longrightarrow>
      train_pass env opt trl ep (s, model, os) = Inl x)
   \<and> (eval_loop (eval_mode model) (batches tel (rng env ep)) 0 = Inl e \<longrightarrow>
      test_pass env tel ep (s, model, os) = Inl (e, s))
   \<and> (eval_loop (eval_mode model) (batches tel (rng env ep)) 0 = Inr tv
        \<and> len_loader tel = 0 \<longrightarrow>
      test_pass env tel ep (s, model, os) = Inl (ZeroDivisionError, s))
   \<and> (eval_loop (eval_mode model) (batches tel (rng env ep)) 0 = Inr tv
        \<and> len_loader tel \<noteq> 0
        \<and> log_metric env ''average_test_loss'' (tv / real (len_loader tel)) ep s = Inl x \<longrightarrow>
      test_pass env tel ep (s, model, os) = Inl x))
   \<and> ((train_pass env opt trl ep st = Inl x \<longrightarrow> epoch env opt trl tel ep st = Inl x)
   \<and> (train_pass env opt trl ep st = Inr st1 \<and> test_pass env tel ep st1 = Inl x \<longrightarrow>
      epoch env opt trl tel ep st = Inl x)
   \<and> (epochs_loop env opt trl tel es1 st = Inr st1 \<and> epoch env opt trl tel ep st1 = Inl x \<longrightarrow>
      epochs_loop env opt trl tel (es1 @ ep # es2) st = Inl x))
   \<and> ((log_param env ''learning_rate'' 0.003 s = Inl x \<longrightarrow>
      training_body env opt trl tel mo rid s = Inl x)
   \<and> (log_param env ''learning_rate'' 0.003 s = Inr s1
        \<and> log_param env ''momentum'' 0.003 s1 = Inl x \<longrightarrow>
      training_body env opt trl tel mo rid s = Inl x)
   \<and> (log_param env ''learning_rate'' 0.003 s = Inr s1
        \<and> log_param env ''momentum'' 0.003 s1 = Inr s2
        \<and> epochs_loop env opt trl tel [0..<5] (s2, fst mo, snd mo) = Inl x \<longrightarrow>
      training_body env opt trl tel mo rid s = Inl x)
   \<and> (log_param env ''learning_rate'' 0.003 s = Inr s1
        \<and> log_param env ''momentum'' 0.003 s1 = Inr s2
        \<and> epochs_loop env opt trl tel [0..<5] (s2, fst mo, snd mo) = Inr (s3, model, os)
        \<and> log_model env model ''mnist_model'' s3 = Inl x \<longrightarrow>
      training_body env opt trl tel mo rid s = Inl x)
   \<and> (log_param env ''learning_rate'' 0.003 s = Inr s1
        \<and> log_param env ''momentum'' 0.003 s1 = Inr s2
        \<and> epochs_loop env opt trl tel [0..<5] (s2, fst mo, snd mo) = Inr (s3, model, os)
        \<and> log_model env model ''mnist_model'' s3 = Inr s4
        \<and> register_model env (RunsUri rid ''mnist_model'') ''MNISTModel'' s4 = Inl x \<longrightarrow>
      training_body env opt trl tel mo rid s = Inl x))
   \<and> ((start_run env s = Inl x \<longrightarrow> cell_train env opt trl tel mo s = Inl x)
   \<and> (start_run env s = Inr (rid, s1) \<and> training_body env opt trl tel mo rid s1 = Inl (e, s2)
        \<and> end_run env FAILED s2 = Inr s3 \<longrightarrow>
      cell_train env opt trl tel mo s = Inl (e, s3))
   \<and> (start_run env s = Inr (rid, s1) \<and> training_body env opt trl tel mo rid s1 = Inl (e, s2)
        \<and> end_run env FAILED s2 = Inl x \<longrightarrow>
      cell_train env opt trl tel mo s = Inl x)
   \<and> (start_run env s = Inr (rid, s1) \<and> training_body env opt trl tel mo rid s1 = Inr (s2, r)
        \<and> end_run env FINISHED s2 = Inl x \<longrightarrow>
      cell_train env opt trl tel mo s = Inl x))
   \<and> ((mnist env True = Inl e \<longrightarrow> cell_data env = Inl e)
   \<and> (mnist env True = Inr tr \<and> mnist env False = Inl e \<longrightarrow> cell_data env = Inl e)
   \<and> (load_model env (ModelsUri ''MNISTModel'' 1) s = Inl x \<longrightarrow> cell_load env s = Inl x)
   \<and> (cell_tracking env sv = Inl x \<longrightarrow> script env sv = Inl x)
   \<and> (cell_tracking env sv = Inr s0 \<and> cell_data env = Inl e \<longrightarrow> script env sv = Inl (e, s0))
   \<and> (cell_tracking env sv = Inr s0 \<and> cell_data env = Inr (tr, te)
        \<and> cell_train env (SGD 0.003 0.9) (train_loader_of tr) (test_loader_of te)
             (SimpleNN_init (init_params env), opt_init env) s0 = Inl x \<longrightarrow>
      script env sv = Inl x)
   \<and> (cell_tracking env sv = Inr s0 \<and> cell_data env = Inr (tr, te)
        \<and> cell_train env (SGD 0.003 0.9) (train_loader_of tr) (test_loader_of te)
             (SimpleNN_init (init_params env), opt_init env) s0 = Inr (s1, model', os', details)
        \<and> cell_load env s1 = Inl x \<longrightarrow>
      script env sv = Inl x)
   \<and> (cell_tracking env sv = Inr s0 \<and> cell_data env = Inr (tr, te)
        \<and> cell_train env (SGD 0.003 0.9) (train_loader_of tr) (test_loader_of te)
             (SimpleNN_init (init_params env), opt_init env) s0 = Inr (s1, model', os', details)
        \<and> cell_load env s1 = Inr (s2, loaded)
        \<and> predict_and_visualize loaded te 0 = Inl e \<longrightarrow>
      script env sv = Inl (e, s2)))
   \<and> ((getitem ds i = Inl e \<longrightarrow> predict_and_visualize m ds i = Inl e)
   \<and> (getitem ds i = Inr (img, lbl) \<and> forward (eval_mode m) (unsqueeze0 img) = Inl e \<longrightarrow>
      predict_and_visualize m ds i = Inl e)
   \<and> (getitem ds i = Inr (img, lbl) \<and> forward (eval_mode m) (unsqueeze0 img) = Inr logits
        \<and> argmax_dim1 logits = Inl e \<longrightarrow>
      predict_and_visualize m ds i = Inl e)
   \<and> (getitem ds i = Inr (img, lbl) \<and> forward (eval_mode m) (unsqueeze0 img) = Inr logits
        \<and> argmax_dim1 logits = Inr predicted
        \<and> imshow (squeeze (unsqueeze0 img)) ''Greys_r'' = Inl e \<longrightarrow>
      predict_and_visualize m ds i = Inl e)
   \<and> (getitem ds i = Inr (img, lbl) \<and> forward (eval_mode m) (unsqueeze0 img) = Inr logits
        \<and> argmax_dim1 logits = Inr predicted
        \<and> imshow (squeeze (unsqueeze0 img)) ''Greys_r'' = Inr fig
        \<and> item predicted = Inl e \<longrightarrow>
      predict_and_visualize m ds i = Inl e))
   \<and> (\<not> server_up env (tracking_uri s) (requests s) \<longrightarrow>
      set_experiment env name s = Inl (ConnectionError, s)
    \<and> (active_run s = None \<longrightarrow> start_run env s = Inl (ConnectionError, s))
    \<and> log_param env key v s = Inl (ConnectionError, s)
    \<and> log_metric env key v stp s = Inl (ConnectionError, s)
    \<and> log_model env m path s = Inl (ConnectionError, s)
    \<and> register_model env u name s = Inl (ConnectionError, s)
    \<and> load_model env u s = Inl (ConnectionError, s)
    \<and> (active_run s \<noteq> None \<longrightarrow> end_run env stat s = Inl (ConnectionError, s)))
   \<and> (cell_tracking env sv = Inr s0 \<and> cell_data env = Inr (tr, te)
        \<and> start_run env s0 = Inr (rid, s1)
        \<and> log_param env ''learning_rate'' 0.003 s1 = Inr s2
        \<and> log_param env ''momentum'' 0.003 s2 = Inr s3
        \<and> ep < 5
        \<and> epochs_loop env (SGD 0.003 0.9) (train_loader_of tr) (test_loader_of te) [0..<ep]
             (s3, SimpleNN_init (init_params env), opt_init env) = Inr st
        \<and> epoch env (SGD 0.003 0.9) (train_loader_of tr) (test_loader_of te) ep st = Inl (e, t) \<longrightarrow>
      script env sv = (case end_run env FAILED t of Inl x \<Rightarrow> Inl x | Inr t' \<Rightarrow> Inl (e, t')))
   \<and> ((eval_loop m bs acc0 = Inr tot \<longrightarrow>
      (\<forall>b \<in> set bs. \<exists>images labels logits l.
          collate b = Inr (images, labels) \<and> forward m images = Inr logits
          \<and> CrossEntropyLoss logits labels = Inr l))
   \<and> (train_loop env opt bs (m, os, acc) = Inr (m', os', rl) \<longrightarrow>
      (\<forall>i < length bs. \<exists>images labels logits l.
          collate (bs ! i) = Inr (images, labels)
          \<and> forward (fst (batch_states env opt bs (m, os) ! i)) images = Inr logits
          \<and> CrossEntropyLoss logits labels = Inr l))
   \<and> (epochs_loop env opt trl tel es st = Inr st1 \<longrightarrow>
      (\<forall>ep \<in> set es. \<exists>sa sb sc.
          train_pass env opt trl ep sa = Inr sb \<and> test_pass env tel ep sb = Inr sc))
   \<and> (predict_and_visualize m ds i = Inr (m', fig) \<longrightarrow>
      (\<exists>img lbl logits predicted f p.
          getitem ds i = Inr (img, lbl)
          \<and> forward (eval_mode m) (unsqueeze0 img) = Inr logits
          \<and> argmax_dim1 logits = Inr predicted
          \<and> imshow (squeeze (unsqueeze0 img)) ''Greys_r'' = Inr f
          \<and> item predicted = Inr p))
   \<and> (script env sv = Inr nb \<longrightarrow>
      (\<exists>s0 tr te s1 model' os' details s2 loaded fig.
          cell_tracking env sv = Inr s0 \<and> cell_data env = Inr (tr, te)
          \<and> cell_train env (SGD 0.003 0.9) (train_loader_of tr) (test_loader_of te)
               (SimpleNN_init (init_params env), opt_init env) s0 = Inr (s1, model', os', details)
          \<and> cell_load env s1 = Inr (s2, loaded)
          \<and> predict_and_visualize loaded te 0 = Inr (loaded_model nb, fig))))"
  apply (rule conjI, rule notebook_failures)
  apply (rule conjI, rule forward_failures)
  apply (rule conjI, rule batch_failures)
  apply (rule conjI, rule loop_failures)
  apply (rule conjI, rule pass_failures)
  apply (rule conjI, rule epoch_failures)
  apply (rule conjI, rule body_failures)
  apply (rule conjI, rule with_failures)
  apply (rule conjI, rule cell_failures)
  apply (rule conjI, rule predict_failures)
  apply (rule conjI, rule tracking_failures)
  apply (rule conjI, rule composed_failures)
  apply (rule returned_runs)
  done

theorem failures_propagate_witness:
  "((\<not> server_up down_env (Some ''http://localhost:5000'') (requests empty_server)
   \<and> script down_env empty_server = Inl (ConnectionError, fresh_state)
   \<and> mnist offline_env True = Inl RuntimeError
   \<and> script offline_env empty_server = Inl (RuntimeError, projr (cell_tracking offline_env empty_server))
   \<and> mnist odd_env True = Inr odd_dataset
   \<and> fst (projl (script odd_env empty_server)) = RuntimeError
   \<and> map status (runs (snd (projl (script odd_env empty_server)))) = [FAILED]
   \<and> \<not> (- int (length tiny_dataset) \<le> 5 \<and> 5 < int (length tiny_dataset))
   \<and> predict_and_visualize (SimpleNN_init zero_params) tiny_dataset 5 = Inl IndexError)
   \<and> (\<exists>images labels logits l. collate tiny_dataset = Inr (images, labels)
        \<and> forward (SimpleNN_init zero_params) images = Inr logits
        \<and> CrossEntropyLoss logits labels = Inr l)
   \<and> (\<exists>images labels logits l. collate tiny_dataset = Inr (images, labels)
        \<and> forward (fst (batch_states demo_env (SGD 0.003 0.9) [tiny_dataset, tiny_dataset]
              (SimpleNN_init zero_params, ()) ! 1)) images = Inr logits
        \<and> CrossEntropyLoss logits labels = Inr l)
   \<and> (\<exists>sa sb sc. train_pass demo_env (SGD 0.003 0.9) (train_loader_of tiny_dataset) 4 sa = Inr sb
        \<and> test_pass demo_env (test_loader_of tiny_dataset) 4 sb = Inr sc)
   \<and> (\<exists>img lbl logits predicted f p.
          getitem tiny_dataset 0 = Inr (img, lbl)
        \<and> forward (eval_mode (SimpleNN_init zero_params)) (unsqueeze0 img) = Inr logits
        \<and> argmax_dim1 logits = Inr predicted
        \<and> imshow (squeeze (unsqueeze0 img)) ''Greys_r'' = Inr f
        \<and> item predicted = Inr p)
   \<and> (\<exists>s0 tr te s1 model' os' details s2 loaded fig.
          cell_tracking demo_env empty_server = Inr s0 \<and> cell_data demo_env = Inr (tr, te)
        \<and> cell_train demo_env (SGD 0.003 0.9) (train_loader_of tr) (test_loader_of te)
             (SimpleNN_init (init_params demo_env), opt_init demo_env) s0
             = Inr (s1, model', os', details)
        \<and> cell_load demo_env s1 = Inr (s2, loaded)
        \<and> predict_and_visualize loaded te 0
             = Inr (loaded_model (projr (script demo_env empty_server)), fig))
   \<and> \<not> isl (script demo_env empty_server)
   \<and> server_up demo_env (Some ''http://localhost:5000'') 17
   \<and> \<not> isl (mnist demo_env True) \<and> \<not> isl (mnist demo_env False))
   \<and> (forward (SimpleNN_init zero_params) three_numbers = Inl RuntimeError
   \<and> forward (layers (3, 128) (128, 64) (64, 10)) blank_input = Inl RuntimeError
   \<and> forward (layers (784, 128) (5, 64) (64, 10)) blank_input = Inl RuntimeError
   \<and> forward (layers (784, 128) (128, 64) (5, 10)) blank_input = Inl RuntimeError
   \<and> train_batch demo_env (SGD 0.003 0.9) [] (SimpleNN_init zero_params, ()) = Inl RuntimeError
   \<and> eval_batch (SimpleNN_init zero_params) [] = Inl RuntimeError
   \<and> train_batch demo_env (SGD 0.003 0.9) odd_dataset (SimpleNN_init zero_params, ()) = Inl RuntimeError
   \<and> eval_batch (SimpleNN_init zero_params) odd_dataset = Inl RuntimeError
   \<and> train_batch demo_env (SGD 0.003 0.9) mislabelled (SimpleNN_init zero_params, ()) = Inl IndexError
   \<and> eval_batch (SimpleNN_init zero_params) mislabelled = Inl IndexError
   \<and> train_loop demo_env (SGD 0.003 0.9) ([tiny_dataset] @ mislabelled # [tiny_dataset])
        (SimpleNN_init zero_params, (), 0) = Inl IndexError
   \<and> eval_loop (SimpleNN_init zero_params) ([tiny_dataset] @ mislabelled # [tiny_dataset]) 0
        = Inl IndexError)
   \<and> (train_pass demo_env (SGD 0.003 0.9) (train_loader_of mislabelled) 0
      (running_state, SimpleNN_init zero_params, ()) = Inl (IndexError, running_state)
   \<and> train_pass demo_env (SGD 0.003 0.9) (train_loader_of []) 0
      (running_state, SimpleNN_init zero_params, ()) = Inl (ZeroDivisionError, running_state)
   \<and> train_pass down_env (SGD 0.003 0.9) (train_loader_of tiny_dataset) 0
      (running_state, SimpleNN_init zero_params, ()) = Inl (ConnectionError, running_state)
   \<and> test_pass demo_env (test_loader_of mislabelled) 0
      (running_state, SimpleNN_init zero_params, ()) = Inl (IndexError, running_state)
   \<and> test_pass demo_env (test_loader_of []) 0
      (running_state, SimpleNN_init zero_params, ()) = Inl (ZeroDivisionError, running_state)
   \<and> test_pass down_env (test_loader_of tiny_dataset) 0
      (running_state, SimpleNN_init zero_params, ()) = Inl (ConnectionError, running_state)
   \<and> epoch demo_env (SGD 0.003 0.9) (train_loader_of mislabelled) (test_loader_of tiny_dataset) 0
      (running_state, SimpleNN_init zero_params, ()) = Inl (IndexError, running_state)
   \<and> fst (projl (epoch demo_env (SGD 0.003 0.9) (train_loader_of tiny_dataset)
        (test_loader_of mislabelled) 0 (running_state, SimpleNN_init zero_params, ()))) = IndexError)
   \<and> (predict_and_visualize (SimpleNN_init zero_params) tiny_dataset (- 2) = Inl IndexError
   \<and> predict_and_visualize (SimpleNN_init zero_params) odd_dataset 0 = Inl RuntimeError
   \<and> predict_and_visualize (layers (784, 128) (128, 64) (64, 0)) tiny_dataset 0 = Inl IndexError
   \<and> predict_and_visualize (SimpleNN_init zero_params) flat_dataset 0 = Inl TypeError
   \<and> predict_and_visualize (SimpleNN_init zero_params) tall_dataset 0 = Inl RuntimeError
   \<and> set_experiment down_env ''mnist_pytorch_experiment'' fresh_state
        = Inl (ConnectionError, fresh_state)
   \<and> start_run down_env fresh_state = Inl (ConnectionError, fresh_state)
   \<and> log_param down_env ''learning_rate'' 0.003 running_state = Inl (ConnectionError, running_state)
   \<and> log_metric down_env ''average_test_loss'' 1 0 running_state
        = Inl (ConnectionError, running_state)
   \<and> log_model down_env (SimpleNN_init zero_params) ''mnist_model'' running_state
        = Inl (ConnectionError, running_state)
   \<and> register_model down_env (RunsUri 0 ''mnist_model'') ''MNISTModel'' running_state
        = Inl (ConnectionError, running_state)
   \<and> load_model down_env (ModelsUri ''MNISTModel'' 1) fresh_state
        = Inl (ConnectionError, fresh_state)
   \<and> end_run down_env FINISHED running_state = Inl (ConnectionError, running_state))
   \<and> (training_body down_env (SGD 0.003 0.9) (train_loader_of tiny_dataset) (test_loader_of tiny_dataset)
      (SimpleNN_init zero_params, ()) 0 running_state = Inl (ConnectionError, running_state)
   \<and> fst (projl (training_body (flaky_env 4) (SGD 0.003 0.9) (train_loader_of tiny_dataset)
        (test_loader_of tiny_dataset) (SimpleNN_init zero_params, ()) 0 running_state))
      = ConnectionError
   \<and> map fst (params_of (last (runs (snd (projl (training_body (flaky_env 4) (SGD 0.003 0.9)
        (train_loader_of tiny_dataset) (test_loader_of tiny_dataset)
        (SimpleNN_init zero_params, ()) 0 running_state)))))) = [''learning_rate'']
   \<and> fst (projl (training_body demo_env (SGD 0.003 0.9) (train_loader_of tiny_dataset)
        (test_loader_of mislabelled) (SimpleNN_init zero_params, ()) 0 running_state))
      = IndexError
   \<and> fst (projl (training_body (flaky_env 15) (SGD 0.003 0.9) (train_loader_of tiny_dataset)
        (test_loader_of tiny_dataset) (SimpleNN_init zero_params, ()) 0 running_state))
      = ConnectionError
   \<and> artifacts_of (last (runs (snd (projl (training_body (flaky_env 15) (SGD 0.003 0.9)
        (train_loader_of tiny_dataset) (test_loader_of tiny_dataset)
        (SimpleNN_init zero_params, ()) 0 running_state))))) = []
   \<and> fst (projl (training_body (flaky_env 16) (SGD 0.003 0.9) (train_loader_of tiny_dataset)
        (test_loader_of tiny_dataset) (SimpleNN_init zero_params, ()) 0 running_state))
      = ConnectionError
   \<and> map fst (artifacts_of (last (runs (snd (projl (training_body (flaky_env 16) (SGD 0.003 0.9)
        (train_loader_of tiny_dataset) (test_loader_of tiny_dataset)
        (SimpleNN_init zero_params, ()) 0 running_state)))))) = [''mnist_model''])
   \<and> (cell_train down_env (SGD 0.003 0.9) (train_loader_of tiny_dataset) (test_loader_of tiny_dataset)
      (SimpleNN_init zero_params, ()) fresh_state = Inl (ConnectionError, fresh_state)
   \<and> fst (projl (cell_train demo_env (SGD 0.003 0.9) (train_loader_of mislabelled)
        (test_loader_of tiny_dataset) (SimpleNN_init zero_params, ()) fresh_state)) = IndexError
   \<and> map status (runs (snd (projl (cell_train demo_env (SGD 0.003 0.9) (train_loader_of mislabelled)
        (test_loader_of tiny_dataset) (SimpleNN_init zero_params, ()) fresh_state)))) = [FAILED]
   \<and> fst (projl (cell_train (flaky_env 1) (SGD 0.003 0.9) (train_loader_of tiny_dataset)
        (test_loader_of tiny_dataset) (SimpleNN_init zero_params, ()) fresh_state)) = ConnectionError
   \<and> map status (runs (snd (projl (cell_train (flaky_env 1) (SGD 0.003 0.9)
        (train_loader_of tiny_dataset) (test_loader_of tiny_dataset)
        (SimpleNN_init zero_params, ()) fresh_state)))) = [RUNNING]
   \<and> fst (projl (cell_train (flaky_env 15) (SGD 0.003 0.9) (train_loader_of tiny_dataset)
        (test_loader_of tiny_dataset) (SimpleNN_init zero_params, ()) fresh_state)) = ConnectionError
   \<and> map status (runs (snd (projl (cell_train (flaky_env 15) (SGD 0.003 0.9)
        (train_loader_of tiny_dataset) (test_loader_of tiny_dataset)
        (SimpleNN_init zero_params, ()) fresh_state)))) = [RUNNING]
   \<and> map fst (artifacts_of (last (runs (snd (projl (cell_train (flaky_env 15) (SGD 0.003 0.9)
        (train_loader_of tiny_dataset) (test_loader_of tiny_dataset)
        (SimpleNN_init zero_params, ()) fresh_state)))))) = [''mnist_model''])
   \<and> (cell_data offline_env = Inl RuntimeError
   \<and> cell_data half_env = Inl RuntimeError
   \<and> cell_load down_env fresh_state = Inl (ConnectionError, fresh_state)
   \<and> fst (projl (script (flaky_env 1) empty_server)) = ConnectionError
   \<and> script half_env empty_server
       = Inl (RuntimeError, projr (cell_tracking half_env empty_server))
   \<and> artifacts_of (last (runs (snd (projl (script odd_env empty_server))))) = []
   \<and> fst (projl (script demo_env (stale_server []))) = MlflowException
   \<and> fst (projl (script demo_env
        (stale_server [(''mnist_model'', layers (3, 128) (128, 64) (64, 10))]))) = RuntimeError)
   \<and> (fst (projl (script mixed_env empty_server)) = IndexError
   \<and> map status (runs (snd (projl (script mixed_env empty_server)))) = [FAILED]
   \<and> metric_keys (metrics_of (last (runs (snd (projl (script mixed_env empty_server))))))
       = [(''average_train_loss'', 0)]
   \<and> fst (projl (script (flaky_env 7) empty_server)) = ConnectionError
   \<and> map status (runs (snd (projl (script (flaky_env 7) empty_server)))) = [RUNNING]
   \<and> metric_keys (metrics_of (last (runs (snd (projl (script (flaky_env 7) empty_server))))))
       = [(''average_train_loss'', 0), (''average_test_loss'', 0)]
   \<and> fst (projl (epochs_loop (flaky_env 5) (SGD 0.003 0.9) (train_loader_of tiny_dataset)
        (test_loader_of tiny_dataset) ([0] @ 1 # [2, 3, 4])
        (running_state, SimpleNN_init zero_params, ()))) = ConnectionError
   \<and> metric_keys (metrics_of (last (runs (snd (projl (epochs_loop (flaky_env 5) (SGD 0.003 0.9)
        (train_loader_of tiny_dataset) (test_loader_of tiny_dataset) ([0] @ 1 # [2, 3, 4])
        (running_state, SimpleNN_init zero_params, ())))))))
       = [(''average_train_loss'', 0), (''average_test_loss'', 0)])"
proof -
  have part1:
    "(\<not> server_up down_env (Some ''http://localhost:5000'') (requests empty_server)
   \<and> script down_env empty_server = Inl (ConnectionError, fresh_state)
   \<and> mnist offline_env True = Inl RuntimeError
   \<and> script offline_env empty_server = Inl (RuntimeError, projr (cell_tracking offline_env empty_server))
   \<and> mnist odd_env True = Inr odd_dataset
   \<and> fst (projl (script odd_env empty_server)) = RuntimeError
   \<and> map status (runs (snd (projl (script odd_env empty_server)))) = [FAILED]
   \<and> \<not> (- int (length tiny_dataset) \<le> 5 \<and> 5 < int (length tiny_dataset))
   \<and> predict_and_visualize (SimpleNN_init zero_params) tiny_dataset 5 = Inl IndexError)
   \<and> (\<exists>images labels logits l. collate tiny_dataset = Inr (images, labels)
        \<and> forward (SimpleNN_init zero_params) images = Inr logits
        \<and> CrossEntropyLoss logits labels = Inr l)
   \<and> (\<exists>images labels logits l. collate tiny_dataset = Inr (images, labels)
        \<and> forward (fst (batch_states demo_env (SGD 0.003 0.9) [tiny_dataset, tiny_dataset]
              (SimpleNN_init zero_params, ()) ! 1)) images = Inr logits
        \<and> CrossEntropyLoss logits labels = Inr l)
   \<and> (\<exists>sa sb sc. train_pass demo_env (SGD 0.003 0.9) (train_loader_of tiny_dataset) 4 sa = Inr sb
        \<and> test_pass demo_env (test_loader_of tiny_dataset) 4 sb = Inr sc)
   \<and> (\<exists>img lbl logits predicted f p.
          getitem tiny_dataset 0 = Inr (img, lbl)
        \<and> forward (eval_mode (SimpleNN_init zero_params)) (unsqueeze0 img) = Inr logits
        \<and> argmax_dim1 logits = Inr predicted
        \<and> imshow (squeeze (unsqueeze0 img)) ''Greys_r'' = Inr f
        \<and> item predicted = Inr p)
   \<and> (\<exists>s0 tr te s1 model' os' details s2 loaded fig.
          cell_tracking demo_env empty_server = Inr s0 \<and> cell_data demo_env = Inr (tr, te)
        \<and> cell_train demo_env (SGD 0.003 0.9) (train_loader_of tr) (test_loader_of te)
             (SimpleNN_init (init_params demo_env), opt_init demo_env) s0
             = Inr (s1, model', os', details)
        \<and> cell_load demo_env s1 = Inr (s2, loaded)
        \<and> predict_and_visualize loaded te 0
             = Inr (loaded_model (projr (script demo_env empty_server)), fig))
   \<and> \<not> isl (script demo_env empty_server)
   \<and> server_up demo_env (Some ''http://localhost:5000'') 17
   \<and> \<not> isl (mnist demo_env True) \<and> \<not> isl (mnist demo_env False)"
  proof -
    let ?m0 = "SimpleNN_init zero_params"
    let ?opt = "SGD 0.003 0.9"
    let ?trl = "train_loader_of tiny_dataset"
    let ?tel = "test_loader_of tiny_dataset"
    note ret = failures_propagate [THEN conjunct2, THEN conjunct2, THEN conjunct2, THEN conjunct2,
        THEN conjunct2, THEN conjunct2, THEN conjunct2, THEN conjunct2, THEN conjunct2,
        THEN conjunct2, THEN conjunct2, THEN conjunct2]
    have o: "\<not> server_up down_env (Some ''http://localhost:5000'') (requests empty_server)
     \<and> script down_env empty_server = Inl (ConnectionError, fresh_state)
     \<and> mnist offline_env True = Inl RuntimeError
     \<and> script offline_env empty_server = Inl (RuntimeError, projr (cell_tracking offline_env empty_server))
     \<and> mnist odd_env True = Inr odd_dataset
     \<and> fst (projl (script odd_env empty_server)) = RuntimeError
     \<and> map status (runs (snd (projl (script odd_env empty_server)))) = [FAILED]
     \<and> \<not> (- int (length tiny_dataset) \<le> 5 \<and> 5 < int (length tiny_dataset))
     \<and> predict_and_visualize (SimpleNN_init zero_params) tiny_dataset 5 = Inl IndexError"
    proof -
      have d: "\<not> server_up down_env (Some ''http://localhost:5000'') (requests empty_server)"
        by (simp add: down_env_def)
      note w1 = failures_propagate [where env = down_env and sv = empty_server,
          THEN conjunct1, THEN conjunct1, THEN mp, OF d, folded fresh_state_def]
      have up: "\<forall>k. server_up offline_env (Some ''http://localhost:5000'') k"
        and off: "mnist offline_env True = Inl RuntimeError"
        by (simp_all add: offline_env_def demo_env_def)
      from cell_tracking_ok [OF up] obtain s0 where ct: "cell_tracking offline_env empty_server = Inr s0"
        by blast
      have h2: "cell_tracking offline_env empty_server = Inr s0 \<and> mnist offline_env True = Inl RuntimeError"
        using ct off by (intro conjI)
      note w2 = failures_propagate [where env = offline_env and sv = empty_server and ?s0.0 = s0
          and e = RuntimeError, THEN conjunct1, THEN conjunct2, THEN conjunct1, THEN mp, OF h2]
      have p2: "projr (cell_tracking offline_env empty_server) = s0" by (simp only: ct sum.sel)
      from odd_env_facts(5) obtain images where
        co: "collate odd_dataset = Inr (images, [7])" and n: "numel images = 9"
        by blast
      have fw: "forward (SimpleNN_init (init_params odd_env)) images = Inl RuntimeError"
        by (rule forward_rejects) (simp add: n)
      have h4: "(\<forall>k. server_up odd_env (Some ''http://localhost:5000'') k)
            \<and> mnist odd_env True = Inr odd_dataset \<and> mnist odd_env False = Inr odd_dataset
            \<and> batches (train_loader_of odd_dataset) (rng odd_env 0) = odd_dataset # []
            \<and> collate odd_dataset = Inr (images, [7])
            \<and> forward (SimpleNN_init (init_params odd_env)) images = Inl RuntimeError"
        using odd_env_facts(1,2,3,4) co fw by (intro conjI)
      from failures_propagate [where env = odd_env and sv = empty_server and tr = odd_dataset
          and te = odd_dataset and b = odd_dataset and bs = "[]" and images = images
          and labels = "[7]" and e = RuntimeError,
          THEN conjunct1, THEN conjunct2, THEN conjunct2, THEN conjunct2, THEN conjunct1, THEN mp, OF h4]
      obtain t0 where
        w4: "script odd_env empty_server =
                   Inl (RuntimeError, t0\<lparr>requests := requests t0 + 4,
                          runs := runs empty_server @ [failed_run t0], active_run := None\<rparr>)"
        by blast
      have e4: "fst (projl (script odd_env empty_server)) = RuntimeError"
        and r4: "map status (runs (snd (projl (script odd_env empty_server)))) = [FAILED]"
        unfolding w4 by (simp_all add: empty_server_def failed_run_def)
      have i5: "\<not> (- int (length tiny_dataset) \<le> 5 \<and> 5 < int (length tiny_dataset))"
        by (simp add: tiny_dataset_def)
      note w5 = failures_propagate [where ds = tiny_dataset and i = 5 and m = "SimpleNN_init zero_params",
          THEN conjunct1, THEN conjunct2, THEN conjunct2, THEN conjunct2, THEN conjunct2, THEN conjunct1, THEN mp, OF i5]
      show ?thesis
        unfolding p2 using d w1 off w2 odd_env_facts(2) e4 r4 i5 w5 by (intro conjI)
    qed
    have t0: "topology ?m0 = [(784, 128), (128, 64), (64, 10)]" by (rule topology_init)
    have gl: "good_loader ?trl" "good_loader ?tel"
      by (simp_all add: good_train_loader good_test_loader mnist_like_tiny)
    have r1: "\<exists>images labels logits l. collate tiny_dataset = Inr (images, labels)
          \<and> forward ?m0 images = Inr logits \<and> CrossEntropyLoss logits labels = Inr l"
    proof -
      have gt: "b \<noteq> [] \<and> mnist_like b" if "b \<in> set [tiny_dataset]" for b
        using that mnist_like_tiny by simp
      from eval_loop_ok [OF t0 gt, where acc = 0] obtain tv where
        el: "eval_loop ?m0 [tiny_dataset] 0 = Inr tv"
        by blast
      have "tiny_dataset \<in> set [tiny_dataset]" by simp
      from ret [THEN conjunct1, THEN mp, OF el, THEN bspec, OF this] show ?thesis .
    qed
    have r2: "\<exists>images labels logits l. collate tiny_dataset = Inr (images, labels)
          \<and> forward (fst (batch_states demo_env ?opt [tiny_dataset, tiny_dataset] (?m0, ()) ! 1))
                images = Inr logits
          \<and> CrossEntropyLoss logits labels = Inr l"
    proof -
      have gt: "b \<noteq> [] \<and> mnist_like b" if "b \<in> set [tiny_dataset, tiny_dataset]" for b
        using that mnist_like_tiny by auto
      from train_loop_ok [OF t0 gt, where env = demo_env and opt = ?opt and os = "()" and acc = 0]
      obtain m1 os1 rl where
        tl: "train_loop demo_env ?opt [tiny_dataset, tiny_dataset] (?m0, (), 0) = Inr (m1, os1, rl)"
        by blast
      have "1 < length [tiny_dataset, tiny_dataset]" by simp
      from ret [THEN conjunct2, THEN conjunct1, THEN mp, OF tl, rule_format, OF this]
      show ?thesis by simp
    qed
    have r3: "\<exists>sa sb sc. train_pass demo_env ?opt ?trl 4 sa = Inr sb
          \<and> test_pass demo_env ?tel 4 sb = Inr sc"
    proof -
      have up: "\<forall>k. server_up demo_env (tracking_uri running_state) k"
        using running_state_facts(3) by blast
      from epochs_loop_ok [OF running_state_facts(1,2) t0 gl up, where opt = ?opt
          and es = "[0..<5]" and os = "()"]
      obtain s' m' os' where
        el: "epochs_loop demo_env ?opt ?trl ?tel [0..<5] (running_state, ?m0, ()) = Inr (s', m', os')"
        by blast
      have "4 \<in> set [0..<5]" by simp
      from ret [THEN conjunct2, THEN conjunct2, THEN conjunct1, THEN mp, OF el, THEN bspec, OF this]
      show ?thesis .
    qed
    have r4: "\<exists>img lbl logits predicted f p.
            getitem tiny_dataset 0 = Inr (img, lbl)
          \<and> forward (eval_mode ?m0) (unsqueeze0 img) = Inr logits
          \<and> argmax_dim1 logits = Inr predicted
          \<and> imshow (squeeze (unsqueeze0 img)) ''Greys_r'' = Inr f
          \<and> item predicted = Inr p"
    proof -
      from predict_ok [OF t0 mnist_like_tiny(2,1)] obtain fig where
        pv: "predict_and_visualize ?m0 tiny_dataset 0 = Inr (eval_mode ?m0, fig)"
        by blast
      from ret [THEN conjunct2, THEN conjunct2, THEN conjunct2, THEN conjunct1, THEN mp, OF pv]
      show ?thesis .
    qed
    from demo_script obtain nb where
      sc: "script demo_env empty_server = Inr nb" and big: "17 < requests (tracking nb)"
      by blast
    have nb: "projr (script demo_env empty_server) = nb" by (simp add: sc)
    have r5: "\<exists>s0 tr te s1 model' os' details s2 loaded fig.
            cell_tracking demo_env empty_server = Inr s0 \<and> cell_data demo_env = Inr (tr, te)
          \<and> cell_train demo_env ?opt (train_loader_of tr) (test_loader_of te)
               (SimpleNN_init (init_params demo_env), opt_init demo_env) s0
               = Inr (s1, model', os', details)
          \<and> cell_load demo_env s1 = Inr (s2, loaded)
          \<and> predict_and_visualize loaded te 0
               = Inr (loaded_model (projr (script demo_env empty_server)), fig)"
      unfolding nb
      using ret [THEN conjunct2, THEN conjunct2, THEN conjunct2, THEN conjunct2, THEN mp, OF sc] .
    have r6: "\<not> isl (script demo_env empty_server)" by (simp add: sc)
    note all = failures_propagate [THEN conjunct1, THEN conjunct2, THEN conjunct2, THEN conjunct2,
        THEN conjunct2, THEN conjunct2, THEN conjunct2, THEN mp, OF sc]
    have "requests empty_server \<le> 17 \<and> 17 < requests (tracking nb)"
      using big by (simp add: empty_server_def)
    from all [THEN conjunct1, rule_format, OF this]
    have r7: "server_up demo_env (Some ''http://localhost:5000'') 17" .
    note r8 = all [THEN conjunct2, THEN conjunct1] and r9 = all [THEN conjunct2, THEN conjunct2]
    from r1 r2 r3 r4 r5 r6 r7 r8 r9 show ?thesis by (intro o conjI)
  qed
  have part2:
    "forward (SimpleNN_init zero_params) three_numbers = Inl RuntimeError
   \<and> forward (layers (3, 128) (128, 64) (64, 10)) blank_input = Inl RuntimeError
   \<and> forward (layers (784, 128) (5, 64) (64, 10)) blank_input = Inl RuntimeError
   \<and> forward (layers (784, 128) (128, 64) (5, 10)) blank_input = Inl RuntimeError
   \<and> train_batch demo_env (SGD 0.003 0.9) [] (SimpleNN_init zero_params, ()) = Inl RuntimeError
   \<and> eval_batch (SimpleNN_init zero_params) [] = Inl RuntimeError
   \<and> train_batch demo_env (SGD 0.003 0.9) odd_dataset (SimpleNN_init zero_params, ()) = Inl RuntimeError
   \<and> eval_batch (SimpleNN_init zero_params) odd_dataset = Inl RuntimeError
   \<and> train_batch demo_env (SGD 0.003 0.9) mislabelled (SimpleNN_init zero_params, ()) = Inl IndexError
   \<and> eval_batch (SimpleNN_init zero_params) mislabelled = Inl IndexError
   \<and> train_loop demo_env (SGD 0.003 0.9) ([tiny_dataset] @ mislabelled # [tiny_dataset])
        (SimpleNN_init zero_params, (), 0) = Inl IndexError
   \<and> eval_loop (SimpleNN_init zero_params) ([tiny_dataset] @ mislabelled # [tiny_dataset]) 0
        = Inl IndexError"
  proof -
    let ?m0 = "SimpleNN_init zero_params"
    let ?opt = "SGD 0.003 0.9"
    note fwd = failures_propagate [THEN conjunct2, THEN conjunct1]
    note bat = failures_propagate [THEN conjunct2, THEN conjunct2, THEN conjunct1]
    note loop = failures_propagate [THEN conjunct2, THEN conjunct2, THEN conjunct2, THEN conjunct1]
    have t0: "topology ?m0 = [(784, 128), (128, 64), (64, 10)]" by (rule topology_init)
    have f1: "forward ?m0 three_numbers = Inl RuntimeError"
      using fwd [THEN conjunct1, THEN mp, OF view_rows_three] .
    have f2: "forward (layers (3, 128) (128, 64) (64, 10)) blank_input = Inl RuntimeError"
      using fwd [THEN conjunct2, THEN conjunct1, THEN mp, OF conjI [OF view_rows_blank layers_first_fails]] .
    have f3: "forward (layers (784, 128) (5, 64) (64, 10)) blank_input = Inl RuntimeError"
      using fwd [THEN conjunct2, THEN conjunct2, THEN conjunct1, THEN mp,
          OF conjI [OF view_rows_blank conjI [OF layers_second_fails]]] .
    have f4: "forward (layers (784, 128) (128, 64) (5, 10)) blank_input = Inl RuntimeError"
      using fwd [THEN conjunct2, THEN conjunct2, THEN conjunct2, THEN mp,
          OF conjI [OF view_rows_blank conjI [OF layers_third_fails(1) conjI [OF layers_third_fails(2,3)]]]] .
    note b1 = bat [THEN conjunct1, THEN mp, OF collate_empty]
    have b1a: "train_batch demo_env ?opt [] (?m0, ()) = Inl RuntimeError"
      by (rule b1 [THEN conjunct1])
    have b1b: "eval_batch ?m0 [] = Inl RuntimeError"
      by (rule b1 [THEN conjunct2])
    from odd_env_facts(5) obtain images where
      co: "collate odd_dataset = Inr (images, [7])" and n: "numel images = 9"
      by blast
    have fo: "forward ?m0 images = Inl RuntimeError"
      by (rule forward_rejects) (simp add: n)
    note b2 = bat [THEN conjunct2, THEN conjunct1, THEN mp, OF conjI [OF co fo]]
    have b2a: "train_batch demo_env ?opt odd_dataset (?m0, ()) = Inl RuntimeError"
      by (rule b2 [THEN conjunct1])
    have b2b: "eval_batch ?m0 odd_dataset = Inl RuntimeError"
      by (rule b2 [THEN conjunct2])
    have b3: "train_batch env opt mislabelled (m, os) = Inl IndexError
        \<and> eval_batch m mislabelled = Inl IndexError"
      if t: "topology m = [(784, 128), (128, 64), (64, 10)]" for env :: "unit env" and opt m os
    proof -
      from mislabelled_loss [OF t] obtain images logits where
        h: "collate mislabelled = Inr (images, [11]) \<and> forward m images = Inr logits
          \<and> CrossEntropyLoss logits [11] = Inl IndexError"
        by blast
      from bat [THEN conjunct2, THEN conjunct2, THEN mp, OF h] show ?thesis .
    qed
    have gt: "b \<noteq> [] \<and> mnist_like b" if "b \<in> set [tiny_dataset]" for b
      using that mnist_like_tiny by simp
    from train_loop_ok [OF t0 gt, where env = demo_env and opt = ?opt and os = "()" and acc = 0]
    obtain m1 os1 rl where
      tl: "train_loop demo_env ?opt [tiny_dataset] (?m0, (), 0) = Inr (m1, os1, rl)"
      and t1: "topology m1 = [(784, 128), (128, 64), (64, 10)]"
      by blast
    have l1: "train_loop demo_env ?opt ([tiny_dataset] @ mislabelled # [tiny_dataset]) (?m0, (), 0)
        = Inl IndexError"
      using loop [THEN conjunct1, THEN mp, OF conjI [OF tl b3 [OF t1, THEN conjunct1]]] .
    from eval_loop_ok [OF t0 gt, where acc = 0] obtain tv where
      el: "eval_loop ?m0 [tiny_dataset] 0 = Inr tv"
      by blast
    have l2: "eval_loop ?m0 ([tiny_dataset] @ mislabelled # [tiny_dataset]) 0 = Inl IndexError"
      using loop [THEN conjunct2, THEN mp, OF conjI [OF el b3 [OF t0, THEN conjunct2]]] .
    note b3a = b3 [OF t0, of demo_env ?opt "()"]
    from f1 f2 f3 f4 b1a b1b b2a b2b b3a [THEN conjunct1] b3a [THEN conjunct2] l1 l2
    show ?thesis by (intro conjI)
  qed
  have part3:
    "train_pass demo_env (SGD 0.003 0.9) (train_loader_of mislabelled) 0
      (running_state, SimpleNN_init zero_params, ()) = Inl (IndexError, running_state)
   \<and> train_pass demo_env (SGD 0.003 0.9) (train_loader_of []) 0
      (running_state, SimpleNN_init zero_params, ()) = Inl (ZeroDivisionError, running_state)
   \<and> train_pass down_env (SGD 0.003 0.9) (train_loader_of tiny_dataset) 0
      (running_state, SimpleNN_init zero_params, ()) = Inl (ConnectionError, running_state)
   \<and> test_pass demo_env (test_loader_of mislabelled) 0
      (running_state, SimpleNN_init zero_params, ()) = Inl (IndexError, running_state)
   \<and> test_pass demo_env (test_loader_of []) 0
      (running_state, SimpleNN_init zero_params, ()) = Inl (ZeroDivisionError, running_state)
   \<and> test_pass down_env (test_loader_of tiny_dataset) 0
      (running_state, SimpleNN_init zero_params, ()) = Inl (ConnectionError, running_state)
   \<and> epoch demo_env (SGD 0.003 0.9) (train_loader_of mislabelled) (test_loader_of tiny_dataset) 0
      (running_state, SimpleNN_init zero_params, ()) = Inl (IndexError, running_state)
   \<and> fst (projl (epoch demo_env (SGD 0.003 0.9) (train_loader_of tiny_dataset)
        (test_loader_of mislabelled) 0 (running_state, SimpleNN_init zero_params, ()))) = IndexError"
  proof -
    let ?m0 = "SimpleNN_init zero_params"
    let ?opt = "SGD 0.003 0.9"
    note bat = failures_propagate [THEN conjunct2, THEN conjunct2, THEN conjunct1]
    note loop = failures_propagate [THEN conjunct2, THEN conjunct2, THEN conjunct2, THEN conjunct1]
    note pass = failures_propagate [THEN conjunct2, THEN conjunct2, THEN conjunct2, THEN conjunct2,
        THEN conjunct1]
    note epo = failures_propagate [THEN conjunct2, THEN conjunct2, THEN conjunct2, THEN conjunct2,
        THEN conjunct2, THEN conjunct1]
    note trk = failures_propagate [THEN conjunct2, THEN conjunct2, THEN conjunct2, THEN conjunct2,
        THEN conjunct2, THEN conjunct2, THEN conjunct2, THEN conjunct2, THEN conjunct2,
        THEN conjunct2, THEN conjunct1]
    have t0: "topology ?m0 = [(784, 128), (128, 64), (64, 10)]" by (rule topology_init)
    have tt: "topology (train_mode ?m0) = [(784, 128), (128, 64), (64, 10)]"
      by (simp add: topology_train_mode topology_init)
    have b3: "train_batch env opt mislabelled (m, os) = Inl IndexError
        \<and> eval_batch m mislabelled = Inl IndexError"
      if t: "topology m = [(784, 128), (128, 64), (64, 10)]" for env :: "unit env" and opt m os
    proof -
      from mislabelled_loss [OF t] obtain images logits where
        h: "collate mislabelled = Inr (images, [11]) \<and> forward m images = Inr logits
          \<and> CrossEntropyLoss logits [11] = Inl IndexError"
        by blast
      from bat [THEN conjunct2, THEN conjunct2, THEN mp, OF h] show ?thesis .
    qed
    have tl_bad: "train_loop env opt [mislabelled] (m, os, acc) = Inl IndexError"
      if t: "topology m = [(784, 128), (128, 64), (64, 10)]" for env :: "unit env" and opt m os acc
    proof -
      have "train_loop env opt [] (m, os, acc) = Inr (m, os, acc)" by simp
      from loop [THEN conjunct1, THEN mp, OF conjI [OF this b3 [OF t, THEN conjunct1]], of "[]"]
      show ?thesis by simp
    qed
    have el_bad: "eval_loop m [mislabelled] acc = Inl IndexError"
      if t: "topology m = [(784, 128), (128, 64), (64, 10)]" for m acc
    proof -
      have "eval_loop m [] acc = Inr acc" by simp
      from loop [THEN conjunct2, THEN mp, OF conjI [OF this b3 [OF t, THEN conjunct2]], of "[]"]
      show ?thesis by simp
    qed
    have p1: "train_pass demo_env ?opt (train_loader_of mislabelled) 0 (running_state, ?m0, ())
        = Inl (IndexError, running_state)"
    proof -
      have "train_loop demo_env ?opt (batches (train_loader_of mislabelled) (rng demo_env 0))
          (train_mode ?m0, (), 0) = Inl IndexError"
        unfolding batches_datasets by (rule tl_bad [OF tt])
      from pass [THEN conjunct1, THEN mp, OF this] show ?thesis .
    qed
    have p2: "train_pass demo_env ?opt (train_loader_of []) 0 (running_state, ?m0, ())
        = Inl (ZeroDivisionError, running_state)"
    proof -
      have "train_loop demo_env ?opt (batches (train_loader_of []) (rng demo_env 0))
          (train_mode ?m0, (), 0) = Inr (train_mode ?m0, (), 0)
          \<and> len_loader (train_loader_of []) = 0"
        by (simp add: batches_single)
      from pass [THEN conjunct2, THEN conjunct1, THEN mp, OF this] show ?thesis .
    qed
    have gt: "b \<noteq> [] \<and> mnist_like b" if "b \<in> set [tiny_dataset]" for b
      using that mnist_like_tiny by simp
    note down = trk [THEN mp, OF down_env_running]
    have p3: "train_pass down_env ?opt (train_loader_of tiny_dataset) 0 (running_state, ?m0, ())
        = Inl (ConnectionError, running_state)"
    proof -
      from train_loop_ok [OF tt gt, where env = down_env and opt = ?opt and os = "()" and acc = 0]
      obtain m1 os1 rl where
        tl: "train_loop down_env ?opt [tiny_dataset] (train_mode ?m0, (), 0) = Inr (m1, os1, rl)"
        by blast
      have lm: "log_metric down_env ''average_train_loss''
          (rl / real (len_loader (train_loader_of tiny_dataset))) 0 running_state
          = Inl (ConnectionError, running_state)"
        by (rule down [THEN conjunct2, THEN conjunct2, THEN conjunct2, THEN conjunct1])
      have "train_loop down_env ?opt (batches (train_loader_of tiny_dataset) (rng down_env 0))
          (train_mode ?m0, (), 0) = Inr (m1, os1, rl)
          \<and> len_loader (train_loader_of tiny_dataset) \<noteq> 0
          \<and> log_metric down_env ''average_train_loss''
          (rl / real (len_loader (train_loader_of tiny_dataset))) 0 running_state
          = Inl (ConnectionError, running_state)"
        unfolding batches_datasets(3) using tl batches_datasets(5) lm by (intro conjI)
      from pass [THEN conjunct2, THEN conjunct2, THEN conjunct1, THEN mp, OF this] show ?thesis .
    qed
    have te: "topology (eval_mode m) = [(784, 128), (128, 64), (64, 10)]"
      if "topology m = [(784, 128), (128, 64), (64, 10)]" for m
      using that by (simp add: topology_eval_mode)
    have p4: "test_pass env (test_loader_of mislabelled) 0 (s, m, os) = Inl (IndexError, s)"
      if t: "topology m = [(784, 128), (128, 64), (64, 10)]" for env :: "unit env" and s m os
    proof -
      have "eval_loop (eval_mode m) (batches (test_loader_of mislabelled) (rng env 0)) 0
          = Inl IndexError"
        unfolding batches_datasets by (rule el_bad [OF te [OF t]])
      from pass [THEN conjunct2, THEN conjunct2, THEN conjunct2, THEN conjunct1, THEN mp, OF this]
      show ?thesis .
    qed
    have p5: "test_pass demo_env (test_loader_of []) 0 (running_state, ?m0, ())
        = Inl (ZeroDivisionError, running_state)"
    proof -
      have "eval_loop (eval_mode ?m0) (batches (test_loader_of []) (rng demo_env 0)) 0 = Inr 0
          \<and> len_loader (test_loader_of []) = 0"
        by (simp add: batches_single)
      from pass [THEN conjunct2, THEN conjunct2, THEN conjunct2, THEN conjunct2, THEN conjunct1,
          THEN mp, OF this]
      show ?thesis .
    qed
    have p6: "test_pass down_env (test_loader_of tiny_dataset) 0 (running_state, ?m0, ())
        = Inl (ConnectionError, running_state)"
    proof -
      from eval_loop_ok [OF te [OF t0] gt, where acc = 0] obtain tv where
        el: "eval_loop (eval_mode ?m0) [tiny_dataset] 0 = Inr tv"
        by blast
      have lm: "log_metric down_env ''average_test_loss''
          (tv / real (len_loader (test_loader_of tiny_dataset))) 0 running_state
          = Inl (ConnectionError, running_state)"
        by (rule down [THEN conjunct2, THEN conjunct2, THEN conjunct2, THEN conjunct1])
      have "eval_loop (eval_mode ?m0) (batches (test_loader_of tiny_dataset) (rng down_env 0)) 0
          = Inr tv
          \<and> len_loader (test_loader_of tiny_dataset) \<noteq> 0
          \<and> log_metric down_env ''average_test_loss''
          (tv / real (len_loader (test_loader_of tiny_dataset))) 0 running_state
          = Inl (ConnectionError, running_state)"
        unfolding batches_datasets(4) using el batches_datasets(6) lm by (intro conjI)
      from pass [THEN conjunct2, THEN conjunct2, THEN conjunct2, THEN conjunct2, THEN conjunct2,
          THEN mp, OF this]
      show ?thesis .
    qed
    have e1: "epoch demo_env ?opt (train_loader_of mislabelled) (test_loader_of tiny_dataset) 0
        (running_state, ?m0, ()) = Inl (IndexError, running_state)"
      using epo [THEN conjunct1, THEN mp, OF p1] .
    have e2: "fst (projl (epoch demo_env ?opt (train_loader_of tiny_dataset)
          (test_loader_of mislabelled) 0 (running_state, ?m0, ()))) = IndexError"
    proof -
      from train_pass_ok [OF running_state_facts(1,2) t0 good_train_loader [OF mnist_like_tiny]
          running_state_facts(3), where e = 0 and os = "()" and opt = ?opt]
      obtain s1 m1 os1 where
        tp: "train_pass demo_env ?opt (train_loader_of tiny_dataset) 0 (running_state, ?m0, ())
          = Inr (s1, m1, os1)"
        and t1: "topology m1 = [(784, 128), (128, 64), (64, 10)]"
        by blast
      from epo [THEN conjunct2, THEN conjunct1, THEN mp, OF conjI [OF tp p4 [OF t1]]]
      have "epoch demo_env ?opt (train_loader_of tiny_dataset) (test_loader_of mislabelled) 0
          (running_state, ?m0, ()) = Inl (IndexError, s1)" .
      then show ?thesis by simp
    qed
    from p1 p2 p3 p4 [OF t0, of demo_env running_state "()"] p5 p6 e1 e2
    show ?thesis by (intro conjI)
  qed
  have part4:
    "predict_and_visualize (SimpleNN_init zero_params) tiny_dataset (- 2) = Inl IndexError
   \<and> predict_and_visualize (SimpleNN_init zero_params) odd_dataset 0 = Inl RuntimeError
   \<and> predict_and_visualize (layers (784, 128) (128, 64) (64, 0)) tiny_dataset 0 = Inl IndexError
   \<and> predict_and_visualize (SimpleNN_init zero_params) flat_dataset 0 = Inl TypeError
   \<and> predict_and_visualize (SimpleNN_init zero_params) tall_dataset 0 = Inl RuntimeError
   \<and> set_experiment down_env ''mnist_pytorch_experiment'' fresh_state
        = Inl (ConnectionError, fresh_state)
   \<and> start_run down_env fresh_state = Inl (ConnectionError, fresh_state)
   \<and> log_param down_env ''learning_rate'' 0.003 running_state = Inl (ConnectionError, running_state)
   \<and> log_metric down_env ''average_test_loss'' 1 0 running_state
        = Inl (ConnectionError, running_state)
   \<and> log_model down_env (SimpleNN_init zero_params) ''mnist_model'' running_state
        = Inl (ConnectionError, running_state)
   \<and> register_model down_env (RunsUri 0 ''mnist_model'') ''MNISTModel'' running_state
        = Inl (ConnectionError, running_state)
   \<and> load_model down_env (ModelsUri ''MNISTModel'' 1) fresh_state
        = Inl (ConnectionError, fresh_state)
   \<and> end_run down_env FINISHED running_state = Inl (ConnectionError, running_state)"
  proof -
    let ?m0 = "SimpleNN_init zero_params"
    note prd = failures_propagate [THEN conjunct2, THEN conjunct2, THEN conjunct2, THEN conjunct2,
        THEN conjunct2, THEN conjunct2, THEN conjunct2, THEN conjunct2, THEN conjunct2,
        THEN conjunct1]
    note trk = failures_propagate [THEN conjunct2, THEN conjunct2, THEN conjunct2, THEN conjunct2,
        THEN conjunct2, THEN conjunct2, THEN conjunct2, THEN conjunct2, THEN conjunct2,
        THEN conjunct2, THEN conjunct1]
    have "getitem tiny_dataset (- 2) = Inl IndexError"
      by (rule getitem_out_of_range) (simp add: tiny_dataset_def)
    from prd [THEN conjunct1, THEN mp, OF this]
    have q1: "predict_and_visualize ?m0 tiny_dataset (- 2) = Inl IndexError" .
    from odd_steps obtain img2 where
      h2: "getitem odd_dataset 0 = Inr (img2, 7)
        \<and> forward (eval_mode ?m0) (unsqueeze0 img2) = Inl RuntimeError"
      by blast
    from prd [THEN conjunct2, THEN conjunct1, THEN mp, OF h2]
    have q2: "predict_and_visualize ?m0 odd_dataset 0 = Inl RuntimeError" .
    have g3: "getitem tiny_dataset 0 = Inr (transform blank_image, 7)"
      unfolding tiny_dataset_def by (rule getitem_first)
    from no_classes_logits obtain y3 where
      "forward (eval_mode (layers (784, 128) (128, 64) (64, 0)))
            (unsqueeze0 (transform blank_image)) = Inr y3"
      "argmax_dim1 y3 = Inl IndexError"
      by blast
    with g3 have h3: "getitem tiny_dataset 0 = Inr (transform blank_image, 7)
        \<and> forward (eval_mode (layers (784, 128) (128, 64) (64, 0)))
            (unsqueeze0 (transform blank_image)) = Inr y3
        \<and> argmax_dim1 y3 = Inl IndexError"
      by (intro conjI)
    from prd [THEN conjunct2, THEN conjunct2, THEN conjunct1, THEN mp, OF h3]
    have q3: "predict_and_visualize (layers (784, 128) (128, 64) (64, 0)) tiny_dataset 0
        = Inl IndexError" .
    from flat_steps obtain img4 y4 pr4 where
      h4: "getitem flat_dataset 0 = Inr (img4, 7)
        \<and> forward (eval_mode ?m0) (unsqueeze0 img4) = Inr y4
        \<and> argmax_dim1 y4 = Inr pr4
        \<and> imshow (squeeze (unsqueeze0 img4)) ''Greys_r'' = Inl TypeError"
      by blast
    from prd [THEN conjunct2, THEN conjunct2, THEN conjunct2, THEN conjunct1, THEN mp, OF h4]
    have q4: "predict_and_visualize ?m0 flat_dataset 0 = Inl TypeError" .
    from tall_steps obtain img5 y5 pr5 fig5 where
      h5: "getitem tall_dataset 0 = Inr (img5, 7)
        \<and> forward (eval_mode ?m0) (unsqueeze0 img5) = Inr y5
        \<and> argmax_dim1 y5 = Inr pr5
        \<and> imshow (squeeze (unsqueeze0 img5)) ''Greys_r'' = Inr fig5
        \<and> item pr5 = Inl RuntimeError"
      by blast
    from prd [THEN conjunct2, THEN conjunct2, THEN conjunct2, THEN conjunct2, THEN mp, OF h5]
    have q5: "predict_and_visualize ?m0 tall_dataset 0 = Inl RuntimeError" .
    note dr = trk [THEN mp, OF down_env_running]
    note df = trk [THEN mp, OF down_env_fresh(1)]
    have k1: "set_experiment down_env ''mnist_pytorch_experiment'' fresh_state
          = Inl (ConnectionError, fresh_state)"
      by (rule df [THEN conjunct1])
    have k2: "start_run down_env fresh_state = Inl (ConnectionError, fresh_state)"
      by (rule df [THEN conjunct2, THEN conjunct1, THEN mp, OF down_env_fresh(2)])
    have k3: "log_param down_env ''learning_rate'' 0.003 running_state
        = Inl (ConnectionError, running_state)"
      by (rule dr [THEN conjunct2, THEN conjunct2, THEN conjunct1])
    have k4: "log_metric down_env ''average_test_loss'' 1 0 running_state
          = Inl (ConnectionError, running_state)"
      by (rule dr [THEN conjunct2, THEN conjunct2, THEN conjunct2, THEN conjunct1])
    have k5: "log_model down_env ?m0 ''mnist_model'' running_state
          = Inl (ConnectionError, running_state)"
      by (rule dr [THEN conjunct2, THEN conjunct2, THEN conjunct2, THEN conjunct2, THEN conjunct1])
    have k6: "register_model down_env (RunsUri 0 ''mnist_model'') ''MNISTModel'' running_state
          = Inl (ConnectionError, running_state)"
      by (rule dr [THEN conjunct2, THEN conjunct2, THEN conjunct2, THEN conjunct2, THEN conjunct2,
            THEN conjunct1])
    have k7: "load_model down_env (ModelsUri ''MNISTModel'' 1) fresh_state
          = Inl (ConnectionError, fresh_state)"
      by (rule df [THEN conjunct2, THEN conjunct2, THEN conjunct2, THEN conjunct2, THEN conjunct2,
            THEN conjunct2, THEN conjunct1])
    have k8: "end_run down_env FINISHED running_state = Inl (ConnectionError, running_state)"
      by (rule dr [THEN conjunct2, THEN conjunct2, THEN conjunct2, THEN conjunct2, THEN conjunct2,
            THEN conjunct2, THEN conjunct2, THEN mp, OF down_env_fresh(3)])
    from q1 q2 q3 q4 q5 k1 k2 k3 k4 k5 k6 k7 k8 show ?thesis by (intro conjI)
  qed
  have part5:
    "training_body down_env (SGD 0.003 0.9) (train_loader_of tiny_dataset) (test_loader_of tiny_dataset)
      (SimpleNN_init zero_params, ()) 0 running_state = Inl (ConnectionError, running_state)
   \<and> fst (projl (training_body (flaky_env 4) (SGD 0.003 0.9) (train_loader_of tiny_dataset)
        (test_loader_of tiny_dataset) (SimpleNN_init zero_params, ()) 0 running_state))
      = ConnectionError
   \<and> map fst (params_of (last (runs (snd (projl (training_body (flaky_env 4) (SGD 0.003 0.9)
        (train_loader_of tiny_dataset) (test_loader_of tiny_dataset)
        (SimpleNN_init zero_params, ()) 0 running_state)))))) = [''learning_rate'']
   \<and> fst (projl (training_body demo_env (SGD 0.003 0.9) (train_loader_of tiny_dataset)
        (test_loader_of mislabelled) (SimpleNN_init zero_params, ()) 0 running_state))
      = IndexError
   \<and> fst (projl (training_body (flaky_env 15) (SGD 0.003 0.9) (train_loader_of tiny_dataset)
        (test_loader_of tiny_dataset) (SimpleNN_init zero_params, ()) 0 running_state))
      = ConnectionError
   \<and> artifacts_of (last (runs (snd (projl (training_body (flaky_env 15) (SGD 0.003 0.9)
        (train_loader_of tiny_dataset) (test_loader_of tiny_dataset)
        (SimpleNN_init zero_params, ()) 0 running_state))))) = []
   \<and> fst (projl (training_body (flaky_env 16) (SGD 0.003 0.9) (train_loader_of tiny_dataset)
        (test_loader_of tiny_dataset) (SimpleNN_init zero_params, ()) 0 running_state))
      = ConnectionError
   \<and> map fst (artifacts_of (last (runs (snd (projl (training_body (flaky_env 16) (SGD 0.003 0.9)
        (train_loader_of tiny_dataset) (test_loader_of tiny_dataset)
        (SimpleNN_init zero_params, ()) 0 running_state)))))) = [''mnist_model'']"
  proof -
    let ?m0 = "SimpleNN_init zero_params"
    let ?opt = "SGD 0.003 0.9"
    let ?trl = "train_loader_of tiny_dataset"
    let ?tel = "test_loader_of tiny_dataset"
    let ?bad = "test_loader_of mislabelled"
    let ?R0 = "\<lparr>experiment_of = ''mnist_pytorch_experiment'', status = RUNNING,
                 params_of = [], metrics_of = [], artifacts_of = []\<rparr>"
    let ?R1 = "?R0\<lparr>params_of := [(''learning_rate'', 0.003)]\<rparr>"
    let ?R2 = "?R0\<lparr>params_of := [(''learning_rate'', 0.003), (''momentum'', 0.003)]\<rparr>"
    let ?S1 = "running_state\<lparr>requests := Suc (requests running_state), runs := [] @ [?R1]\<rparr>"
    let ?S2 = "running_state\<lparr>requests := Suc (Suc (requests running_state)), runs := [] @ [?R2]\<rparr>"
    note bat = failures_propagate [THEN conjunct2, THEN conjunct2, THEN conjunct1]
    note loop = failures_propagate [THEN conjunct2, THEN conjunct2, THEN conjunct2, THEN conjunct1]
    note pass = failures_propagate [THEN conjunct2, THEN conjunct2, THEN conjunct2, THEN conjunct2,
        THEN conjunct1]
    note epo = failures_propagate [THEN conjunct2, THEN conjunct2, THEN conjunct2, THEN conjunct2,
        THEN conjunct2, THEN conjunct1]
    note body = failures_propagate [THEN conjunct2, THEN conjunct2, THEN conjunct2, THEN conjunct2,
        THEN conjunct2, THEN conjunct2, THEN conjunct1]
    note trk = failures_propagate [THEN conjunct2, THEN conjunct2, THEN conjunct2, THEN conjunct2,
        THEN conjunct2, THEN conjunct2, THEN conjunct2, THEN conjunct2, THEN conjunct2,
        THEN conjunct2, THEN conjunct1]
    note a = running_state_facts(1) and r = running_state_facts(2) and p = running_state_fields(3)
    have t0: "topology ?m0 = [(784, 128), (128, 64), (64, 10)]" by (rule topology_init)
    have gl: "good_loader ?trl" "good_loader ?tel"
      by (simp_all add: good_train_loader good_test_loader mnist_like_tiny)
    have a2: "active_run ?S2 = Some (length ([] :: run list))" and r2: "runs ?S2 = [] @ [?R2]"
      by (simp_all add: running_state_def)
    have "log_param down_env ''learning_rate'' 0.003 running_state
        = Inl (ConnectionError, running_state)"
      by (rule trk [THEN mp, OF down_env_running, THEN conjunct2, THEN conjunct2, THEN conjunct1])
    from body [THEN conjunct1, THEN mp, OF this]
    have b1: "training_body down_env ?opt ?trl ?tel (?m0, ()) 0 running_state
        = Inl (ConnectionError, running_state)" .
    have b2: "training_body (flaky_env 4) ?opt ?trl ?tel (?m0, ()) 0 running_state
        = Inl (ConnectionError, ?S1)"
    proof -
      have up0: "server_up (flaky_env 4) (tracking_uri running_state) (requests running_state)"
        by (simp add: flaky_env_up running_state_fields)
      note lp1 = log_params_ok(1) [OF a r p up0]
      have "\<not> server_up (flaky_env 4) (tracking_uri ?S1) (requests ?S1)"
        by (simp add: flaky_env_up running_state_fields)
      from trk [THEN mp, OF this, THEN conjunct2, THEN conjunct2, THEN conjunct1]
      have "log_param (flaky_env 4) ''momentum'' 0.003 ?S1 = Inl (ConnectionError, ?S1)" .
      from body [THEN conjunct2, THEN conjunct1, THEN mp, OF conjI [OF lp1 this]]
      show ?thesis .
    qed
    have b2a: "fst (projl (training_body (flaky_env 4) ?opt ?trl ?tel (?m0, ()) 0 running_state))
        = ConnectionError"
      and b2b: "map fst (params_of (last (runs (snd (projl (training_body (flaky_env 4) ?opt ?trl
          ?tel (?m0, ()) 0 running_state)))))) = [''learning_rate'']"
      unfolding b2 by simp_all
    have b3: "fst (projl (training_body demo_env ?opt ?trl ?bad (?m0, ()) 0 running_state))
        = IndexError"
    proof -
      have up0: "server_up demo_env (tracking_uri running_state) (requests running_state)"
        and up1: "server_up demo_env (tracking_uri running_state) (Suc (requests running_state))"
        by (rule running_state_facts(3))+
      note lp1 = log_params_ok(1) [OF a r p up0]
      note lp2 = log_params_ok(2) [OF a r p up0 up1]
      have up2: "server_up demo_env (tracking_uri ?S2) (requests ?S2)"
        by (simp add: running_state_def demo_env_def)
      from train_pass_ok [OF a2 r2 t0 gl(1) up2, where e = 0 and os = "()" and opt = ?opt]
      obtain s1 m1 os1 where
        tp: "train_pass demo_env ?opt ?trl 0 (?S2, ?m0, ()) = Inr (s1, m1, os1)"
        and t1: "topology m1 = [(784, 128), (128, 64), (64, 10)]"
        by blast
      from mislabelled_loss [of "eval_mode m1"] t1 obtain images logits where
        h: "collate mislabelled = Inr (images, [11]) \<and> forward (eval_mode m1) images = Inr logits
          \<and> CrossEntropyLoss logits [11] = Inl IndexError"
        by (auto simp: topology_eval_mode)
      note eb = bat [THEN conjunct2, THEN conjunct2, THEN mp, OF h, THEN conjunct2]
      have "eval_loop (eval_mode m1) [] 0 = Inr 0" by simp
      from loop [THEN conjunct2, THEN mp, OF conjI [OF this eb], of "[]"]
      have "eval_loop (eval_mode m1) (batches ?bad (rng demo_env 0)) 0 = Inl IndexError"
        by (simp add: batches_datasets)
      from pass [THEN conjunct2, THEN conjunct2, THEN conjunct2, THEN conjunct1, THEN mp, OF this]
      have "test_pass demo_env ?bad 0 (s1, m1, os1) = Inl (IndexError, s1)" .
      from epo [THEN conjunct2, THEN conjunct1, THEN mp, OF conjI [OF tp this]]
      have ep: "epoch demo_env ?opt ?trl ?bad 0 (?S2, ?m0, ()) = Inl (IndexError, s1)" .
      have "epochs_loop demo_env ?opt ?trl ?bad [] (?S2, ?m0, ()) = Inr (?S2, ?m0, ())" by simp
      from epo [THEN conjunct2, THEN conjunct2, THEN mp, OF conjI [OF this ep], of "[1, 2, 3, 4]"]
      have "epochs_loop demo_env ?opt ?trl ?bad [0..<5] (?S2, fst (?m0, ()), snd (?m0, ()))
          = Inl (IndexError, s1)"
        unfolding upt_5 by (simp only: fst_conv snd_conv)
      from body [THEN conjunct2, THEN conjunct2, THEN conjunct1, THEN mp,
          OF conjI [OF lp1 conjI [OF lp2 this]]]
      have "training_body demo_env ?opt ?trl ?bad (?m0, ()) 0 running_state = Inl (IndexError, s1)" .
      then show ?thesis by simp
    qed
    have late: "\<exists>s3 m' os'.
          log_param (flaky_env n) ''learning_rate'' 0.003 running_state = Inr ?S1
        \<and> log_param (flaky_env n) ''momentum'' 0.003 ?S1 = Inr ?S2
        \<and> epochs_loop (flaky_env n) ?opt ?trl ?tel [0..<5] (?S2, fst (?m0, ()), snd (?m0, ()))
            = Inr (s3, m', os')
        \<and> active_run s3 = Some (length ([] :: run list))
        \<and> (\<exists>ms. runs s3 = [] @ [?R2\<lparr>metrics_of := metrics_of ?R2 @ ms\<rparr>])
        \<and> requests s3 = 15 \<and> tracking_uri s3 = Some ''http://localhost:5000''"
      if n: "15 \<le> n" for n
    proof -
      have up0: "server_up (flaky_env n) (tracking_uri running_state) (requests running_state)"
        and up1: "server_up (flaky_env n) (tracking_uri running_state) (Suc (requests running_state))"
        using n by (simp_all add: flaky_env_up running_state_fields)
      note lp1 = log_params_ok(1) [OF a r p up0]
      note lp2 = log_params_ok(2) [OF a r p up0 up1]
      have ups: "\<forall>k < 2 * length [0..<5::nat].
          server_up (flaky_env n) (tracking_uri ?S2) (requests ?S2 + k)"
        using n by (simp add: flaky_env_up running_state_fields)
      from epochs_loop_ok2 [OF a2 r2 t0 gl ups, where opt = ?opt and os = "()"]
      obtain s3 m' os' where
        el: "epochs_loop (flaky_env n) ?opt ?trl ?tel [0..<5] (?S2, ?m0, ()) = Inr (s3, m', os')"
        by blast
      from epochs_loop_Inr [OF a2 r2 el] obtain ms where
        s3: "s3 = ?S2\<lparr>requests := requests ?S2 + 2 * length [0..<5::nat],
                 runs := [] @ [?R2\<lparr>metrics_of := metrics_of ?R2 @ ms\<rparr>]\<rparr>"
        by blast
      have f: "active_run s3 = Some (length ([] :: run list))"
        "runs s3 = [] @ [?R2\<lparr>metrics_of := metrics_of ?R2 @ ms\<rparr>]"
        "requests s3 = 15" "tracking_uri s3 = Some ''http://localhost:5000''"
        unfolding s3 by (simp_all add: running_state_def)
      have el': "epochs_loop (flaky_env n) ?opt ?trl ?tel [0..<5] (?S2, fst (?m0, ()), snd (?m0, ()))
            = Inr (s3, m', os')"
        using el by (simp only: fst_conv snd_conv)
      from lp1 lp2 el' f show ?thesis by blast
    qed
    have b4: "fst (projl (training_body (flaky_env 15) ?opt ?trl ?tel (?m0, ()) 0 running_state))
        = ConnectionError
      \<and> artifacts_of (last (runs (snd (projl (training_body (flaky_env 15) ?opt ?trl ?tel
          (?m0, ()) 0 running_state))))) = []"
    proof -
      from late [of 15] obtain s3 m' os' ms where
        lp1: "log_param (flaky_env 15) ''learning_rate'' 0.003 running_state = Inr ?S1"
        and lp2: "log_param (flaky_env 15) ''momentum'' 0.003 ?S1 = Inr ?S2"
        and el: "epochs_loop (flaky_env 15) ?opt ?trl ?tel [0..<5] (?S2, fst (?m0, ()), snd (?m0, ()))
            = Inr (s3, m', os')"
        and f: "runs s3 = [] @ [?R2\<lparr>metrics_of := metrics_of ?R2 @ ms\<rparr>]"
          "requests s3 = 15" "tracking_uri s3 = Some ''http://localhost:5000''"
        by auto
      have "\<not> server_up (flaky_env 15) (tracking_uri s3) (requests s3)"
        by (simp add: flaky_env_up f)
      from trk [THEN mp, OF this, THEN conjunct2, THEN conjunct2, THEN conjunct2, THEN conjunct2,
          THEN conjunct1]
      have "log_model (flaky_env 15) m' ''mnist_model'' s3 = Inl (ConnectionError, s3)" .
      from body [THEN conjunct2, THEN conjunct2, THEN conjunct2, THEN conjunct1, THEN mp,
          OF conjI [OF lp1 conjI [OF lp2 conjI [OF el this]]]]
      have "training_body (flaky_env 15) ?opt ?trl ?tel (?m0, ()) 0 running_state
          = Inl (ConnectionError, s3)" .
      then show ?thesis by (simp add: f)
    qed
    have b5: "fst (projl (training_body (flaky_env 16) ?opt ?trl ?tel (?m0, ()) 0 running_state))
        = ConnectionError
      \<and> map fst (artifacts_of (last (runs (snd (projl (training_body (flaky_env 16) ?opt ?trl ?tel
          (?m0, ()) 0 running_state)))))) = [''mnist_model'']"
    proof -
      from late [of 16] obtain s3 m' os' ms where
        lp1: "log_param (flaky_env 16) ''learning_rate'' 0.003 running_state = Inr ?S1"
        and lp2: "log_param (flaky_env 16) ''momentum'' 0.003 ?S1 = Inr ?S2"
        and el: "epochs_loop (flaky_env 16) ?opt ?trl ?tel [0..<5] (?S2, fst (?m0, ()), snd (?m0, ()))
            = Inr (s3, m', os')"
        and f: "active_run s3 = Some (length ([] :: run list))"
          "runs s3 = [] @ [?R2\<lparr>metrics_of := metrics_of ?R2 @ ms\<rparr>]"
          "requests s3 = 15" "tracking_uri s3 = Some ''http://localhost:5000''"
        by auto
      let ?R3 = "?R2\<lparr>metrics_of := metrics_of ?R2 @ ms\<rparr>"
      let ?s4 = "s3\<lparr>requests := Suc (requests s3),
          runs := [] @ [?R3\<lparr>artifacts_of := (''mnist_model'', m') # artifacts_of ?R3\<rparr>]\<rparr>"
      have lm: "log_model (flaky_env 16) m' ''mnist_model'' s3 = Inr ?s4"
        by (subst log_model_last [OF f(1,2)]) (simp add: flaky_env_up f)
      have "\<not> server_up (flaky_env 16) (tracking_uri ?s4) (requests ?s4)"
        by (simp add: flaky_env_up f)
      from trk [THEN mp, OF this, THEN conjunct2, THEN conjunct2, THEN conjunct2, THEN conjunct2,
          THEN conjunct2, THEN conjunct1]
      have "register_model (flaky_env 16) (RunsUri 0 ''mnist_model'') ''MNISTModel'' ?s4
          = Inl (ConnectionError, ?s4)" .
      from body [THEN conjunct2, THEN conjunct2, THEN conjunct2, THEN conjunct2, THEN mp,
          OF conjI [OF lp1 conjI [OF lp2 conjI [OF el conjI [OF lm this]]]]]
      have "training_body (flaky_env 16) ?opt ?trl ?tel (?m0, ()) 0 running_state
          = Inl (ConnectionError, ?s4)" .
      then show ?thesis by simp
    qed
    from b1 b2a b2b b3 b4 [THEN conjunct1] b4 [THEN conjunct2] b5 [THEN conjunct1] b5 [THEN conjunct2]
    show ?thesis by (intro conjI)
  qed
  have part6:
    "cell_train down_env (SGD 0.003 0.9) (train_loader_of tiny_dataset) (test_loader_of tiny_dataset)
      (SimpleNN_init zero_params, ()) fresh_state = Inl (ConnectionError, fresh_state)
   \<and> fst (projl (cell_train demo_env (SGD 0.003 0.9) (train_loader_of mislabelled)
        (test_loader_of tiny_dataset) (SimpleNN_init zero_params, ()) fresh_state)) = IndexError
   \<and> map status (runs (snd (projl (cell_train demo_env (SGD 0.003 0.9) (train_loader_of mislabelled)
        (test_loader_of tiny_dataset) (SimpleNN_init zero_params, ()) fresh_state)))) = [FAILED]
   \<and> fst (projl (cell_train (flaky_env 1) (SGD 0.003 0.9) (train_loader_of tiny_dataset)
        (test_loader_of tiny_dataset) (SimpleNN_init zero_params, ()) fresh_state)) = ConnectionError
   \<and> map status (runs (snd (projl (cell_train (flaky_env 1) (SGD 0.003 0.9)
        (train_loader_of tiny_dataset) (test_loader_of tiny_dataset)
        (SimpleNN_init zero_params, ()) fresh_state)))) = [RUNNING]
   \<and> fst (projl (cell_train (flaky_env 15) (SGD 0.003 0.9) (train_loader_of tiny_dataset)
        (test_loader_of tiny_dataset) (SimpleNN_init zero_params, ()) fresh_state)) = ConnectionError
   \<and> map status (runs (snd (projl (cell_train (flaky_env 15) (SGD 0.003 0.9)
        (train_loader_of tiny_dataset) (test_loader_of tiny_dataset)
        (SimpleNN_init zero_params, ()) fresh_state)))) = [RUNNING]
   \<and> map fst (artifacts_of (last (runs (snd (projl (cell_train (flaky_env 15) (SGD 0.003 0.9)
        (train_loader_of tiny_dataset) (test_loader_of tiny_dataset)
        (SimpleNN_init zero_params, ()) fresh_state)))))) = [''mnist_model'']"
  proof -
    let ?m0 = "SimpleNN_init zero_params"
    let ?opt = "SGD 0.003 0.9"
    let ?trl = "train_loader_of tiny_dataset"
    let ?tel = "test_loader_of tiny_dataset"
    let ?bad = "train_loader_of mislabelled"
    let ?old = "runs fresh_state"
    let ?R0 = "new_run fresh_state"
    let ?R1 = "?R0\<lparr>params_of := [(''learning_rate'', 0.003)]\<rparr>"
    let ?R2 = "?R0\<lparr>params_of := [(''learning_rate'', 0.003), (''momentum'', 0.003)]\<rparr>"
    let ?T1 = "fresh_state\<lparr>requests := Suc (requests fresh_state), runs := ?old @ [?R0],
        active_run := Some (length ?old)\<rparr>"
    let ?T2 = "?T1\<lparr>requests := Suc (requests ?T1), runs := ?old @ [?R1]\<rparr>"
    let ?T3 = "?T1\<lparr>requests := Suc (Suc (requests ?T1)), runs := ?old @ [?R2]\<rparr>"
    note bat = failures_propagate [THEN conjunct2, THEN conjunct2, THEN conjunct1]
    note loop = failures_propagate [THEN conjunct2, THEN conjunct2, THEN conjunct2, THEN conjunct1]
    note pass = failures_propagate [THEN conjunct2, THEN conjunct2, THEN conjunct2, THEN conjunct2,
        THEN conjunct1]
    note epo = failures_propagate [THEN conjunct2, THEN conjunct2, THEN conjunct2, THEN conjunct2,
        THEN conjunct2, THEN conjunct1]
    note body = failures_propagate [THEN conjunct2, THEN conjunct2, THEN conjunct2, THEN conjunct2,
        THEN conjunct2, THEN conjunct2, THEN conjunct1]
    note wth = failures_propagate [THEN conjunct2, THEN conjunct2, THEN conjunct2, THEN conjunct2,
        THEN conjunct2, THEN conjunct2, THEN conjunct2, THEN conjunct1]
    note trk = failures_propagate [THEN conjunct2, THEN conjunct2, THEN conjunct2, THEN conjunct2,
        THEN conjunct2, THEN conjunct2, THEN conjunct2, THEN conjunct2, THEN conjunct2,
        THEN conjunct2, THEN conjunct1]
    have t0: "topology ?m0 = [(784, 128), (128, 64), (64, 10)]" by (rule topology_init)
    have tt: "topology (train_mode ?m0) = [(784, 128), (128, 64), (64, 10)]"
      by (simp add: topology_train_mode topology_init)
    have gl: "good_loader ?trl" "good_loader ?tel"
      by (simp_all add: good_train_loader good_test_loader mnist_like_tiny)
    note a0 = fresh_state_fields(4)
    have a1: "active_run ?T1 = Some (length ?old)" and r1: "runs ?T1 = ?old @ [?R0]"
      and p1: "params_of ?R0 = []"
      by (simp_all add: new_run_def)
    have a3: "active_run ?T3 = Some (length ?old)" and r3: "runs ?T3 = ?old @ [?R2]"
      by simp_all
    have sr: "start_run env fresh_state = Inr (length ?old, ?T1)"
      if "server_up env (tracking_uri fresh_state) (requests fresh_state)" for env :: "unit env"
      using that by (simp add: start_run_fresh [OF a0])
    have k2: "start_run down_env fresh_state = Inl (ConnectionError, fresh_state)"
      by (rule trk [THEN mp, OF down_env_fresh(1), THEN conjunct2, THEN conjunct1, THEN mp,
            OF down_env_fresh(2)])
    from wth [THEN conjunct1, THEN mp, OF k2]
    have c1: "cell_train down_env ?opt ?trl ?tel (?m0, ()) fresh_state
        = Inl (ConnectionError, fresh_state)" .
    have c2: "fst (projl (cell_train demo_env ?opt ?bad ?tel (?m0, ()) fresh_state)) = IndexError
      \<and> map status (runs (snd (projl (cell_train demo_env ?opt ?bad ?tel (?m0, ())
            fresh_state)))) = [FAILED]"
    proof -
      have up: "server_up demo_env (tracking_uri fresh_state) k" for k
        using fresh_state_facts(3) by blast
      have up1: "server_up demo_env (tracking_uri ?T1) k" for k
        using up by simp
      note lp1 = log_params_ok(1) [OF a1 r1 p1 up1]
      note lp2 = log_params_ok(2) [OF a1 r1 p1 up1 up1]
      from mislabelled_loss [OF tt] obtain images logits where
        h: "collate mislabelled = Inr (images, [11]) \<and> forward (train_mode ?m0) images = Inr logits
          \<and> CrossEntropyLoss logits [11] = Inl IndexError"
        by blast
      note tb = bat [THEN conjunct2, THEN conjunct2, THEN mp, OF h, THEN conjunct1]
      have "train_loop demo_env ?opt [] (train_mode ?m0, (), 0) = Inr (train_mode ?m0, (), 0)"
        by simp
      from loop [THEN conjunct1, THEN mp, OF conjI [OF this tb], of "[]"]
      have "train_loop demo_env ?opt (batches ?bad (rng demo_env 0)) (train_mode ?m0, (), 0)
          = Inl IndexError"
        by (simp add: batches_datasets)
      from pass [THEN conjunct1, THEN mp, OF this]
      have "train_pass demo_env ?opt ?bad 0 (?T3, ?m0, ()) = Inl (IndexError, ?T3)" .
      from epo [THEN conjunct1, THEN mp, OF this]
      have ep: "epoch demo_env ?opt ?bad ?tel 0 (?T3, ?m0, ()) = Inl (IndexError, ?T3)" .
      have "epochs_loop demo_env ?opt ?bad ?tel [] (?T3, ?m0, ()) = Inr (?T3, ?m0, ())" by simp
      from epo [THEN conjunct2, THEN conjunct2, THEN mp, OF conjI [OF this ep], of "[1, 2, 3, 4]"]
      have "epochs_loop demo_env ?opt ?bad ?tel [0..<5] (?T3, fst (?m0, ()), snd (?m0, ()))
          = Inl (IndexError, ?T3)"
        unfolding upt_5 by (simp only: fst_conv snd_conv)
      from body [THEN conjunct2, THEN conjunct2, THEN conjunct1, THEN mp,
          OF conjI [OF lp1 conjI [OF lp2 this]]]
      have bd: "training_body demo_env ?opt ?bad ?tel (?m0, ()) (length ?old) ?T1
          = Inl (IndexError, ?T3)" .
      let ?T4 = "?T3\<lparr>requests := Suc (requests ?T3), runs := ?old @ [?R2\<lparr>status := FAILED\<rparr>],
          active_run := None\<rparr>"
      have er: "end_run demo_env FAILED ?T3 = Inr ?T4"
        using up by (subst end_run_last [OF a3 r3]) simp
      from wth [THEN conjunct2, THEN conjunct1, THEN mp, OF conjI [OF sr [OF up] conjI [OF bd er]]]
      have "cell_train demo_env ?opt ?bad ?tel (?m0, ()) fresh_state = Inl (IndexError, ?T4)" .
      then show ?thesis by (simp add: fresh_state_fields)
    qed
    have c3: "fst (projl (cell_train (flaky_env 1) ?opt ?trl ?tel (?m0, ()) fresh_state))
          = ConnectionError
      \<and> map status (runs (snd (projl (cell_train (flaky_env 1) ?opt ?trl ?tel (?m0, ())
            fresh_state)))) = [RUNNING]"
    proof -
      have up0: "server_up (flaky_env 1) (tracking_uri fresh_state) (requests fresh_state)"
        by (simp add: flaky_env_up fresh_state_fields)
      have dn: "\<not> server_up (flaky_env 1) (tracking_uri ?T1) (requests ?T1)"
        by (simp add: flaky_env_up fresh_state_fields)
      from trk [THEN mp, OF dn, THEN conjunct2, THEN conjunct2, THEN conjunct1]
      have "log_param (flaky_env 1) ''learning_rate'' 0.003 ?T1 = Inl (ConnectionError, ?T1)" .
      from body [THEN conjunct1, THEN mp, OF this]
      have bd: "training_body (flaky_env 1) ?opt ?trl ?tel (?m0, ()) (length ?old) ?T1
          = Inl (ConnectionError, ?T1)" .
      have "active_run ?T1 \<noteq> None" by simp
      from trk [THEN mp, OF dn, THEN conjunct2, THEN conjunct2, THEN conjunct2, THEN conjunct2,
          THEN conjunct2, THEN conjunct2, THEN conjunct2, THEN mp, OF this]
      have er: "end_run (flaky_env 1) FAILED ?T1 = Inl (ConnectionError, ?T1)" .
      from wth [THEN conjunct2, THEN conjunct2, THEN conjunct1, THEN mp,
          OF conjI [OF sr [OF up0] conjI [OF bd er]]]
      have "cell_train (flaky_env 1) ?opt ?trl ?tel (?m0, ()) fresh_state
          = Inl (ConnectionError, ?T1)" .
      then show ?thesis by (simp add: fresh_state_fields new_run_def)
    qed
    have c4: "fst (projl (cell_train (flaky_env 15) ?opt ?trl ?tel (?m0, ()) fresh_state))
          = ConnectionError
      \<and> map status (runs (snd (projl (cell_train (flaky_env 15) ?opt ?trl ?tel (?m0, ())
            fresh_state)))) = [RUNNING]
      \<and> map fst (artifacts_of (last (runs (snd (projl (cell_train (flaky_env 15) ?opt ?trl ?tel
            (?m0, ()) fresh_state)))))) = [''mnist_model'']"
    proof -
      have up0: "server_up (flaky_env 15) (tracking_uri fresh_state) (requests fresh_state)"
        by (simp add: flaky_env_up fresh_state_fields)
      have ups: "\<forall>k < 14. server_up (flaky_env 15) (tracking_uri ?T1) (requests ?T1 + k)"
        by (simp add: flaky_env_up fresh_state_fields)
      from training_body_ok2 [OF a1 r1 p1 t0 gl ups, where opt = ?opt and os = "()"]
      obtain s2 m' os' d where
        bd: "training_body (flaky_env 15) ?opt ?trl ?tel (?m0, ()) (length ?old) ?T1
          = Inr (s2, m', os', d)"
        by blast
      from training_body_Inr [OF a1 r1 p1 bd] obtain ms where
        s2: "s2 = ?T1\<lparr>requests := requests ?T1 + 14,
                 runs := ?old @ [?R0\<lparr>params_of := [(''learning_rate'', 0.003), (''momentum'', 0.003)],
                                   metrics_of := metrics_of ?R0 @ ms,
                                   artifacts_of := (''mnist_model'', m') # artifacts_of ?R0\<rparr>],
                 registry := (registry ?T1)(''MNISTModel'' :=
                    registry ?T1 ''MNISTModel'' @ [(length ?old, ''mnist_model'')])\<rparr>"
        by blast
      have dn: "\<not> server_up (flaky_env 15) (tracking_uri s2) (requests s2)"
        unfolding s2 by (simp add: flaky_env_up fresh_state_fields)
      have "active_run s2 \<noteq> None" unfolding s2 by simp
      from trk [THEN mp, OF dn, THEN conjunct2, THEN conjunct2, THEN conjunct2, THEN conjunct2,
          THEN conjunct2, THEN conjunct2, THEN conjunct2, THEN mp, OF this]
      have er: "end_run (flaky_env 15) FINISHED s2 = Inl (ConnectionError, s2)" .
      from wth [THEN conjunct2, THEN conjunct2, THEN conjunct2, THEN mp,
          OF conjI [OF sr [OF up0] conjI [OF bd er]]]
      have "cell_train (flaky_env 15) ?opt ?trl ?tel (?m0, ()) fresh_state
          = Inl (ConnectionError, s2)" .
      then show ?thesis unfolding s2 by (simp add: fresh_state_fields new_run_def)
    qed
    from c1 c2 [THEN conjunct1] c2 [THEN conjunct2] c3 [THEN conjunct1] c3 [THEN conjunct2]
      c4 [THEN conjunct1] c4 [THEN conjunct2, THEN conjunct1] c4 [THEN conjunct2, THEN conjunct2]
    show ?thesis by (intro conjI)
  qed
  have part7:
    "cell_data offline_env = Inl RuntimeError
   \<and> cell_data half_env = Inl RuntimeError
   \<and> cell_load down_env fresh_state = Inl (ConnectionError, fresh_state)
   \<and> fst (projl (script (flaky_env 1) empty_server)) = ConnectionError
   \<and> script half_env empty_server
       = Inl (RuntimeError, projr (cell_tracking half_env empty_server))
   \<and> artifacts_of (last (runs (snd (projl (script odd_env empty_server))))) = []
   \<and> fst (projl (script demo_env (stale_server []))) = MlflowException
   \<and> fst (projl (script demo_env
        (stale_server [(''mnist_model'', layers (3, 128) (128, 64) (64, 10))]))) = RuntimeError"
  proof -
    let ?opt = "SGD 0.003 0.9"
    let ?trl = "train_loader_of tiny_dataset"
    let ?tel = "test_loader_of tiny_dataset"
    note prd = failures_propagate [THEN conjunct2, THEN conjunct2, THEN conjunct2, THEN conjunct2,
        THEN conjunct2, THEN conjunct2, THEN conjunct2, THEN conjunct2, THEN conjunct2,
        THEN conjunct1]
    note cel = failures_propagate [THEN conjunct2, THEN conjunct2, THEN conjunct2, THEN conjunct2,
        THEN conjunct2, THEN conjunct2, THEN conjunct2, THEN conjunct2, THEN conjunct1]
    note trk = failures_propagate [THEN conjunct2, THEN conjunct2, THEN conjunct2, THEN conjunct2,
        THEN conjunct2, THEN conjunct2, THEN conjunct2, THEN conjunct2, THEN conjunct2,
        THEN conjunct2, THEN conjunct1]
    note cel1 = cel [THEN conjunct1]
    note cel2 = cel [THEN conjunct2, THEN conjunct1]
    note cel3 = cel [THEN conjunct2, THEN conjunct2, THEN conjunct1]
    note cel4 = cel [THEN conjunct2, THEN conjunct2, THEN conjunct2, THEN conjunct1]
    note cel5 = cel [THEN conjunct2, THEN conjunct2, THEN conjunct2, THEN conjunct2, THEN conjunct1]
    note cel6 = cel [THEN conjunct2, THEN conjunct2, THEN conjunct2, THEN conjunct2, THEN conjunct2,
        THEN conjunct1]
    note cel7 = cel [THEN conjunct2, THEN conjunct2, THEN conjunct2, THEN conjunct2, THEN conjunct2,
        THEN conjunct2, THEN conjunct1]
    note cel8 = cel [THEN conjunct2, THEN conjunct2, THEN conjunct2, THEN conjunct2, THEN conjunct2,
        THEN conjunct2, THEN conjunct2]
    from cel1 [THEN mp, OF env_facts(1)]
    have d1: "cell_data offline_env = Inl RuntimeError" .
    from cel2 [THEN mp, OF conjI [OF env_facts(2,3)]]
    have d2: "cell_data half_env = Inl RuntimeError" .
    have "load_model down_env (ModelsUri ''MNISTModel'' 1) fresh_state
          = Inl (ConnectionError, fresh_state)"
      by (rule trk [THEN mp, OF down_env_fresh(1), THEN conjunct2, THEN conjunct2, THEN conjunct2,
            THEN conjunct2, THEN conjunct2, THEN conjunct2, THEN conjunct1])
    from cel3 [THEN mp, OF this]
    have d3: "cell_load down_env fresh_state = Inl (ConnectionError, fresh_state)" .
    from cell_tracking_flaky_1 obtain sf where
      "cell_tracking (flaky_env 1) empty_server = Inl (ConnectionError, sf)"
      by blast
    from cel4 [THEN mp, OF this]
    have "script (flaky_env 1) empty_server = Inl (ConnectionError, sf)" .
    then have d4: "fst (projl (script (flaky_env 1) empty_server)) = ConnectionError" by simp
    from cell_tracking_ok [OF env_facts(4)] obtain sh where
      cth: "cell_tracking half_env empty_server = Inr sh"
      by blast
    from cel5 [THEN mp, OF conjI [OF cth d2]]
    have "script half_env empty_server = Inl (RuntimeError, sh)" .
    then have d5: "script half_env empty_server
         = Inl (RuntimeError, projr (cell_tracking half_env empty_server))"
      by (simp add: cth)
    have d6: "artifacts_of (last (runs (snd (projl (script odd_env empty_server))))) = []"
    proof -
      from cell_tracking_ok [OF odd_env_facts(1)] obtain t0 where
        ct: "cell_tracking odd_env empty_server = Inr t0"
        by blast
      from cell_tracking_Inr [OF ct] have
        a0: "active_run t0 = None" and u0: "tracking_uri t0 = Some ''http://localhost:5000''"
        and r0: "runs t0 = runs empty_server"
        by simp_all
      have up0: "\<forall>k. server_up odd_env (tracking_uri t0) k" using odd_env_facts(1) u0 by simp
      have cd: "cell_data odd_env = Inr (odd_dataset, odd_dataset)"
        by (simp add: cell_data_def odd_env_facts)
      from odd_env_facts(5) obtain images where
        co: "collate odd_dataset = Inr (images, [7])" and n: "numel images = 9"
        by blast
      have fw: "forward (train_mode (SimpleNN_init (init_params odd_env))) images = Inl RuntimeError"
        by (rule forward_rejects) (simp add: n)
      have tb: "train_batch odd_env ?opt odd_dataset
          (train_mode (SimpleNN_init (init_params odd_env)), opt_init odd_env) = Inl RuntimeError"
        using co fw by (rule train_batch_forward_fails)
      note cell_train_first_batch_fails [OF a0 up0 odd_env_facts(4) tb, of "test_loader_of odd_dataset"]
      from cel6 [THEN mp, OF conjI [OF ct conjI [OF cd this]]]
      have "script odd_env empty_server = Inl (RuntimeError,
          t0\<lparr>requests := requests t0 + 4, runs := runs t0 @ [failed_run t0], active_run := None\<rparr>)" .
      then show ?thesis by (simp add: r0 empty_server_def failed_run_def)
    qed
    have d7: "fst (projl (script demo_env (stale_server []))) = MlflowException"
    proof -
      from stale_training [of "[]"] obtain s0 s1 m' os' d where
        ct: "cell_tracking demo_env (stale_server []) = Inr s0"
        and tc: "cell_train demo_env ?opt ?trl ?tel
            (SimpleNN_init (init_params demo_env), opt_init demo_env) s0 = Inr (s1, m', os', d)"
        and up: "server_up demo_env (tracking_uri s1) (requests s1)"
        and rs: "resolve s1 (ModelsUri ''MNISTModel'' 1) = Inl MlflowException"
        by auto
      have "load_model demo_env (ModelsUri ''MNISTModel'' 1) s1
          = Inl (MlflowException, s1\<lparr>requests := Suc (requests s1)\<rparr>)"
        using up rs by (simp add: load_model_eq)
      from cel3 [THEN mp, OF this]
      have "cell_load demo_env s1 = Inl (MlflowException, s1\<lparr>requests := Suc (requests s1)\<rparr>)" .
      from cel7 [THEN mp, OF conjI [OF ct conjI [OF env_facts(9) conjI [OF tc this]]]]
      have "script demo_env (stale_server [])
          = Inl (MlflowException, s1\<lparr>requests := Suc (requests s1)\<rparr>)" .
      then show ?thesis by simp
    qed
    have d8: "fst (projl (script demo_env
          (stale_server [(''mnist_model'', layers (3, 128) (128, 64) (64, 10))]))) = RuntimeError"
    proof -
      let ?M = "layers (3, 128) (128, 64) (64, 10)"
      from stale_training [of "[(''mnist_model'', ?M)]"] obtain s0 s1 m' os' d where
        ct: "cell_tracking demo_env (stale_server [(''mnist_model'', ?M)]) = Inr s0"
        and tc: "cell_train demo_env ?opt ?trl ?tel
            (SimpleNN_init (init_params demo_env), opt_init demo_env) s0 = Inr (s1, m', os', d)"
        and up: "server_up demo_env (tracking_uri s1) (requests s1)"
        and rs: "resolve s1 (ModelsUri ''MNISTModel'' 1) = Inr ?M"
        by auto
      note cl = cell_load_ok [OF up rs]
      have g: "getitem tiny_dataset 0 = Inr (transform blank_image, 7)"
        unfolding tiny_dataset_def by (rule getitem_first)
      from prd [THEN conjunct2, THEN conjunct1, THEN mp, OF conjI [OF g narrow_forward]]
      have pv: "predict_and_visualize ?M tiny_dataset 0 = Inl RuntimeError" .
      from cel8 [THEN mp, OF conjI [OF ct conjI [OF env_facts(9) conjI [OF tc conjI [OF cl pv]]]]]
      have "script demo_env (stale_server [(''mnist_model'', ?M)])
          = Inl (RuntimeError, s1\<lparr>requests := Suc (requests s1)\<rparr>)" .
      then show ?thesis by simp
    qed
    from d1 d2 d3 d4 d5 d6 d7 d8 show ?thesis by (intro conjI)
  qed
  have part8:
    "fst (projl (script mixed_env empty_server)) = IndexError
   \<and> map status (runs (snd (projl (script mixed_env empty_server)))) = [FAILED]
   \<and> metric_keys (metrics_of (last (runs (snd (projl (script mixed_env empty_server))))))
       = [(''average_train_loss'', 0)]
   \<and> fst (projl (script (flaky_env 7) empty_server)) = ConnectionError
   \<and> map status (runs (snd (projl (script (flaky_env 7) empty_server)))) = [RUNNING]
   \<and> metric_keys (metrics_of (last (runs (snd (projl (script (flaky_env 7) empty_server))))))
       = [(''average_train_loss'', 0), (''average_test_loss'', 0)]
   \<and> fst (projl (epochs_loop (flaky_env 5) (SGD 0.003 0.9) (train_loader_of tiny_dataset)
        (test_loader_of tiny_dataset) ([0] @ 1 # [2, 3, 4])
        (running_state, SimpleNN_init zero_params, ()))) = ConnectionError
   \<and> metric_keys (metrics_of (last (runs (snd (projl (epochs_loop (flaky_env 5) (SGD 0.003 0.9)
        (train_loader_of tiny_dataset) (test_loader_of tiny_dataset) ([0] @ 1 # [2, 3, 4])
        (running_state, SimpleNN_init zero_params, ())))))))
       = [(''average_train_loss'', 0), (''average_test_loss'', 0)]"
  proof -
    let ?m0 = "SimpleNN_init zero_params"
    let ?opt = "SGD 0.003 0.9"
    let ?trl = "train_loader_of tiny_dataset"
    let ?tel = "test_loader_of tiny_dataset"
    let ?bad = "test_loader_of mislabelled"
    let ?url = "Some ''http://localhost:5000''"
    note bat = failures_propagate [THEN conjunct2, THEN conjunct2, THEN conjunct1]
    note loop = failures_propagate [THEN conjunct2, THEN conjunct2, THEN conjunct2, THEN conjunct1]
    note pass = failures_propagate [THEN conjunct2, THEN conjunct2, THEN conjunct2, THEN conjunct2,
        THEN conjunct1]
    note epo = failures_propagate [THEN conjunct2, THEN conjunct2, THEN conjunct2, THEN conjunct2,
        THEN conjunct2, THEN conjunct1]
    note trk = failures_propagate [THEN conjunct2, THEN conjunct2, THEN conjunct2, THEN conjunct2,
        THEN conjunct2, THEN conjunct2, THEN conjunct2, THEN conjunct2, THEN conjunct2,
        THEN conjunct2, THEN conjunct1]
    note cmp = failures_propagate [THEN conjunct2, THEN conjunct2, THEN conjunct2, THEN conjunct2,
        THEN conjunct2, THEN conjunct2, THEN conjunct2, THEN conjunct2, THEN conjunct2,
        THEN conjunct2, THEN conjunct2, THEN conjunct1]
    have gl: "good_loader ?trl" "good_loader ?tel"
      by (simp_all add: good_train_loader good_test_loader mnist_like_tiny)
    have gt: "b \<noteq> [] \<and> mnist_like b" if "b \<in> set [tiny_dataset]" for b
      using that mnist_like_tiny by simp
    have down_epoch: "epoch env ?opt ?trl ?tel e (s, m, os) = Inl (ConnectionError, s)"
      if t: "topology m = [(784, 128), (128, 64), (64, 10)]"
        and dn: "\<not> server_up env (tracking_uri s) (requests s)"
      for env :: "unit env" and e s m os
    proof -
      have tt: "topology (train_mode m) = [(784, 128), (128, 64), (64, 10)]"
        using t by (simp add: topology_train_mode)
      from train_loop_ok [OF tt gt, where env = env and opt = ?opt and os = os and acc = 0]
      obtain m1 os1 rl where
        tl: "train_loop env ?opt [tiny_dataset] (train_mode m, os, 0) = Inr (m1, os1, rl)"
        by blast
      have lm: "log_metric env ''average_train_loss'' (rl / real (len_loader ?trl)) e s
          = Inl (ConnectionError, s)"
        by (rule trk [THEN mp, OF dn, THEN conjunct2, THEN conjunct2, THEN conjunct2,
              THEN conjunct1])
      have "train_loop env ?opt (batches ?trl (rng env e)) (train_mode m, os, 0) = Inr (m1, os1, rl)
          \<and> len_loader ?trl \<noteq> 0
          \<and> log_metric env ''average_train_loss'' (rl / real (len_loader ?trl)) e s
              = Inl (ConnectionError, s)"
        unfolding batches_datasets(3) using tl batches_datasets(5) lm by (intro conjI)
      from pass [THEN conjunct2, THEN conjunct2, THEN conjunct1, THEN mp, OF this]
      have "train_pass env ?opt ?trl e (s, m, os) = Inl (ConnectionError, s)" .
      from epo [THEN conjunct1, THEN mp, OF this] show ?thesis .
    qed
    have g1: "fst (projl (script mixed_env empty_server)) = IndexError
      \<and> map status (runs (snd (projl (script mixed_env empty_server)))) = [FAILED]
      \<and> metric_keys (metrics_of (last (runs (snd (projl (script mixed_env empty_server))))))
         = [(''average_train_loss'', 0)]"
    proof -
      from cell_tracking_ok [OF env_facts(5)] obtain s0 where
        ct: "cell_tracking mixed_env empty_server = Inr s0"
        by blast
      from cell_tracking_Inr [OF ct] have
        a0: "active_run s0 = None" and u0: "tracking_uri s0 = ?url"
        and r0: "runs s0 = runs empty_server"
        by simp_all
      have up: "server_up mixed_env (tracking_uri s) k" if "tracking_uri s = ?url" for s k
        using env_facts(5) that by simp
      from run_opened [OF a0 up [OF u0] up [OF u0] up [OF u0]] obtain s1 s2 s3 where
        sr: "start_run mixed_env s0 = Inr (length (runs s0), s1)"
        and lp1: "log_param mixed_env ''learning_rate'' 0.003 s1 = Inr s2"
        and lp2: "log_param mixed_env ''momentum'' 0.003 s2 = Inr s3"
        and a3: "active_run s3 = Some (length (runs s0))"
        and r3: "runs s3 = runs s0 @ [(new_run s0)\<lparr>params_of :=
            [(''learning_rate'', 0.003), (''momentum'', 0.003)]\<rparr>]"
        and u3: "tracking_uri s3 = tracking_uri s0"
        by blast
      let ?r = "(new_run s0)\<lparr>params_of := [(''learning_rate'', 0.003), (''momentum'', 0.003)]\<rparr>"
      let ?mi = "SimpleNN_init (init_params mixed_env)"
      have u3': "tracking_uri s3 = ?url" using u3 u0 by simp
      from train_pass_ok [OF a3 r3 topology_init [of "init_params mixed_env"] gl(1) up [OF u3'],
          where e = 0 and os = "opt_init mixed_env" and opt = ?opt]
      obtain sA mA osA where
        tp: "train_pass mixed_env ?opt ?trl 0 (s3, ?mi, opt_init mixed_env) = Inr (sA, mA, osA)"
        and tA: "topology mA = [(784, 128), (128, 64), (64, 10)]"
        by blast
      from train_pass_Inr [OF a3 r3 tp] obtain rl where
        sA: "sA = s3\<lparr>requests := Suc (requests s3),
                 runs := runs s0 @ [?r\<lparr>metrics_of := metrics_of ?r @
                    [(''average_train_loss'', rl / real (len_loader ?trl), 0)]\<rparr>]\<rparr>"
        by blast
      let ?rA = "?r\<lparr>metrics_of := metrics_of ?r @
          [(''average_train_loss'', rl / real (len_loader ?trl), 0)]\<rparr>"
      from mislabelled_loss [of "eval_mode mA"] tA obtain images logits where
        h: "collate mislabelled = Inr (images, [11]) \<and> forward (eval_mode mA) images = Inr logits
          \<and> CrossEntropyLoss logits [11] = Inl IndexError"
        by (auto simp: topology_eval_mode)
      note eb = bat [THEN conjunct2, THEN conjunct2, THEN mp, OF h, THEN conjunct2]
      have "eval_loop (eval_mode mA) [] 0 = Inr 0" by simp
      from loop [THEN conjunct2, THEN mp, OF conjI [OF this eb], of "[]"]
      have "eval_loop (eval_mode mA) (batches ?bad (rng mixed_env 0)) 0 = Inl IndexError"
        by (simp add: batches_datasets)
      from pass [THEN conjunct2, THEN conjunct2, THEN conjunct2, THEN conjunct1, THEN mp, OF this]
      have "test_pass mixed_env ?bad 0 (sA, mA, osA) = Inl (IndexError, sA)" .
      from epo [THEN conjunct2, THEN conjunct1, THEN mp, OF conjI [OF tp this]]
      have ep: "epoch mixed_env ?opt ?trl ?bad 0 (s3, ?mi, opt_init mixed_env)
          = Inl (IndexError, sA)" .
      have el: "epochs_loop mixed_env ?opt ?trl ?bad [0..<0] (s3, ?mi, opt_init mixed_env)
          = Inr (s3, ?mi, opt_init mixed_env)"
        by simp
      have lt: "(0::nat) < 5" by simp
      from cmp [THEN mp, OF conjI [OF ct conjI [OF env_facts(8) conjI [OF sr conjI [OF lp1
          conjI [OF lp2 conjI [OF lt conjI [OF el ep]]]]]]]]
      have sc: "script mixed_env empty_server =
          (case end_run mixed_env FAILED sA of Inl x \<Rightarrow> Inl x | Inr t' \<Rightarrow> Inl (IndexError, t'))" .
      have aA: "active_run sA = Some (length (runs s0))" and rA: "runs sA = runs s0 @ [?rA]"
        and uA: "tracking_uri sA = ?url"
        unfolding sA using a3 u3' by simp_all
      have er: "end_run mixed_env FAILED sA =
          Inr (sA\<lparr>requests := Suc (requests sA), runs := runs s0 @ [?rA\<lparr>status := FAILED\<rparr>],
                 active_run := None\<rparr>)"
        using up [OF uA] by (subst end_run_last [OF aA rA]) simp
      have "script mixed_env empty_server =
          Inl (IndexError, sA\<lparr>requests := Suc (requests sA),
                 runs := runs s0 @ [?rA\<lparr>status := FAILED\<rparr>], active_run := None\<rparr>)"
        unfolding sc er by simp
      then show ?thesis
        by (simp add: r0 empty_server_def new_run_def metric_keys_def)
    qed
    have later: "\<exists>sA mA osA ms.
          epochs_loop (flaky_env n) ?opt ?trl ?tel [0..<1] (s, m, os) = Inr (sA, mA, osA)
        \<and> epoch (flaky_env n) ?opt ?trl ?tel 1 (sA, mA, osA) = Inl (ConnectionError, sA)
        \<and> runs sA = old @ [r\<lparr>metrics_of := metrics_of r @ ms\<rparr>]
        \<and> metric_keys ms = [(''average_train_loss'', 0), (''average_test_loss'', 0)]
        \<and> active_run sA \<noteq> None
        \<and> \<not> server_up (flaky_env n) (tracking_uri sA) (requests sA)"
      if a: "active_run s = Some (length old)" and r: "runs s = old @ [r]"
        and t: "topology m = [(784, 128), (128, 64), (64, 10)]"
        and u: "tracking_uri s = ?url" and n: "n = requests s + 2"
      for n s m os old r
    proof -
      have ups: "\<forall>k < 2 * length [0..<1::nat].
          server_up (flaky_env n) (tracking_uri s) (requests s + k)"
        using n u by (simp add: flaky_env_up)
      from epochs_loop_ok2 [OF a r t gl ups, where opt = ?opt and os = os]
      obtain sA mA osA where
        el: "epochs_loop (flaky_env n) ?opt ?trl ?tel [0..<1] (s, m, os) = Inr (sA, mA, osA)"
        and tA: "topology mA = [(784, 128), (128, 64), (64, 10)]"
        by blast
      from epochs_loop_Inr [OF a r el] obtain ms where
        sA: "sA = s\<lparr>requests := requests s + 2 * length [0..<1::nat],
                 runs := old @ [r\<lparr>metrics_of := metrics_of r @ ms\<rparr>]\<rparr>"
        and mk: "metric_keys ms = expected_keys [0..<1]"
        by blast
      have dn: "\<not> server_up (flaky_env n) (tracking_uri sA) (requests sA)"
        unfolding sA using n u by (simp add: flaky_env_up)
      have f: "runs sA = old @ [r\<lparr>metrics_of := metrics_of r @ ms\<rparr>]" "active_run sA \<noteq> None"
        unfolding sA using a by simp_all
      have mk': "metric_keys ms = [(''average_train_loss'', 0), (''average_test_loss'', 0)]"
        using mk by (simp add: expected_keys_def upt_1)
      from el down_epoch [OF tA dn, of 1 osA] f mk' dn show ?thesis by blast
    qed
    have g2: "fst (projl (script (flaky_env 7) empty_server)) = ConnectionError
      \<and> map status (runs (snd (projl (script (flaky_env 7) empty_server)))) = [RUNNING]
      \<and> metric_keys (metrics_of (last (runs (snd (projl (script (flaky_env 7) empty_server))))))
         = [(''average_train_loss'', 0), (''average_test_loss'', 0)]"
    proof -
      from cell_tracking_flaky [of 7] obtain s0 where
        ct: "cell_tracking (flaky_env 7) empty_server = Inr s0"
        and a0: "active_run s0 = None" and r0: "runs s0 = []"
        and u0: "tracking_uri s0 = ?url" and q0: "requests s0 = 2"
        by auto
      have up: "server_up (flaky_env 7) (tracking_uri s0) (requests s0)"
        "server_up (flaky_env 7) (tracking_uri s0) (Suc (requests s0))"
        "server_up (flaky_env 7) (tracking_uri s0) (Suc (Suc (requests s0)))"
        by (simp_all add: flaky_env_up u0 q0)
      from run_opened [OF a0 up] obtain s1 s2 s3 where
        sr: "start_run (flaky_env 7) s0 = Inr (length (runs s0), s1)"
        and lp1: "log_param (flaky_env 7) ''learning_rate'' 0.003 s1 = Inr s2"
        and lp2: "log_param (flaky_env 7) ''momentum'' 0.003 s2 = Inr s3"
        and a3: "active_run s3 = Some (length (runs s0))"
        and r3: "runs s3 = runs s0 @ [(new_run s0)\<lparr>params_of :=
            [(''learning_rate'', 0.003), (''momentum'', 0.003)]\<rparr>]"
        and q3: "requests s3 = requests s0 + 3"
        and u3: "tracking_uri s3 = tracking_uri s0"
        by blast
      let ?r = "(new_run s0)\<lparr>params_of := [(''learning_rate'', 0.003), (''momentum'', 0.003)]\<rparr>"
      let ?mi = "SimpleNN_init (init_params (flaky_env 7))"
      have u3': "tracking_uri s3 = ?url" using u3 u0 by simp
      have n: "7 = requests s3 + 2" using q3 q0 by simp
      from later [OF a3 r3 topology_init [of "init_params (flaky_env 7)"] u3' n,
          of "opt_init (flaky_env 7)"]
      obtain sA mA osA ms where
        el: "epochs_loop (flaky_env 7) ?opt ?trl ?tel [0..<1] (s3, ?mi, opt_init (flaky_env 7))
            = Inr (sA, mA, osA)"
        and ep: "epoch (flaky_env 7) ?opt ?trl ?tel 1 (sA, mA, osA) = Inl (ConnectionError, sA)"
        and rA: "runs sA = runs s0 @ [?r\<lparr>metrics_of := metrics_of ?r @ ms\<rparr>]"
        and mk: "metric_keys ms = [(''average_train_loss'', 0), (''average_test_loss'', 0)]"
        and aA: "active_run sA \<noteq> None"
        and dn: "\<not> server_up (flaky_env 7) (tracking_uri sA) (requests sA)"
        by blast
      have lt: "(1::nat) < 5" by simp
      from cmp [THEN mp, OF conjI [OF ct conjI [OF env_facts(10) conjI [OF sr conjI [OF lp1
          conjI [OF lp2 conjI [OF lt conjI [OF el ep]]]]]]]]
      have sc: "script (flaky_env 7) empty_server =
          (case end_run (flaky_env 7) FAILED sA of Inl x \<Rightarrow> Inl x
           | Inr t' \<Rightarrow> Inl (ConnectionError, t'))" .
      from trk [THEN mp, OF dn, THEN conjunct2, THEN conjunct2, THEN conjunct2, THEN conjunct2,
          THEN conjunct2, THEN conjunct2, THEN conjunct2, THEN mp, OF aA]
      have er: "end_run (flaky_env 7) FAILED sA = Inl (ConnectionError, sA)" .
      have "script (flaky_env 7) empty_server = Inl (ConnectionError, sA)"
        unfolding sc er by simp
      then show ?thesis
        by (simp add: rA r0 mk new_run_def)
    qed
    have g3: "fst (projl (epochs_loop (flaky_env 5) ?opt ?trl ?tel ([0] @ 1 # [2, 3, 4])
          (running_state, ?m0, ()))) = ConnectionError
      \<and> metric_keys (metrics_of (last (runs (snd (projl (epochs_loop (flaky_env 5) ?opt ?trl ?tel
          ([0] @ 1 # [2, 3, 4]) (running_state, ?m0, ())))))))
         = [(''average_train_loss'', 0), (''average_test_loss'', 0)]"
    proof -
      have n: "5 = requests running_state + 2" by (simp add: running_state_fields)
      from later [OF running_state_facts(1,2) topology_init [of zero_params]
          running_state_fields(1) n, of "()"]
      obtain sA mA osA ms where
        el: "epochs_loop (flaky_env 5) ?opt ?trl ?tel [0..<1] (running_state, ?m0, ())
            = Inr (sA, mA, osA)"
        and ep: "epoch (flaky_env 5) ?opt ?trl ?tel 1 (sA, mA, osA) = Inl (ConnectionError, sA)"
        and rA: "runs sA = [] @ [\<lparr>experiment_of = ''mnist_pytorch_experiment'', status = RUNNING,
                 params_of = [], metrics_of = [], artifacts_of = []\<rparr>\<lparr>metrics_of :=
              metrics_of \<lparr>experiment_of = ''mnist_pytorch_experiment'', status = RUNNING,
                 params_of = [], metrics_of = [], artifacts_of = []\<rparr> @ ms\<rparr>]"
        and mk: "metric_keys ms = [(''average_train_loss'', 0), (''average_test_loss'', 0)]"
        by blast
      have el': "epochs_loop (flaky_env 5) ?opt ?trl ?tel [0] (running_state, ?m0, ())
            = Inr (sA, mA, osA)"
        using el unfolding upt_1 .
      from epo [THEN conjunct2, THEN conjunct2, THEN mp, OF conjI [OF el' ep], of "[2, 3, 4]"]
      have "epochs_loop (flaky_env 5) ?opt ?trl ?tel ([0] @ 1 # [2, 3, 4]) (running_state, ?m0, ())
          = Inl (ConnectionError, sA)" .
      then show ?thesis by (simp add: rA mk)
    qed
    from g1 [THEN conjunct1] g1 [THEN conjunct2, THEN conjunct1] g1 [THEN conjunct2, THEN conjunct2]
      g2 [THEN conjunct1] g2 [THEN conjunct2, THEN conjunct1] g2 [THEN conjunct2, THEN conjunct2]
      g3 [THEN conjunct1] g3 [THEN conjunct2]
    show ?thesis by (intro conjI)
  qed
  show ?thesis
    by (intro part1 part2 part3 part4 part5 part6 part7 part8 conjI)
qed

end
